theory Spec2Isabelle
  imports Main
begin

section \<open>FrameworkController: a shallow embedding of pkg/controller/controller.go\<close>

text \<open>
  The development follows \<^verbatim>\<open>pkg/controller/controller.go\<close>. Go structs are records that
  keep the field names of the source (qualified by the record where two structs share a
  field name), Go enumerations are datatypes, and a nil-able pointer is an \<open>option\<close>.

  Conventions of the embedding.
  \<^item> A Go method that mutates \<open>f\<close> or \<open>c\<close> takes the record and returns the updated one.
  \<^item> A panic (an index out of range, a nil dereference, an explicit \<^verbatim>\<open>panic\<close>) is the
    result \<open>None\<close>; a returned Go \<^verbatim>\<open>error\<close> is a value \<open>error option\<close> (\<open>None\<close> is nil).
  \<^item> \<^verbatim>\<open>int32\<close> and \<^verbatim>\<open>int64\<close> are \<open>int\<close>. The counts and indices of task slots cannot
    overflow for lists shorter than \<open>2^31\<close>; the retry counters can, and their increments
    wrap around (\<open>int32\<close> below).
  \<^item> A Go slice is a list, and a string a \<open>string\<close>; the nil slice of task roles of a spec
    is told from the empty one by a flag of the record.
  \<^item> Wall-clock time is an \<open>int\<close> (seconds); the controller reads one clock value \<open>now\<close>
    per sync.
  \<^item> Logging (\<^verbatim>\<open>klog\<close>) has no effect on the state and is left out.
  \<^item> The work queue is the log of the operations issued on it; the API server is the log
    of requests sent to it together with response functions of that log, so that nothing
    is assumed about what the server answers.
  The packages \<^verbatim>\<open>pkg/apis/frameworkcontroller/v1\<close>, \<^verbatim>\<open>pkg/common\<close> and \<^verbatim>\<open>pkg/internal\<close> are
  not part of the sources at hand. Their types and helpers are modelled from the
  specification document and from the way controller.go uses them; each such definition
  says so.
\<close>

subsection \<open>Data model\<close>

type_synonym UID = string
type_synonym time = int

datatype ExecutionType = ExecutionStart | ExecutionStop

datatype FrameworkState =
    FrameworkAttemptCreationPending
  | FrameworkAttemptCreationRequested
  | FrameworkAttemptPreparing
  | FrameworkAttemptRunning
  | FrameworkAttemptDeletionPending
  | FrameworkAttemptDeletionRequested
  | FrameworkAttemptDeleting
  | FrameworkAttemptCompleted
  | FrameworkCompleted

datatype TaskState =
    TaskAttemptCreationPending
  | TaskAttemptCreationRequested
  | TaskAttemptPreparing
  | TaskAttemptRunning
  | TaskAttemptDeletionPending
  | TaskAttemptDeletionRequested
  | TaskAttemptDeleting
  | TaskAttemptCompleted
  | TaskCompleted

datatype CompletionCode =
    CompletionCodeSucceeded
  | CompletionCodePodCreationTimeout
  | CompletionCodeConfigMapCreationTimeout
  | CompletionCodePodExternalDeleted
  | CompletionCodeConfigMapExternalDeleted
  | CompletionCodeStopFrameworkRequested
  | CompletionCodeDeleteTaskRequested
  | CompletionCodeFrameworkAttemptCompletion
  | CompletionCodePodSpecPermanentError
  | CompletionCodePodFailure int

datatype PodPhase = PodPending | PodRunning | PodSucceeded | PodFailed | PodUnknown | PodPhaseOther string

record RetryPolicySpec =
  MaxRetryCount :: int
  FancyRetryPolicy :: bool

record RetryPolicyStatus =
  TotalRetriedCount :: int
  AccountableRetriedCount :: int
  RetryDelaySec :: "int option"

record RetryDecision =
  ShouldRetry :: bool
  IsAccountable :: bool
  DelaySec :: int
  Reason :: string

record CompletionPolicySpec =
  MinFailedTaskCount :: int
  MinSucceededTaskCount :: int

record TaskSpec =
  RetryPolicy :: RetryPolicySpec
  PodGracefulDeletionTimeoutSec :: "int option"
  PodTemplate :: string

record TaskRoleSpec =
  Name :: string
  TaskNumber :: int
  FrameworkAttemptCompletionPolicy :: CompletionPolicySpec
  Task :: TaskSpec

text \<open>
  A Go slice is nil or holds its elements: \<^verbatim>\<open>TaskRolesIsNil\<close> tells the nil slice of task
  roles from the empty one, as \<^verbatim>\<open>reflect.DeepEqual\<close> does. A nil slice has no element.
\<close>

record FrameworkSpec =
  ExecutionType :: ExecutionType
  RetryPolicy :: RetryPolicySpec
  TaskRoles :: "TaskRoleSpec list"
  TaskRolesIsNil :: bool

text \<open>
  The pod capture of a completion status (\<^verbatim>\<open>ci.ExtractPodCompletionStatus\<close>) is opaque to
  the controller. The phrase and the type of a completion status are looked up from its
  code in a table of the absent package, so the record keeps the code and the
  diagnostics.
\<close>

type_synonym PodCompletionStatus = string

record TaskAttemptCompletionStatus =
  Code :: CompletionCode
  Diagnostics :: string
  Pod :: "PodCompletionStatus option"

record TaskAttemptStatus =
  ID :: int
  PodName :: string
  PodUID :: "UID option"
  InstanceUID :: "(int \<times> UID) option"
  PodNodeName :: "string option"
  PodIP :: "string option"
  PodHostIP :: "string option"
  CompletionStatus :: "TaskAttemptCompletionStatus option"

record TaskStatus =
  Index :: int
  State :: TaskState
  TransitionTime :: time
  CompletionTime :: "time option"
  DeletionPending :: bool
  RetryPolicyStatus :: RetryPolicyStatus
  AttemptStatus :: TaskAttemptStatus

record TaskRoleStatus =
  Name :: string
  PodGracefulDeletionTimeoutSec :: "int option"
  TaskStatuses :: "TaskStatus list"

record CompletionPolicyTriggerStatus =
  Message :: string
  TaskRoleName :: string
  TaskIndex :: int

text \<open>
  The constructors of a framework attempt's completion status live in the absent package.
  They are kept as free constructors over exactly the arguments controller.go passes, so
  that no theorem depends on how the package fills the fields.
\<close>

datatype FrameworkAttemptCompletionStatus =
    NewFrameworkAttemptCompletionStatus CompletionCode string "CompletionPolicyTriggerStatus option"
  | NewFailedTaskTriggeredCompletionStatus TaskStatus string int int
  | NewSucceededTaskTriggeredCompletionStatus TaskStatus string int int
  | NewCompletedTaskTriggeredCompletionStatus "TaskStatus option" string int int

record FrameworkAttemptStatus =
  ID :: int
  ConfigMapName :: string
  ConfigMapUID :: "UID option"
  InstanceUID :: "(int \<times> UID) option"
  CompletionStatus :: "FrameworkAttemptCompletionStatus option"
  TaskRoleStatuses :: "TaskRoleStatus list"

record FrameworkStatus =
  State :: FrameworkState
  TransitionTime :: time
  RetryPolicyStatus :: RetryPolicyStatus
  AttemptStatus :: FrameworkAttemptStatus

text \<open>
  A Framework object. The informer handlers read only the metadata and the spec of the
  objects they are handed, so they are stated over the record scheme of
  \<open>FrameworkObj\<close>; every function below \<^verbatim>\<open>syncFrameworkStatus\<close> runs after
  \<^verbatim>\<open>f.Status\<close> has been installed (line 708 of the source) and works on \<open>Framework\<close>,
  which carries the status.
\<close>

record FrameworkObj =
  Namespace :: string
  Name :: string
  UID :: UID
  DeletionTimestamp :: "time option"
  Spec :: FrameworkSpec

record Framework = FrameworkObj +
  Status :: FrameworkStatus

record ConfigMap =
  Name :: string
  UID :: UID
  DeletionTimestamp :: "time option"
  ControllerUID :: "UID option"

record Pod =
  Name :: string
  UID :: UID
  DeletionTimestamp :: "time option"
  ControllerUID :: "UID option"
  NodeName :: string
  PodIP :: string
  HostIP :: string
  Phase :: PodPhase
  Capture :: PodCompletionStatus

subsection \<open>The API server, the caches and the work queue\<close>

datatype api_error = ErrNotFound | ErrAlreadyExists | ErrOther string

definition IsNotFound :: "api_error \<Rightarrow> bool" where
  "IsNotFound e = (e = ErrNotFound)"

definition IsAlreadyExists :: "api_error \<Rightarrow> bool" where
  "IsAlreadyExists e = (e = ErrAlreadyExists)"

datatype DeletionPropagation = DeletePropagationForeground

record DeleteOptions =
  PreconditionsUID :: UID
  GracePeriodSeconds :: "int option"
  PropagationPolicy :: "DeletionPropagation option"

datatype request =
    FrameworksDelete string string DeleteOptions
  | FrameworksGet string string
  | ConfigMapsDelete string string DeleteOptions
  | ConfigMapsGet string string
  | ConfigMapsCreate string ConfigMap
  | PodsDelete string string DeleteOptions
  | PodsGet string string
  | PodsCreate string Pod

text \<open>
  The answers of the API server (\<^verbatim>\<open>kClient\<close>, \<^verbatim>\<open>fClient\<close>): each is a function of the
  requests sent so far, the last of which is the request being answered.
\<close>

record Remote =
  deleteResponse :: "request list \<Rightarrow> api_error option"
  getFrameworkResponse :: "request list \<Rightarrow> api_error + UID \<times> time option"
  getConfigMapResponse :: "request list \<Rightarrow> api_error + ConfigMap"
  getPodResponse :: "request list \<Rightarrow> api_error + Pod"
  createConfigMapResponse :: "request list \<Rightarrow> api_error + ConfigMap"
  createPodResponse :: "request list \<Rightarrow> api_error + Pod"

datatype queue_op = Add string | AddAfter string int

record Config =
  FrameworkCompletedRetainSec :: int
  ObjectLocalCacheCreationTimeoutSec :: int
  FrameworkMinRetryDelaySecForTransientConflictFailed :: int
  FrameworkMaxRetryDelaySecForTransientConflictFailed :: int

text \<open>
  Errors the controller returns. \<^verbatim>\<open>fmt.Errorf\<close> with an API error inside keeps the cause,
  since callers test it.
\<close>

datatype error =
    DeleteFailed api_error
  | GetAfterDeleteFailed api_error
  | StillExistsAfterDeletion "time option"
  | GetFailed api_error
  | CreateFailed api_error
  | NamingConflict api_error
  | UnrecognizedPodPhase PodPhase
  | Aggregate "error list"

text \<open>
  The controller \<open>c\<close>: its configuration, its clients and listers, its queue, the clock,
  and the functions of the absent packages that the specification leaves open
  (the retry evaluator draws a random delay; the pod failure table is configuration).
  \<^verbatim>\<open>SecToDurationText\<close> is the text that \<^verbatim>\<open>%v\<close> prints for \<^verbatim>\<open>common.SecToDuration\<close> of a
  number of seconds, and \<^verbatim>\<open>ToJson\<close> is \<^verbatim>\<open>common.ToJson\<close> on an API error; both functions are
  missing from the sources and written into diagnostics.
\<close>

record FrameworkController =
  cConfig :: Config
  remote :: Remote
  requests :: "request list"
  cmLister :: "string \<Rightarrow> string \<Rightarrow> api_error + ConfigMap"
  podLister :: "string \<Rightarrow> string \<Rightarrow> api_error + Pod"
  fQueue :: "queue_op list"
  now :: time
  ShouldRetry :: "RetryPolicySpec \<Rightarrow> RetryPolicyStatus \<Rightarrow>
    FrameworkAttemptCompletionStatus + TaskAttemptCompletionStatus \<Rightarrow> int \<Rightarrow> int \<Rightarrow> RetryDecision"
  MatchCompletionCodeInfos :: "Pod \<Rightarrow> CompletionCode \<times> string"
  IsPodSpecPermanentError :: "api_error \<Rightarrow> bool"
  SecToDurationText :: "int \<Rightarrow> string"
  ToJson :: "api_error \<Rightarrow> string"

subsection \<open>Helpers of the absent packages\<close>

text \<open>
  The retry counters and the attempt ids are \<^verbatim>\<open>int32\<close> in Go, as the task indices of
  controller.go are: \<^verbatim>\<open>++\<close> on them wraps around, from 2147483647 to -2147483648.
  \<open>int32 x\<close> is the \<^verbatim>\<open>int32\<close> that holds the integer \<open>x\<close>.
\<close>

definition int32 :: "int \<Rightarrow> int" where
  "int32 x = (x + 2147483648) mod 4294967296 - 2147483648"

text \<open>
  Modelled from the spec: \<^verbatim>\<open>Framework.Key\<close> is missing from the sources; section 3 gives
  \<^verbatim>\<open>key := namespace + name\<close>.
\<close>

definition Key :: "'a FrameworkObj_scheme \<Rightarrow> string" where
  "Key f = FrameworkObj.Namespace f @ ''/'' @ FrameworkObj.Name f"

text \<open>
  Modelled from the spec: \<^verbatim>\<open>Framework.IsCompleting\<close> is missing from the sources; section 4.E
  defines "is completing" as state in AttemptDeletionPending, AttemptDeletionRequested,
  AttemptDeleting, AttemptCompleted.
\<close>

definition IsCompleting :: "Framework \<Rightarrow> bool" where
  "IsCompleting f =
     (FrameworkStatus.State (Status f) = FrameworkAttemptDeletionPending \<or>
      FrameworkStatus.State (Status f) = FrameworkAttemptDeletionRequested \<or>
      FrameworkStatus.State (Status f) = FrameworkAttemptDeleting \<or>
      FrameworkStatus.State (Status f) = FrameworkAttemptCompleted)"

text \<open>\<^verbatim>\<open>f.TaskRoleStatuses()\<close> and its write-back.\<close>

definition FTaskRoleStatuses :: "Framework \<Rightarrow> TaskRoleStatus list" where
  "FTaskRoleStatuses f = TaskRoleStatuses (FrameworkStatus.AttemptStatus (Status f))"

definition setTaskRoleStatuses :: "TaskRoleStatus list \<Rightarrow> Framework \<Rightarrow> Framework" where
  "setTaskRoleStatuses rs f =
     f\<lparr>Status := (Status f)\<lparr>FrameworkStatus.AttemptStatus :=
        (FrameworkStatus.AttemptStatus (Status f))\<lparr>TaskRoleStatuses := rs\<rparr>\<rparr>\<rparr>"

text \<open>
  Modelled from the spec: the lookups \<^verbatim>\<open>GetTaskRoleSpec\<close>, \<^verbatim>\<open>GetTaskRoleStatus\<close>,
  \<^verbatim>\<open>TaskRoleStatus\<close> and \<^verbatim>\<open>TaskStatus\<close> of \<^verbatim>\<open>Framework\<close> are missing from the sources.
  Roles are identified by name and tasks by their slot in the role (section 3); the
  \<^verbatim>\<open>Get\<close> forms answer nil for an absent role (controller.go tests the answer against
  nil), the other two are used unchecked and panic.
\<close>

definition GetTaskRoleSpec :: "Framework \<Rightarrow> string \<Rightarrow> TaskRoleSpec option" where
  "GetTaskRoleSpec f n = find (\<lambda>r. TaskRoleSpec.Name r = n) (TaskRoles (Spec f))"

definition GetTaskRoleStatus :: "Framework \<Rightarrow> string \<Rightarrow> TaskRoleStatus option" where
  "GetTaskRoleStatus f n = find (\<lambda>r. TaskRoleStatus.Name r = n) (FTaskRoleStatuses f)"

definition TaskRoleStatusOf :: "Framework \<Rightarrow> string \<Rightarrow> TaskRoleStatus option" where
  "TaskRoleStatusOf f n = GetTaskRoleStatus f n"

definition nthTask :: "TaskStatus list \<Rightarrow> int \<Rightarrow> TaskStatus option" where
  "nthTask ts i = (if 0 \<le> i \<and> i < int (length ts) then Some (ts ! nat i) else None)"

definition TaskStatusOf :: "Framework \<Rightarrow> string \<Rightarrow> int \<Rightarrow> TaskStatus option" where
  "TaskStatusOf f n i =
     (case TaskRoleStatusOf f n of
        None \<Rightarrow> None
      | Some trs \<Rightarrow> nthTask (TaskStatuses trs) i)"

text \<open>
  Writing through the pointers those lookups return: the first role of the name, and in
  it the slot \<open>i\<close>.
\<close>

fun updFirst :: "('a \<Rightarrow> bool) \<Rightarrow> ('a \<Rightarrow> 'a) \<Rightarrow> 'a list \<Rightarrow> 'a list" where
  "updFirst P g [] = []"
| "updFirst P g (x # xs) = (if P x then g x # xs else x # updFirst P g xs)"

definition updTaskRoleStatus :: "string \<Rightarrow> (TaskRoleStatus \<Rightarrow> TaskRoleStatus) \<Rightarrow> Framework \<Rightarrow> Framework" where
  "updTaskRoleStatus n g f =
     setTaskRoleStatuses (updFirst (\<lambda>r. TaskRoleStatus.Name r = n) g (FTaskRoleStatuses f)) f"

definition updTaskStatus :: "string \<Rightarrow> int \<Rightarrow> (TaskStatus \<Rightarrow> TaskStatus) \<Rightarrow> Framework \<Rightarrow> Framework" where
  "updTaskStatus n i g f =
     updTaskRoleStatus n
       (\<lambda>trs. trs\<lparr>TaskStatuses := (TaskStatuses trs)[nat i := g (TaskStatuses trs ! nat i)]\<rparr>) f"

text \<open>Writing through the pointer a \<^verbatim>\<open>range\<close> loop holds: role slot \<open>ri\<close>, task slot \<open>ti\<close>.\<close>

definition taskAt :: "Framework \<Rightarrow> nat \<Rightarrow> nat \<Rightarrow> TaskStatus option" where
  "taskAt f ri ti =
     (if ri < length (FTaskRoleStatuses f) \<and> ti < length (TaskStatuses (FTaskRoleStatuses f ! ri))
      then Some (TaskStatuses (FTaskRoleStatuses f ! ri) ! ti) else None)"

definition updTaskAt :: "nat \<Rightarrow> nat \<Rightarrow> (TaskStatus \<Rightarrow> TaskStatus) \<Rightarrow> Framework \<Rightarrow> Framework" where
  "updTaskAt ri ti g f =
     setTaskRoleStatuses
       ((FTaskRoleStatuses f)[ri := (FTaskRoleStatuses f ! ri)\<lparr>TaskStatuses :=
           (TaskStatuses (FTaskRoleStatuses f ! ri))[ti := g (TaskStatuses (FTaskRoleStatuses f ! ri) ! ti)]\<rparr>]) f"

text \<open>
  Modelled from the spec: \<^verbatim>\<open>TransitionTaskState\<close> and \<^verbatim>\<open>TransitionFrameworkState\<close> are
  missing from the sources. A status holds \<^verbatim>\<open>state\<close> and \<^verbatim>\<open>transitionTime\<close> (section 3); a
  transition to the state already held changes nothing (the idempotence law of section
  8); controller.go reads \<^verbatim>\<open>CompletionTime\<close> of completed tasks, which the transition into
  \<^verbatim>\<open>TaskCompleted\<close> records. \<^verbatim>\<open>TransitionTaskState\<close> looks its task up by role name and
  index and panics when there is none.
\<close>

definition transitionTask :: "time \<Rightarrow> TaskState \<Rightarrow> TaskStatus \<Rightarrow> TaskStatus" where
  "transitionTask t dst ts =
     (if TaskStatus.State ts = dst then ts
      else ts\<lparr>TaskStatus.State := dst, TaskStatus.TransitionTime := t,
              CompletionTime := (if dst = TaskCompleted then Some t else CompletionTime ts)\<rparr>)"

definition TransitionTaskState :: "time \<Rightarrow> Framework \<Rightarrow> string \<Rightarrow> int \<Rightarrow> TaskState \<Rightarrow> Framework option" where
  "TransitionTaskState t f n i dst =
     (case TaskStatusOf f n i of
        None \<Rightarrow> None
      | Some ts \<Rightarrow> Some (updTaskStatus n i (transitionTask t dst) f))"

definition TransitionFrameworkState :: "time \<Rightarrow> Framework \<Rightarrow> FrameworkState \<Rightarrow> Framework" where
  "TransitionFrameworkState t f dst =
     (if FrameworkStatus.State (Status f) = dst then f
      else f\<lparr>Status := (Status f)\<lparr>FrameworkStatus.State := dst, FrameworkStatus.TransitionTime := t\<rparr>\<rparr>)"

text \<open>
  Modelled from the spec: \<^verbatim>\<open>CompletionCode.NewTaskAttemptCompletionStatus\<close> is missing from
  the sources; it builds the completion status of its code, diagnostics and pod capture.
\<close>

definition NewTaskAttemptCompletionStatus ::
  "CompletionCode \<Rightarrow> string \<Rightarrow> PodCompletionStatus option \<Rightarrow> TaskAttemptCompletionStatus" where
  "NewTaskAttemptCompletionStatus code diag pod = \<lparr>Code = code, Diagnostics = diag, Pod = pod\<rparr>"

subsection \<open>Enqueueing\<close>

definition enqueueFrameworkObj :: "FrameworkController \<Rightarrow> 'a FrameworkObj_scheme \<Rightarrow> FrameworkController" where
  "enqueueFrameworkObj c f = c\<lparr>fQueue := fQueue c @ [Add (Key f)]\<rparr>"

definition addFrameworkObj :: "FrameworkController \<Rightarrow> 'a FrameworkObj_scheme \<Rightarrow> FrameworkController" where
  "addFrameworkObj c obj = enqueueFrameworkObj c obj"

definition deleteFrameworkObj :: "FrameworkController \<Rightarrow> 'a FrameworkObj_scheme \<Rightarrow> FrameworkController" where
  "deleteFrameworkObj c obj = enqueueFrameworkObj c obj"

text \<open>
  \<^verbatim>\<open>reflect.DeepEqual\<close> on the two specs is equality of the spec records: every pointer
  of a spec is an option here, the pod template is kept whole, and the nil slice of task
  roles is told from the empty one.
\<close>

definition updateFrameworkObj ::
  "FrameworkController \<Rightarrow> 'a FrameworkObj_scheme \<Rightarrow> 'b FrameworkObj_scheme \<Rightarrow> FrameworkController" where
  "updateFrameworkObj c oldObj newObj =
     (if FrameworkObj.UID oldObj \<noteq> FrameworkObj.UID newObj
      then addFrameworkObj (deleteFrameworkObj c oldObj) newObj
      else if \<not> (Spec oldObj = Spec newObj)
      then enqueueFrameworkObj c newObj
      else c)"

definition enqueueFrameworkSync :: "FrameworkController \<Rightarrow> Framework \<Rightarrow> FrameworkController" where
  "enqueueFrameworkSync c f = c\<lparr>fQueue := fQueue c @ [Add (Key f)]\<rparr>"

text \<open>
  Modelled from the spec: \<^verbatim>\<open>common.CurrentLeftDuration\<close> and \<^verbatim>\<open>common.IsTimeout\<close> are
  missing from the sources; section 4.I gives \<^verbatim>\<open>left = (startTime + timeoutSec) - now\<close>
  and the timeout as \<^verbatim>\<open>left <= 0\<close>. Every caller in controller.go passes a timeout
  that is not nil (a configured value, or a pointer it has just tested).
\<close>

definition CurrentLeftDuration :: "time \<Rightarrow> time \<Rightarrow> int \<Rightarrow> int" where
  "CurrentLeftDuration t startTime timeoutSec = (startTime + timeoutSec) - t"

definition IsTimeout :: "int \<Rightarrow> bool" where
  "IsTimeout leftDuration = (leftDuration \<le> 0)"

definition enqueueFrameworkTimeoutCheck ::
  "FrameworkController \<Rightarrow> Framework \<Rightarrow> time \<Rightarrow> int \<Rightarrow> bool \<Rightarrow> FrameworkController \<times> bool" where
  "enqueueFrameworkTimeoutCheck c f startTime timeoutSec failIfTimeout =
     (let leftDuration = CurrentLeftDuration (now c) startTime timeoutSec in
      if IsTimeout leftDuration \<and> failIfTimeout then (c, False)
      else (c\<lparr>fQueue := fQueue c @ [AddAfter (Key f) leftDuration]\<rparr>, True))"

definition enqueueFrameworkCompletedRetainTimeoutCheck ::
  "FrameworkController \<Rightarrow> Framework \<Rightarrow> bool \<Rightarrow> FrameworkController \<times> bool" where
  "enqueueFrameworkCompletedRetainTimeoutCheck c f failIfTimeout =
     (if FrameworkStatus.State (Status f) \<noteq> FrameworkCompleted then (c, False)
      else enqueueFrameworkTimeoutCheck c f (FrameworkStatus.TransitionTime (Status f))
             (FrameworkCompletedRetainSec (cConfig c)) failIfTimeout)"

definition enqueueFrameworkAttemptCreationTimeoutCheck ::
  "FrameworkController \<Rightarrow> Framework \<Rightarrow> bool \<Rightarrow> FrameworkController \<times> bool" where
  "enqueueFrameworkAttemptCreationTimeoutCheck c f failIfTimeout =
     (if FrameworkStatus.State (Status f) \<noteq> FrameworkAttemptCreationRequested then (c, False)
      else enqueueFrameworkTimeoutCheck c f (FrameworkStatus.TransitionTime (Status f))
             (ObjectLocalCacheCreationTimeoutSec (cConfig c)) failIfTimeout)"

definition enqueueTaskAttemptCreationTimeoutCheck ::
  "FrameworkController \<Rightarrow> Framework \<Rightarrow> string \<Rightarrow> int \<Rightarrow> bool \<Rightarrow> (FrameworkController \<times> bool) option" where
  "enqueueTaskAttemptCreationTimeoutCheck c f taskRoleName taskIndex failIfTimeout =
     (case TaskStatusOf f taskRoleName taskIndex of
        None \<Rightarrow> None
      | Some taskStatus \<Rightarrow>
          if TaskStatus.State taskStatus \<noteq> TaskAttemptCreationRequested then Some (c, False)
          else Some (enqueueFrameworkTimeoutCheck c f (TaskStatus.TransitionTime taskStatus)
                 (ObjectLocalCacheCreationTimeoutSec (cConfig c)) failIfTimeout))"

text \<open>
  The two retry-delay checks dereference \<^verbatim>\<open>RetryDelaySec\<close>; controller.go calls them only
  under \<^verbatim>\<open>RetryDelaySec != nil\<close>, and a nil one is a panic here.
\<close>

definition enqueueFrameworkRetryDelayTimeoutCheck ::
  "FrameworkController \<Rightarrow> Framework \<Rightarrow> bool \<Rightarrow> (FrameworkController \<times> bool) option" where
  "enqueueFrameworkRetryDelayTimeoutCheck c f failIfTimeout =
     (if FrameworkStatus.State (Status f) \<noteq> FrameworkAttemptCompleted then Some (c, False)
      else case RetryDelaySec (FrameworkStatus.RetryPolicyStatus (Status f)) of
             None \<Rightarrow> None
           | Some d \<Rightarrow> Some (enqueueFrameworkTimeoutCheck c f
                 (FrameworkStatus.TransitionTime (Status f)) d failIfTimeout))"

definition enqueueTaskRetryDelayTimeoutCheck ::
  "FrameworkController \<Rightarrow> Framework \<Rightarrow> string \<Rightarrow> int \<Rightarrow> bool \<Rightarrow> (FrameworkController \<times> bool) option" where
  "enqueueTaskRetryDelayTimeoutCheck c f taskRoleName taskIndex failIfTimeout =
     (case TaskStatusOf f taskRoleName taskIndex of
        None \<Rightarrow> None
      | Some taskStatus \<Rightarrow>
          if TaskStatus.State taskStatus \<noteq> TaskAttemptCompleted then Some (c, False)
          else (case RetryDelaySec (TaskStatus.RetryPolicyStatus taskStatus) of
                 None \<Rightarrow> None
               | Some d \<Rightarrow> Some (enqueueFrameworkTimeoutCheck c f
                     (TaskStatus.TransitionTime taskStatus) d failIfTimeout)))"

text \<open>
  Modelled from the spec: \<^verbatim>\<open>internal.GetPodDeletionStartTime\<close> is missing from the sources;
  the graceful deletion of a pod starts at its deletion timestamp.
\<close>

definition enqueuePodGracefulDeletionTimeoutCheck ::
  "FrameworkController \<Rightarrow> Framework \<Rightarrow> int \<Rightarrow> bool \<Rightarrow> Pod \<Rightarrow> FrameworkController \<times> bool" where
  "enqueuePodGracefulDeletionTimeoutCheck c f timeoutSec failIfTimeout pod =
     (case Pod.DeletionTimestamp pod of
        None \<Rightarrow> (c, False)
      | Some t \<Rightarrow> enqueueFrameworkTimeoutCheck c f t timeoutSec failIfTimeout)"

subsection \<open>Object accessors\<close>

text \<open>
  \<^verbatim>\<open>meta.IsControlledBy\<close> of the Kubernetes library: the object's controller owner
  reference carries the owner's UID.
\<close>

definition IsControlledBy :: "UID option \<Rightarrow> UID \<Rightarrow> bool" where
  "IsControlledBy controllerUID ownerUID = (controllerUID = Some ownerUID)"

definition deleteFramework ::
  "FrameworkController \<Rightarrow> Framework \<Rightarrow> bool \<Rightarrow> FrameworkController \<times> error option" where
  "deleteFramework c f confirm =
     (let c1 = c\<lparr>requests := requests c @
                 [FrameworksDelete (Namespace f) (FrameworkObj.Name f)
                    \<lparr>PreconditionsUID = FrameworkObj.UID f, GracePeriodSeconds = None,
                     PropagationPolicy = Some DeletePropagationForeground\<rparr>]\<rparr> in
      case deleteResponse (remote c) (requests c1) of
        Some deleteErr \<Rightarrow>
          if \<not> IsNotFound deleteErr then (c1, Some (DeleteFailed deleteErr)) else (c1, None)
      | None \<Rightarrow>
          if confirm then
            (let c2 = c1\<lparr>requests := requests c1 @ [FrameworksGet (Namespace f) (FrameworkObj.Name f)]\<rparr> in
             case getFrameworkResponse (remote c) (requests c2) of
               Inl getErr \<Rightarrow>
                 if \<not> IsNotFound getErr then (c2, Some (GetAfterDeleteFailed getErr)) else (c2, None)
             | Inr (remoteUID, remoteDeletionTimestamp) \<Rightarrow>
                 if FrameworkObj.UID f = remoteUID
                 then (c2, Some (StillExistsAfterDeletion remoteDeletionTimestamp))
                 else (c2, None))
          else (c1, None))"

definition ConfigMapNameOf :: "Framework \<Rightarrow> string" where
  "ConfigMapNameOf f = ConfigMapName (FrameworkStatus.AttemptStatus (Status f))"

definition ConfigMapUIDOf :: "Framework \<Rightarrow> UID option" where
  "ConfigMapUIDOf f = ConfigMapUID (FrameworkStatus.AttemptStatus (Status f))"

definition deleteConfigMap ::
  "FrameworkController \<Rightarrow> Framework \<Rightarrow> UID \<Rightarrow> bool \<Rightarrow> FrameworkController \<times> error option" where
  "deleteConfigMap c f cmUID confirm =
     (let cmName = ConfigMapNameOf f;
          c1 = c\<lparr>requests := requests c @
                 [ConfigMapsDelete (Namespace f) cmName
                    \<lparr>PreconditionsUID = cmUID, GracePeriodSeconds = None, PropagationPolicy = None\<rparr>]\<rparr> in
      case deleteResponse (remote c) (requests c1) of
        Some deleteErr \<Rightarrow>
          if \<not> IsNotFound deleteErr then (c1, Some (DeleteFailed deleteErr)) else (c1, None)
      | None \<Rightarrow>
          if confirm then
            (let c2 = c1\<lparr>requests := requests c1 @ [ConfigMapsGet (Namespace f) cmName]\<rparr> in
             case getConfigMapResponse (remote c) (requests c2) of
               Inl getErr \<Rightarrow>
                 if \<not> IsNotFound getErr then (c2, Some (GetAfterDeleteFailed getErr)) else (c2, None)
             | Inr cm \<Rightarrow>
                 if cmUID = ConfigMap.UID cm
                 then (c2, Some (StillExistsAfterDeletion (ConfigMap.DeletionTimestamp cm)))
                 else (c2, None))
          else (c1, None))"

text \<open>
  \<^verbatim>\<open>deletePod\<close> reads the pod name through \<^verbatim>\<open>f.TaskStatus(...)\<close>, which panics when the
  task does not exist.
\<close>

definition deletePod ::
  "FrameworkController \<Rightarrow> Framework \<Rightarrow> string \<Rightarrow> int \<Rightarrow> UID \<Rightarrow> bool \<Rightarrow> bool \<Rightarrow>
     (FrameworkController \<times> error option) option" where
  "deletePod c f taskRoleName taskIndex podUID confirm force =
     (case TaskStatusOf f taskRoleName taskIndex of
        None \<Rightarrow> None
      | Some taskStatus \<Rightarrow>
         (let podName = PodName (TaskStatus.AttemptStatus taskStatus);
              deleteOptions = \<lparr>PreconditionsUID = podUID,
                 GracePeriodSeconds = (if force then Some 0 else None), PropagationPolicy = None\<rparr>;
              c1 = c\<lparr>requests := requests c @ [PodsDelete (Namespace f) podName deleteOptions]\<rparr> in
          case deleteResponse (remote c) (requests c1) of
            Some deleteErr \<Rightarrow>
              if \<not> IsNotFound deleteErr then Some (c1, Some (DeleteFailed deleteErr)) else Some (c1, None)
          | None \<Rightarrow>
              if confirm then
                (let c2 = c1\<lparr>requests := requests c1 @ [PodsGet (Namespace f) podName]\<rparr> in
                 case getPodResponse (remote c) (requests c2) of
                   Inl getErr \<Rightarrow>
                     if \<not> IsNotFound getErr then Some (c2, Some (GetAfterDeleteFailed getErr))
                     else Some (c2, None)
                 | Inr pod \<Rightarrow>
                     if podUID = Pod.UID pod
                     then Some (c2, Some (StillExistsAfterDeletion (Pod.DeletionTimestamp pod)))
                     else Some (c2, None))
              else Some (c1, None)))"

definition getOrCleanupConfigMap ::
  "FrameworkController \<Rightarrow> Framework \<Rightarrow> bool \<Rightarrow> FrameworkController \<times> ConfigMap option \<times> error option" where
  "getOrCleanupConfigMap c f confirm =
     (let cmName = ConfigMapNameOf f;
          c1 = (if confirm then c\<lparr>requests := requests c @ [ConfigMapsGet (Namespace f) cmName]\<rparr> else c);
          got = (if confirm then getConfigMapResponse (remote c) (requests c1)
                 else cmLister c (Namespace f) cmName) in
      case got of
        Inl err \<Rightarrow> if IsNotFound err then (c1, None, None) else (c1, None, Some (GetFailed err))
      | Inr cm \<Rightarrow>
          if ConfigMapUIDOf f = None \<or> ConfigMapUIDOf f \<noteq> Some (ConfigMap.UID cm) then
            (if IsControlledBy (ConfigMap.ControllerUID cm) (FrameworkObj.UID f)
             then (case deleteConfigMap c1 f (ConfigMap.UID cm) confirm of (c2, e) \<Rightarrow> (c2, None, e))
             else (c1, None, None))
          else (c1, Some cm, None))"

text \<open>
  Modelled from the spec: \<^verbatim>\<open>Framework.NewConfigMap\<close> is missing from the sources; the
  ConfigMap of an attempt has the attempt's ConfigMap name and carries an owner reference
  back to its Framework (section 6). The server assigns the UID.
\<close>

definition NewConfigMap :: "Framework \<Rightarrow> ConfigMap" where
  "NewConfigMap f =
     \<lparr>ConfigMap.Name = ConfigMapNameOf f, ConfigMap.UID = [], ConfigMap.DeletionTimestamp = None,
      ConfigMap.ControllerUID = Some (FrameworkObj.UID f)\<rparr>"

definition createConfigMap ::
  "FrameworkController \<Rightarrow> Framework \<Rightarrow> FrameworkController \<times> (error + ConfigMap)" where
  "createConfigMap c f =
     (let cm = NewConfigMap f;
          c1 = c\<lparr>requests := requests c @ [ConfigMapsCreate (Namespace f) cm]\<rparr> in
      case createConfigMapResponse (remote c) (requests c1) of
        Inl createErr \<Rightarrow>
          if IsAlreadyExists createErr then
            (case cmLister c (Namespace f) (ConfigMap.Name cm) of
               Inr localCM \<Rightarrow>
                 if \<not> IsControlledBy (ConfigMap.ControllerUID localCM) (FrameworkObj.UID f)
                 then (c1, Inl (NamingConflict createErr))
                 else (c1, Inl (CreateFailed createErr))
             | Inl getErr \<Rightarrow> (c1, Inl (CreateFailed createErr)))
          else (c1, Inl (CreateFailed createErr))
      | Inr remoteCM \<Rightarrow> (c1, Inr remoteCM))"

text \<open>
  \<^verbatim>\<open>handlePodGracefulDeletion\<close> reads the role through \<^verbatim>\<open>f.TaskRoleStatus(...)\<close>, which panics
  when the role does not exist.
\<close>

definition handlePodGracefulDeletion ::
  "FrameworkController \<Rightarrow> Framework \<Rightarrow> string \<Rightarrow> int \<Rightarrow> Pod \<Rightarrow> (FrameworkController \<times> error option) option" where
  "handlePodGracefulDeletion c f taskRoleName taskIndex pod =
     (case TaskRoleStatusOf f taskRoleName of
        None \<Rightarrow> None
      | Some taskRoleStatus \<Rightarrow>
          if Pod.DeletionTimestamp pod = None then Some (c, None)
          else (case TaskRoleStatus.PodGracefulDeletionTimeoutSec taskRoleStatus of
                  None \<Rightarrow> Some (c, None)
                | Some timeoutSec \<Rightarrow>
                   (case enqueuePodGracefulDeletionTimeoutCheck c f timeoutSec True pod of
                      (c1, waiting) \<Rightarrow>
                        if waiting then Some (c1, None)
                        else deletePod c1 f taskRoleName taskIndex (Pod.UID pod) True True)))"

text \<open>
  In \<^verbatim>\<open>getOrCleanupPod\<close>, \<^verbatim>\<open>meta.IsControlledBy(pod, cm)\<close> reads the UID of \<^verbatim>\<open>cm\<close> only
  when the pod has a controller reference; a nil \<^verbatim>\<open>cm\<close> is a panic there.
\<close>

definition podIsControlledBy :: "Pod \<Rightarrow> ConfigMap option \<Rightarrow> bool option" where
  "podIsControlledBy pod cm =
     (case Pod.ControllerUID pod of
        None \<Rightarrow> Some False
      | Some u \<Rightarrow> (case cm of None \<Rightarrow> None | Some m \<Rightarrow> Some (u = ConfigMap.UID m)))"

definition getOrCleanupPod ::
  "FrameworkController \<Rightarrow> Framework \<Rightarrow> ConfigMap option \<Rightarrow> string \<Rightarrow> int \<Rightarrow> bool \<Rightarrow>
     (FrameworkController \<times> Pod option \<times> error option) option" where
  "getOrCleanupPod c f cm taskRoleName taskIndex confirm =
     (case TaskStatusOf f taskRoleName taskIndex of
        None \<Rightarrow> None
      | Some taskStatus \<Rightarrow>
         (let podName = PodName (TaskStatus.AttemptStatus taskStatus);
              c1 = (if confirm then c\<lparr>requests := requests c @ [PodsGet (Namespace f) podName]\<rparr> else c);
              got = (if confirm then getPodResponse (remote c) (requests c1)
                     else podLister c (Namespace f) podName) in
          case got of
            Inl err \<Rightarrow>
              if IsNotFound err then Some (c1, None, None) else Some (c1, None, Some (GetFailed err))
          | Inr pod \<Rightarrow>
              if PodUID (TaskStatus.AttemptStatus taskStatus) = None \<or>
                 PodUID (TaskStatus.AttemptStatus taskStatus) \<noteq> Some (Pod.UID pod) then
                (case podIsControlledBy pod cm of
                   None \<Rightarrow> None
                 | Some True \<Rightarrow>
                    (case (if Pod.DeletionTimestamp pod \<noteq> None
                           then handlePodGracefulDeletion c1 f taskRoleName taskIndex pod
                           else Some (c1, None)) of
                       None \<Rightarrow> None
                     | Some (c2, Some err) \<Rightarrow> Some (c2, None, Some err)
                     | Some (c2, None) \<Rightarrow>
                        (case deletePod c2 f taskRoleName taskIndex (Pod.UID pod) confirm False of
                           None \<Rightarrow> None
                         | Some (c3, e) \<Rightarrow> Some (c3, None, e)))
                 | Some False \<Rightarrow> Some (c1, None, None))
              else Some (c1, Some pod, None)))"

text \<open>
  Modelled from the spec: \<^verbatim>\<open>Framework.NewPod\<close> is missing from the sources; the pod of a
  task attempt has the task's pod name and carries an owner reference back to the
  attempt's ConfigMap (section 6). It needs the task and the ConfigMap.
\<close>

definition NewPod :: "Framework \<Rightarrow> ConfigMap option \<Rightarrow> string \<Rightarrow> int \<Rightarrow> Pod option" where
  "NewPod f cm taskRoleName taskIndex =
     (case (TaskStatusOf f taskRoleName taskIndex, cm) of
        (Some taskStatus, Some m) \<Rightarrow>
          Some \<lparr>Pod.Name = PodName (TaskStatus.AttemptStatus taskStatus), Pod.UID = [],
                Pod.DeletionTimestamp = None, Pod.ControllerUID = Some (ConfigMap.UID m),
                NodeName = [], PodIP = [], HostIP = [], Phase = PodPending, Capture = []\<rparr>
      | _ \<Rightarrow> None)"

definition createPod ::
  "FrameworkController \<Rightarrow> Framework \<Rightarrow> ConfigMap option \<Rightarrow> string \<Rightarrow> int \<Rightarrow>
     (FrameworkController \<times> (error + Pod)) option" where
  "createPod c f cm taskRoleName taskIndex =
     (case NewPod f cm taskRoleName taskIndex of
        None \<Rightarrow> None
      | Some pod \<Rightarrow>
         (let c1 = c\<lparr>requests := requests c @ [PodsCreate (Namespace f) pod]\<rparr> in
          case createPodResponse (remote c) (requests c1) of
            Inl createErr \<Rightarrow>
              if IsAlreadyExists createErr then
                (case podLister c (Namespace f) (Pod.Name pod) of
                   Inr localPod \<Rightarrow>
                     (case podIsControlledBy localPod cm of
                        None \<Rightarrow> None
                      | Some controlled \<Rightarrow>
                          if \<not> controlled then Some (c1, Inl (NamingConflict createErr))
                          else Some (c1, Inl (CreateFailed createErr)))
                 | Inl getErr \<Rightarrow> Some (c1, Inl (CreateFailed createErr)))
              else Some (c1, Inl (CreateFailed createErr))
          | Inr remotePod \<Rightarrow> Some (c1, Inr remotePod)))"

subsection \<open>Completing attempts\<close>

definition completeTaskAttempt ::
  "FrameworkController \<Rightarrow> Framework \<Rightarrow> string \<Rightarrow> int \<Rightarrow> bool \<Rightarrow>
     TaskAttemptCompletionStatus option \<Rightarrow> (FrameworkController \<times> Framework) option" where
  "completeTaskAttempt c f taskRoleName taskIndex force completionStatus =
     (case TaskStatusOf f taskRoleName taskIndex of
        None \<Rightarrow> None
      | Some taskStatus \<Rightarrow>
         (let f1 = (if TaskAttemptStatus.CompletionStatus (TaskStatus.AttemptStatus taskStatus) = None
                    then updTaskStatus taskRoleName taskIndex
                           (\<lambda>ts. ts\<lparr>TaskStatus.AttemptStatus :=
                              (TaskStatus.AttemptStatus ts)\<lparr>TaskAttemptStatus.CompletionStatus := completionStatus\<rparr>\<rparr>) f
                    else f) in
          if force then
            (case TransitionTaskState (now c) f1 taskRoleName taskIndex TaskAttemptCompleted of
               None \<Rightarrow> None
             | Some f2 \<Rightarrow> Some (enqueueFrameworkSync c f2, f2))
          else
            (case TransitionTaskState (now c) f1 taskRoleName taskIndex TaskAttemptDeletionPending of
               None \<Rightarrow> None
             | Some f2 \<Rightarrow> Some (enqueueFrameworkSync c f2, f2))))"

text \<open>The first loop of \<^verbatim>\<open>completeFrameworkAttempt\<close> visits every task of every role.\<close>

definition defaultTaskCompletion :: "TaskStatus \<Rightarrow> TaskStatus" where
  "defaultTaskCompletion taskStatus =
     (if TaskAttemptStatus.CompletionStatus (TaskStatus.AttemptStatus taskStatus) = None
      then taskStatus\<lparr>TaskStatus.AttemptStatus :=
             (TaskStatus.AttemptStatus taskStatus)\<lparr>TaskAttemptStatus.CompletionStatus :=
                Some (NewTaskAttemptCompletionStatus CompletionCodeFrameworkAttemptCompletion
                        ''Stop to complete current FrameworkAttempt'' None)\<rparr>\<rparr>
      else taskStatus)"

definition mapTaskStatuses :: "(TaskStatus \<Rightarrow> TaskStatus) \<Rightarrow> Framework \<Rightarrow> Framework" where
  "mapTaskStatuses g f =
     setTaskRoleStatuses
       (map (\<lambda>trs. trs\<lparr>TaskStatuses := map g (TaskStatuses trs)\<rparr>) (FTaskRoleStatuses f)) f"

text \<open>
  The forced loop. The loop variable is the task in role slot \<open>ri\<close>, task slot \<open>ti\<close>;
  \<^verbatim>\<open>completeTaskAttempt\<close> and \<^verbatim>\<open>TransitionTaskState\<close> find their task again by the role's
  name and the task's \<^verbatim>\<open>Index\<close> field.
\<close>

definition forceCompleteTask ::
  "FrameworkController \<Rightarrow> Framework \<Rightarrow> nat \<Rightarrow> nat \<Rightarrow> (FrameworkController \<times> Framework) option" where
  "forceCompleteTask c f ri ti =
     (case taskAt f ri ti of
        None \<Rightarrow> None
      | Some taskStatus \<Rightarrow>
         (let taskRoleName = TaskRoleStatus.Name (FTaskRoleStatuses f ! ri);
              taskIndex = Index taskStatus in
          if TaskStatus.State taskStatus \<noteq> TaskCompleted then
            (case (if TaskStatus.State taskStatus \<noteq> TaskAttemptCompleted
                   then completeTaskAttempt c f taskRoleName taskIndex True None
                   else Some (c, f)) of
               None \<Rightarrow> None
             | Some (c1, f1) \<Rightarrow>
                (let f2 = updTaskAt ri ti
                            (\<lambda>ts. ts\<lparr>TaskStatus.RetryPolicyStatus :=
                               (TaskStatus.RetryPolicyStatus ts)\<lparr>RetryDelaySec := None\<rparr>\<rparr>) f1 in
                 case TransitionTaskState (now c) f2 taskRoleName taskIndex TaskCompleted of
                   None \<Rightarrow> None
                 | Some f3 \<Rightarrow> Some (c1, f3)))
          else Some (c, f)))"

fun forceCompleteTasks ::
  "FrameworkController \<Rightarrow> Framework \<Rightarrow> nat \<Rightarrow> nat list \<Rightarrow> (FrameworkController \<times> Framework) option" where
  "forceCompleteTasks c f ri [] = Some (c, f)"
| "forceCompleteTasks c f ri (ti # tis) =
     (case forceCompleteTask c f ri ti of
        None \<Rightarrow> None
      | Some (c1, f1) \<Rightarrow> forceCompleteTasks c1 f1 ri tis)"

fun forceCompleteRoles ::
  "FrameworkController \<Rightarrow> Framework \<Rightarrow> nat list \<Rightarrow> (FrameworkController \<times> Framework) option" where
  "forceCompleteRoles c f [] = Some (c, f)"
| "forceCompleteRoles c f (ri # ris) =
     (if ri < length (FTaskRoleStatuses f) then
        (case forceCompleteTasks c f ri [0..<length (TaskStatuses (FTaskRoleStatuses f ! ri))] of
           None \<Rightarrow> None
         | Some (c1, f1) \<Rightarrow> forceCompleteRoles c1 f1 ris)
      else None)"

definition completeFrameworkAttempt ::
  "FrameworkController \<Rightarrow> Framework \<Rightarrow> bool \<Rightarrow> FrameworkAttemptCompletionStatus option \<Rightarrow>
     (FrameworkController \<times> Framework) option" where
  "completeFrameworkAttempt c f force completionStatus =
     (let f1 = (if FrameworkAttemptStatus.CompletionStatus (FrameworkStatus.AttemptStatus (Status f)) = None
                then f\<lparr>Status := (Status f)\<lparr>FrameworkStatus.AttemptStatus :=
                       (FrameworkStatus.AttemptStatus (Status f))\<lparr>FrameworkAttemptStatus.CompletionStatus :=
                          completionStatus\<rparr>\<rparr>\<rparr>
                else f);
          f2 = mapTaskStatuses defaultTaskCompletion f1 in
      if force then
        (case forceCompleteRoles c f2 [0..<length (FTaskRoleStatuses f2)] of
           None \<Rightarrow> None
         | Some (c3, f3) \<Rightarrow>
            (let f4 = TransitionFrameworkState (now c) f3 FrameworkAttemptCompleted in
             Some (enqueueFrameworkSync c3 f4, f4)))
      else
        (let f3 = TransitionFrameworkState (now c) f2 FrameworkAttemptDeletionPending in
         Some (enqueueFrameworkSync c f3, f3)))"

subsection \<open>The completion-policy evaluator\<close>

text \<open>
  Modelled from the spec: the selectors \<^verbatim>\<open>TaskStatus.IsCompleted\<close>, \<^verbatim>\<open>IsFailed\<close>,
  \<^verbatim>\<open>IsSucceeded\<close> and \<^verbatim>\<open>BindIDP\<close> are missing from the sources. A task counts as completed
  in state \<^verbatim>\<open>TaskCompleted\<close>, as succeeded when its completion code is \<^verbatim>\<open>Succeeded\<close>
  and as failed otherwise (section 7); \<^verbatim>\<open>BindIDP(sel, true)\<close> fixes the flag that
  makes a selector ignore deletion-pending tasks, so that a scaled-down task never
  triggers a completion (comment at line 766 of the source).
\<close>

definition IsCompleted :: "TaskStatus \<Rightarrow> bool \<Rightarrow> bool" where
  "IsCompleted ts ignoreDeletionPending =
     (\<not> (ignoreDeletionPending \<and> DeletionPending ts) \<and> TaskStatus.State ts = TaskCompleted)"

definition IsSucceeded :: "TaskStatus \<Rightarrow> bool \<Rightarrow> bool" where
  "IsSucceeded ts ignoreDeletionPending =
     (IsCompleted ts ignoreDeletionPending \<and>
      (case TaskAttemptStatus.CompletionStatus (TaskStatus.AttemptStatus ts) of
         None \<Rightarrow> False
       | Some cs \<Rightarrow> Code cs = CompletionCodeSucceeded))"

definition IsFailed :: "TaskStatus \<Rightarrow> bool \<Rightarrow> bool" where
  "IsFailed ts ignoreDeletionPending =
     (IsCompleted ts ignoreDeletionPending \<and>
      (case TaskAttemptStatus.CompletionStatus (TaskStatus.AttemptStatus ts) of
         None \<Rightarrow> False
       | Some cs \<Rightarrow> Code cs \<noteq> CompletionCodeSucceeded))"

definition BindIDP :: "(TaskStatus \<Rightarrow> bool \<Rightarrow> bool) \<Rightarrow> bool \<Rightarrow> TaskStatus \<Rightarrow> bool" where
  "BindIDP sel ignoreDeletionPending = (\<lambda>ts. sel ts ignoreDeletionPending)"

text \<open>
  Modelled from the spec: \<^verbatim>\<open>TaskRoleStatus.GetTaskCountStatus\<close>,
  \<^verbatim>\<open>Framework.GetTaskCountStatus\<close>, \<^verbatim>\<open>Framework.GetTotalTaskCountSpec\<close> and
  \<^verbatim>\<open>TaskRoleStatus.CompletionTimeOrderedTaskStatus\<close> are missing from the sources. Section
  4.G: the counts are the numbers of selected tasks, the total is the number of tasks the
  spec declares, and the \<open>k\<close>-th earliest-completed selected task is slot \<open>k\<close> of the
  selected tasks ordered by completion time (tasks of equal time keep their slot order).
  An index outside the selected tasks is a panic, and so is a selected task without a
  completion time.
\<close>

definition RoleTaskCountStatus :: "TaskRoleStatus \<Rightarrow> (TaskStatus \<Rightarrow> bool) \<Rightarrow> int" where
  "RoleTaskCountStatus trs selector = int (length (filter selector (TaskStatuses trs)))"

definition GetTaskCountStatus :: "Framework \<Rightarrow> (TaskStatus \<Rightarrow> bool) \<Rightarrow> int" where
  "GetTaskCountStatus f selector =
     sum_list (map (\<lambda>trs. RoleTaskCountStatus trs selector) (FTaskRoleStatuses f))"

definition GetTotalTaskCountSpec :: "Framework \<Rightarrow> int" where
  "GetTotalTaskCountSpec f = sum_list (map TaskNumber (TaskRoles (Spec f)))"

definition completionTimeOf :: "TaskStatus \<Rightarrow> time" where
  "completionTimeOf ts = (case CompletionTime ts of None \<Rightarrow> 0 | Some t \<Rightarrow> t)"

definition CompletionTimeOrderedTaskStatus ::
  "TaskRoleStatus \<Rightarrow> (TaskStatus \<Rightarrow> bool) \<Rightarrow> int \<Rightarrow> TaskStatus option" where
  "CompletionTimeOrderedTaskStatus trs selector orderedIndex =
     (let selected = filter selector (TaskStatuses trs) in
      if list_ex (\<lambda>ts. CompletionTime ts = None) selected then None
      else nthTask (sort_key completionTimeOf selected) orderedIndex)"

text \<open>
  \<^verbatim>\<open>meta.Time.Before\<close> of the Kubernetes library on two pointers: false when either is nil.
\<close>

definition TimeBefore :: "time option \<Rightarrow> time option \<Rightarrow> bool" where
  "TimeBefore t u = (case (t, u) of (Some a, Some b) \<Rightarrow> a < b | _ \<Rightarrow> False)"

text \<open>
  The first loop of \<^verbatim>\<open>syncFrameworkAttemptCompletionPolicy\<close>, one role of the spec at a
  time. The state of the loop is \<^verbatim>\<open>firstTriggerTime\<close> and
  \<^verbatim>\<open>firstTriggerCompletionStatus\<close>; \<open>considerTrigger\<close> is the \<^verbatim>\<open>if\<close> both halves of the
  loop body end with.
\<close>

type_synonym firstTrigger = "time option \<times> FrameworkAttemptCompletionStatus option"

definition considerTrigger ::
  "TaskStatus \<Rightarrow> FrameworkAttemptCompletionStatus \<Rightarrow> firstTrigger \<Rightarrow> firstTrigger" where
  "considerTrigger trigger status acc =
     (if fst acc = None \<or> TimeBefore (CompletionTime trigger) (fst acc)
      then (CompletionTime trigger, Some status) else acc)"

definition failedTrigger :: "TaskRoleSpec \<Rightarrow> TaskRoleStatus \<Rightarrow> firstTrigger \<Rightarrow> firstTrigger option" where
  "failedTrigger taskRoleSpec taskRoleStatus acc =
     (let minFailedTaskCount = MinFailedTaskCount (FrameworkAttemptCompletionPolicy taskRoleSpec) in
      if minFailedTaskCount \<ge> 1 then
        (let failedTaskCount = RoleTaskCountStatus taskRoleStatus (BindIDP IsFailed True) in
         if failedTaskCount \<ge> minFailedTaskCount then
           (case CompletionTimeOrderedTaskStatus taskRoleStatus (BindIDP IsFailed True)
                   (minFailedTaskCount - 1) of
              None \<Rightarrow> None
            | Some trigger \<Rightarrow>
                Some (considerTrigger trigger
                  (NewFailedTaskTriggeredCompletionStatus trigger (TaskRoleSpec.Name taskRoleSpec)
                     failedTaskCount minFailedTaskCount) acc))
         else Some acc)
      else Some acc)"

definition succeededTrigger :: "TaskRoleSpec \<Rightarrow> TaskRoleStatus \<Rightarrow> firstTrigger \<Rightarrow> firstTrigger option" where
  "succeededTrigger taskRoleSpec taskRoleStatus acc =
     (let minSucceededTaskCount = MinSucceededTaskCount (FrameworkAttemptCompletionPolicy taskRoleSpec) in
      if minSucceededTaskCount \<ge> 1 then
        (let succeededTaskCount = RoleTaskCountStatus taskRoleStatus (BindIDP IsSucceeded True) in
         if succeededTaskCount \<ge> minSucceededTaskCount then
           (case CompletionTimeOrderedTaskStatus taskRoleStatus (BindIDP IsSucceeded True)
                   (minSucceededTaskCount - 1) of
              None \<Rightarrow> None
            | Some trigger \<Rightarrow>
                Some (considerTrigger trigger
                  (NewSucceededTaskTriggeredCompletionStatus trigger (TaskRoleSpec.Name taskRoleSpec)
                     succeededTaskCount minSucceededTaskCount) acc))
         else Some acc)
      else Some acc)"

fun firstTriggerLoop :: "Framework \<Rightarrow> TaskRoleSpec list \<Rightarrow> firstTrigger \<Rightarrow> firstTrigger option" where
  "firstTriggerLoop f [] acc = Some acc"
| "firstTriggerLoop f (taskRoleSpec # rest) acc =
     (case GetTaskRoleStatus f (TaskRoleSpec.Name taskRoleSpec) of
        None \<Rightarrow> firstTriggerLoop f rest acc
      | Some taskRoleStatus \<Rightarrow>
         (case failedTrigger taskRoleSpec taskRoleStatus acc of
            None \<Rightarrow> None
          | Some acc1 \<Rightarrow>
             (case succeededTrigger taskRoleSpec taskRoleStatus acc1 of
                None \<Rightarrow> None
              | Some acc2 \<Rightarrow> firstTriggerLoop f rest acc2)))"

text \<open>
  The second loop: the last completed task over the roles of the spec. The state of the
  loop is \<^verbatim>\<open>lastCompletedTaskStatus\<close> and \<^verbatim>\<open>lastCompletedTaskRoleName\<close>. The comparison
  dereferences both completion times.
\<close>

fun lastCompletedLoop ::
  "Framework \<Rightarrow> TaskRoleSpec list \<Rightarrow> TaskStatus option \<times> string \<Rightarrow> (TaskStatus option \<times> string) option" where
  "lastCompletedLoop f [] acc = Some acc"
| "lastCompletedLoop f (taskRoleSpec # rest) acc =
     (case GetTaskRoleStatus f (TaskRoleSpec.Name taskRoleSpec) of
        None \<Rightarrow> lastCompletedLoop f rest acc
      | Some taskRoleStatus \<Rightarrow>
          if TaskNumber taskRoleSpec = 0 then lastCompletedLoop f rest acc
          else
            (case CompletionTimeOrderedTaskStatus taskRoleStatus (BindIDP IsCompleted True)
                    (TaskNumber taskRoleSpec - 1) of
               None \<Rightarrow> None
             | Some roleLastCompletedTask \<Rightarrow>
                (case fst acc of
                   None \<Rightarrow> lastCompletedLoop f rest
                             (Some roleLastCompletedTask, TaskRoleSpec.Name taskRoleSpec)
                 | Some lastCompletedTaskStatus \<Rightarrow>
                    (case (CompletionTime roleLastCompletedTask, CompletionTime lastCompletedTaskStatus) of
                       (Some t, Some u) \<Rightarrow>
                         if t > u
                         then lastCompletedLoop f rest
                                (Some roleLastCompletedTask, TaskRoleSpec.Name taskRoleSpec)
                         else lastCompletedLoop f rest acc
                     | _ \<Rightarrow> None))))"

definition syncFrameworkAttemptCompletionPolicy ::
  "FrameworkController \<Rightarrow> Framework \<Rightarrow> (FrameworkController \<times> Framework \<times> bool) option" where
  "syncFrameworkAttemptCompletionPolicy c f =
     (case firstTriggerLoop f (TaskRoles (Spec f)) (None, None) of
        None \<Rightarrow> None
      | Some (firstTriggerTime, Some firstTriggerCompletionStatus) \<Rightarrow>
         (case completeFrameworkAttempt c f False (Some firstTriggerCompletionStatus) of
            None \<Rightarrow> None
          | Some (c1, f1) \<Rightarrow> Some (c1, f1, True))
      | Some (firstTriggerTime, None) \<Rightarrow>
         (let totalTaskCount = GetTotalTaskCountSpec f;
              completedTaskCount = GetTaskCountStatus f (BindIDP IsCompleted True) in
          if completedTaskCount \<ge> totalTaskCount then
            (case lastCompletedLoop f (TaskRoles (Spec f)) (None, []) of
               None \<Rightarrow> None
             | Some (lastCompletedTaskStatus, lastCompletedTaskRoleName) \<Rightarrow>
                (case completeFrameworkAttempt c f False
                        (Some (NewCompletedTaskTriggeredCompletionStatus lastCompletedTaskStatus
                                 lastCompletedTaskRoleName completedTaskCount totalTaskCount)) of
                   None \<Rightarrow> None
                 | Some (c1, f1) \<Rightarrow> Some (c1, f1, True)))
          else Some (c, f, False)))"

text \<open>
  The trigger candidates in the words of the specification (section 4.G): for every role
  of the spec, if \<open>mF \<ge> 1\<close> and \<open>F \<ge> mF\<close> the role's \<open>mF\<close>-th earliest-completed failed task
  is a trigger, and similarly for succeeded tasks. Each candidate is listed with the
  completion status it would give the attempt.
\<close>

definition specRoleCandidates ::
  "TaskRoleSpec \<Rightarrow> TaskRoleStatus \<Rightarrow> (TaskStatus \<times> FrameworkAttemptCompletionStatus) list" where
  "specRoleCandidates r trs =
     (let mF = MinFailedTaskCount (FrameworkAttemptCompletionPolicy r);
          mS = MinSucceededTaskCount (FrameworkAttemptCompletionPolicy r);
          F = RoleTaskCountStatus trs (BindIDP IsFailed True);
          S = RoleTaskCountStatus trs (BindIDP IsSucceeded True) in
      (if mF \<ge> 1 \<and> F \<ge> mF then
         (case CompletionTimeOrderedTaskStatus trs (BindIDP IsFailed True) (mF - 1) of
            None \<Rightarrow> []
          | Some t \<Rightarrow> [(t, NewFailedTaskTriggeredCompletionStatus t (TaskRoleSpec.Name r) F mF)])
       else []) @
      (if mS \<ge> 1 \<and> S \<ge> mS then
         (case CompletionTimeOrderedTaskStatus trs (BindIDP IsSucceeded True) (mS - 1) of
            None \<Rightarrow> []
          | Some t \<Rightarrow> [(t, NewSucceededTaskTriggeredCompletionStatus t (TaskRoleSpec.Name r) S mS)])
       else []))"

definition specTriggerCandidates ::
  "Framework \<Rightarrow> (TaskStatus \<times> FrameworkAttemptCompletionStatus) list" where
  "specTriggerCandidates f =
     concat (map (\<lambda>r. case GetTaskRoleStatus f (TaskRoleSpec.Name r) of
                         None \<Rightarrow> []
                       | Some trs \<Rightarrow> specRoleCandidates r trs)
                 (TaskRoles (Spec f)))"

text \<open>The count and the threshold a role-triggered completion status was built from.\<close>

fun triggerCounts :: "FrameworkAttemptCompletionStatus \<Rightarrow> (int \<times> int) option" where
  "triggerCounts (NewFailedTaskTriggeredCompletionStatus t n k m) = Some (k, m)"
| "triggerCounts (NewSucceededTaskTriggeredCompletionStatus t n k m) = Some (k, m)"
| "triggerCounts _ = None"

text \<open>The loop's \<^verbatim>\<open>if\<close> as a step over a candidate.\<close>

definition considerCandidate ::
  "firstTrigger \<Rightarrow> TaskStatus \<times> FrameworkAttemptCompletionStatus \<Rightarrow> firstTrigger" where
  "considerCandidate acc cand = considerTrigger (fst cand) (snd cand) acc"

subsection \<open>Rescaling\<close>

text \<open>
  Modelled from the spec: \<^verbatim>\<open>NewTaskAttemptStatus\<close>, \<^verbatim>\<open>NewTaskStatus\<close>,
  \<^verbatim>\<open>NewFrameworkAttemptStatus\<close> and \<^verbatim>\<open>TaskStatus.MarkAsDeletionPending\<close> are missing from the
  sources. A fresh attempt has its attempt id and no object yet; a fresh task is
  \<^verbatim>\<open>CreationPending\<close> with zero retry counters (section 4.F); the pod is named
  \<^verbatim>\<open>{FrameworkName}-{TaskRoleName}-{TaskIndex}\<close> and the ConfigMap by a string derived from
  the framework (section 6); the roles of a fresh framework attempt are brought up by
  sync-scale ("if absent in status, append"); marking reports whether the flag is new
  (section 4.F).
\<close>

fun natString :: "nat \<Rightarrow> string" where
  "natString n =
     (if n < 10 then [char_of (48 + n)] else natString (n div 10) @ [char_of (48 + n mod 10)])"

definition intString :: "int \<Rightarrow> string" where
  "intString i = (if i < 0 then CHR ''-'' # natString (nat (- i)) else natString (nat i))"

definition GetPodName :: "string \<Rightarrow> string \<Rightarrow> int \<Rightarrow> string" where
  "GetPodName frameworkName taskRoleName taskIndex =
     frameworkName @ ''-'' @ taskRoleName @ ''-'' @ intString taskIndex"

definition NewTaskAttemptStatus :: "Framework \<Rightarrow> string \<Rightarrow> int \<Rightarrow> int \<Rightarrow> TaskAttemptStatus" where
  "NewTaskAttemptStatus f taskRoleName taskIndex taskAttemptID =
     \<lparr>TaskAttemptStatus.ID = taskAttemptID,
      PodName = GetPodName (FrameworkObj.Name f) taskRoleName taskIndex,
      PodUID = None, TaskAttemptStatus.InstanceUID = None,
      PodNodeName = None, PodIP = None, PodHostIP = None,
      TaskAttemptStatus.CompletionStatus = None\<rparr>"

definition NewTaskStatus :: "time \<Rightarrow> Framework \<Rightarrow> string \<Rightarrow> int \<Rightarrow> TaskStatus" where
  "NewTaskStatus t f taskRoleName taskIndex =
     \<lparr>Index = taskIndex, TaskStatus.State = TaskAttemptCreationPending,
      TaskStatus.TransitionTime = t, CompletionTime = None, DeletionPending = False,
      TaskStatus.RetryPolicyStatus =
        \<lparr>TotalRetriedCount = 0, AccountableRetriedCount = 0, RetryDelaySec = None\<rparr>,
      TaskStatus.AttemptStatus = NewTaskAttemptStatus f taskRoleName taskIndex 0\<rparr>"

definition NewFrameworkAttemptStatus :: "Framework \<Rightarrow> int \<Rightarrow> FrameworkAttemptStatus" where
  "NewFrameworkAttemptStatus f frameworkAttemptID =
     \<lparr>FrameworkAttemptStatus.ID = frameworkAttemptID,
      ConfigMapName = FrameworkObj.Name f @ ''-attempt'',
      ConfigMapUID = None, FrameworkAttemptStatus.InstanceUID = None,
      FrameworkAttemptStatus.CompletionStatus = None, TaskRoleStatuses = []\<rparr>"

definition MarkAsDeletionPending :: "TaskStatus \<Rightarrow> TaskStatus \<times> bool" where
  "MarkAsDeletionPending ts =
     (if DeletionPending ts then (ts, False) else (ts\<lparr>DeletionPending := True\<rparr>, True))"

text \<open>
  The marking loops of \<^verbatim>\<open>syncFrameworkScale\<close> run \<^verbatim>\<open>taskIndex\<close> downwards; the list is the
  sequence of values the loop variable takes. Reading a slot outside the slice panics.
\<close>

fun markTasks :: "TaskStatus list \<Rightarrow> int list \<Rightarrow> bool \<Rightarrow> (TaskStatus list \<times> bool) option" where
  "markTasks tss [] p = Some (tss, p)"
| "markTasks tss (taskIndex # rest) p =
     (case nthTask tss taskIndex of
        None \<Rightarrow> None
      | Some taskStatus \<Rightarrow>
         (case MarkAsDeletionPending taskStatus of
            (taskStatus', isNew) \<Rightarrow>
              markTasks (tss[nat taskIndex := taskStatus']) rest (if isNew then True else p)))"

definition scaleRoleSpec ::
  "FrameworkController \<Rightarrow> Framework \<Rightarrow> TaskRoleSpec \<Rightarrow> bool \<Rightarrow> (Framework \<times> bool) option" where
  "scaleRoleSpec c f taskRoleSpec p =
     (let taskRoleName = TaskRoleSpec.Name taskRoleSpec;
          taskCountSpec = TaskNumber taskRoleSpec in
      case GetTaskRoleStatus f taskRoleName of
        None \<Rightarrow>
          Some (setTaskRoleStatuses
                  (FTaskRoleStatuses f @
                     [\<lparr>TaskRoleStatus.Name = taskRoleName,
                       TaskRoleStatus.PodGracefulDeletionTimeoutSec = None,
                       TaskStatuses = map (NewTaskStatus (now c) f taskRoleName) [0..taskCountSpec - 1]\<rparr>]) f,
                if 0 < taskCountSpec then True else p)
      | Some taskRoleStatus \<Rightarrow>
         (let taskCountStatus = int (length (TaskStatuses taskRoleStatus)) in
          if taskCountStatus < taskCountSpec then
            Some (updTaskRoleStatus taskRoleName
                    (\<lambda>trs. trs\<lparr>TaskStatuses := TaskStatuses trs @
                        map (NewTaskStatus (now c) f taskRoleName) [taskCountStatus..taskCountSpec - 1]\<rparr>) f,
                  True)
          else if taskCountStatus > taskCountSpec then
            (case markTasks (TaskStatuses taskRoleStatus) (rev [taskCountSpec..taskCountStatus - 1]) p of
               None \<Rightarrow> None
             | Some (tss, p1) \<Rightarrow>
                 Some (updTaskRoleStatus taskRoleName (\<lambda>trs. trs\<lparr>TaskStatuses := tss\<rparr>) f, p1))
          else Some (f, p)))"

fun scaleRoleSpecs ::
  "FrameworkController \<Rightarrow> Framework \<Rightarrow> TaskRoleSpec list \<Rightarrow> bool \<Rightarrow> (Framework \<times> bool) option" where
  "scaleRoleSpecs c f [] p = Some (f, p)"
| "scaleRoleSpecs c f (taskRoleSpec # rest) p =
     (case scaleRoleSpec c f taskRoleSpec p of
        None \<Rightarrow> None
      | Some (f1, p1) \<Rightarrow> scaleRoleSpecs c f1 rest p1)"

fun scaleRoleStatuses ::
  "Framework \<Rightarrow> TaskRoleStatus list \<Rightarrow> bool \<Rightarrow> (TaskRoleStatus list \<times> bool) option" where
  "scaleRoleStatuses f [] p = Some ([], p)"
| "scaleRoleStatuses f (taskRoleStatus # rest) p =
     (let taskCountStatus = int (length (TaskStatuses taskRoleStatus)) in
      case (if GetTaskRoleSpec f (TaskRoleStatus.Name taskRoleStatus) = None
            then (case markTasks (TaskStatuses taskRoleStatus) (rev [0..taskCountStatus - 1]) p of
                    None \<Rightarrow> None
                  | Some (tss, p1) \<Rightarrow> Some (taskRoleStatus\<lparr>TaskStatuses := tss\<rparr>, p1))
            else Some (taskRoleStatus, p)) of
        None \<Rightarrow> None
      | Some (taskRoleStatus', p1) \<Rightarrow>
         (case scaleRoleStatuses f rest p1 of
            None \<Rightarrow> None
          | Some (rest', p2) \<Rightarrow> Some (taskRoleStatus' # rest', p2)))"

definition syncFrameworkScale :: "FrameworkController \<Rightarrow> Framework \<Rightarrow> (Framework \<times> bool) option" where
  "syncFrameworkScale c f =
     (if IsCompleting f \<or>
         FrameworkStatus.State (Status f) = FrameworkAttemptCompleted \<or>
         FrameworkStatus.State (Status f) = FrameworkCompleted
      then Some (f, False)
      else
        (case scaleRoleSpecs c f (TaskRoles (Spec f)) False of
           None \<Rightarrow> None
         | Some (f1, p1) \<Rightarrow>
            (case scaleRoleStatuses f1 (FTaskRoleStatuses f1) p1 of
               None \<Rightarrow> None
             | Some (rs, p2) \<Rightarrow> Some (setTaskRoleStatuses rs f1, p2))))"

subsection \<open>The task state machine\<close>

text \<open>
  A section of a Go function either returns or falls through to the next section.
\<close>

datatype ('r, 'k) flow = Return 'r | Continue 'k

text \<open>
  Modelled from the spec: \<^verbatim>\<open>Framework.IsAnyTaskRunning\<close> is missing from the sources;
  section 4.E: "any task reports Running". The flag ignores deletion-pending tasks as
  in the selectors above.
\<close>

definition IsRunning :: "TaskStatus \<Rightarrow> bool \<Rightarrow> bool" where
  "IsRunning ts ignoreDeletionPending =
     (\<not> (ignoreDeletionPending \<and> DeletionPending ts) \<and> TaskStatus.State ts = TaskAttemptRunning)"

definition IsAnyTaskRunning :: "Framework \<Rightarrow> bool \<Rightarrow> bool" where
  "IsAnyTaskRunning f ignoreDeletionPending =
     list_ex (\<lambda>trs. list_ex (\<lambda>ts. IsRunning ts ignoreDeletionPending) (TaskStatuses trs))
       (FTaskRoleStatuses f)"

text \<open>Writes through the \<^verbatim>\<open>taskStatus\<close> pointer of \<^verbatim>\<open>syncTaskState\<close>.\<close>

definition setTaskCompletionStatus :: "TaskAttemptCompletionStatus option \<Rightarrow> TaskStatus \<Rightarrow> TaskStatus" where
  "setTaskCompletionStatus cs ts =
     ts\<lparr>TaskStatus.AttemptStatus := (TaskStatus.AttemptStatus ts)\<lparr>TaskAttemptStatus.CompletionStatus := cs\<rparr>\<rparr>"

definition setPodFields :: "Pod \<Rightarrow> TaskStatus \<Rightarrow> TaskStatus" where
  "setPodFields pod ts =
     ts\<lparr>TaskStatus.AttemptStatus := (TaskStatus.AttemptStatus ts)
          \<lparr>PodNodeName := Some (NodeName pod), TaskAttemptStatus.PodIP := Some (Pod.PodIP pod),
           PodHostIP := Some (HostIP pod)\<rparr>\<rparr>"

definition setPodCreated :: "Pod \<Rightarrow> TaskStatus \<Rightarrow> TaskStatus" where
  "setPodCreated pod ts =
     ts\<lparr>TaskStatus.AttemptStatus := (TaskStatus.AttemptStatus ts)
          \<lparr>PodUID := Some (Pod.UID pod),
           TaskAttemptStatus.InstanceUID :=
             Some (TaskAttemptStatus.ID (TaskStatus.AttemptStatus ts), Pod.UID pod)\<rparr>\<rparr>"

definition setTaskRetryDelaySec :: "int option \<Rightarrow> TaskStatus \<Rightarrow> TaskStatus" where
  "setTaskRetryDelaySec d ts =
     ts\<lparr>TaskStatus.RetryPolicyStatus := (TaskStatus.RetryPolicyStatus ts)\<lparr>RetryDelaySec := d\<rparr>\<rparr>"

definition retryTask :: "Framework \<Rightarrow> string \<Rightarrow> int \<Rightarrow> RetryDecision \<Rightarrow> TaskStatus \<Rightarrow> TaskStatus" where
  "retryTask f taskRoleName taskIndex retryDecision ts =
     (let total = int32 (TotalRetriedCount (TaskStatus.RetryPolicyStatus ts) + 1);
          accountable = (if IsAccountable retryDecision
                         then int32 (AccountableRetriedCount (TaskStatus.RetryPolicyStatus ts) + 1)
                         else AccountableRetriedCount (TaskStatus.RetryPolicyStatus ts)) in
      ts\<lparr>TaskStatus.RetryPolicyStatus :=
            \<lparr>TotalRetriedCount = total, AccountableRetriedCount = accountable, RetryDelaySec = None\<rparr>,
         TaskStatus.AttemptStatus := NewTaskAttemptStatus f taskRoleName taskIndex total\<rparr>)"

text \<open>\<^verbatim>\<open>errorWrap.Cause\<close> of an error of \<^verbatim>\<open>createPod\<close>: the API error it wraps.\<close>

fun Cause :: "error \<Rightarrow> api_error option" where
  "Cause (DeleteFailed e) = Some e"
| "Cause (GetAfterDeleteFailed e) = Some e"
| "Cause (GetFailed e) = Some e"
| "Cause (CreateFailed e) = Some e"
| "Cause (NamingConflict e) = Some e"
| "Cause _ = None"

text \<open>
  \<^verbatim>\<open>syncTaskState\<close>, lines 1633 to 1781: the task against its pod. The task is not in
  \<^verbatim>\<open>TaskCompleted\<close> nor \<^verbatim>\<open>TaskAttemptCompleted\<close> here.
\<close>

definition syncTaskPod ::
  "FrameworkController \<Rightarrow> Framework \<Rightarrow> ConfigMap option \<Rightarrow> string \<Rightarrow> int \<Rightarrow> TaskStatus \<Rightarrow>
     ((FrameworkController \<times> Framework \<times> error option, FrameworkController \<times> Framework) flow) option" where
  "syncTaskPod c f cm taskRoleName taskIndex taskStatus =
     (case getOrCleanupPod c f cm taskRoleName taskIndex False of
        None \<Rightarrow> None
      | Some (c1, pod, Some err) \<Rightarrow> Some (Return (c1, f, Some err))
      | Some (c1, None, None) \<Rightarrow>
          if TaskStatus.State taskStatus = TaskAttemptCreationRequested then
            (case (if DeletionPending taskStatus
                   then Some (c1, False, CompletionCodeDeleteTaskRequested,
                              ''User has requested to delete the Task by Framework ScaleDown'')
                   else (case enqueueTaskAttemptCreationTimeoutCheck c1 f taskRoleName taskIndex True of
                           None \<Rightarrow> None
                         | Some (c2, waiting) \<Rightarrow>
                             Some (c2, waiting, CompletionCodePodCreationTimeout,
                                   ''Pod does not appear in the local cache within timeout '' @
                                   SecToDurationText c (ObjectLocalCacheCreationTimeoutSec (cConfig c)) @
                                   '', so consider it was deleted and explicitly delete it''))) of
               None \<Rightarrow> None
             | Some (c2, waiting, code, diag) \<Rightarrow>
                 if waiting then Some (Return (c2, f, None))
                 else
                   (case PodUID (TaskStatus.AttemptStatus taskStatus) of
                      None \<Rightarrow> None
                    | Some podUID \<Rightarrow>
                       (case deletePod c2 f taskRoleName taskIndex podUID True False of
                          None \<Rightarrow> None
                        | Some (c3, Some err) \<Rightarrow> Some (Return (c3, f, Some err))
                        | Some (c3, None) \<Rightarrow>
                           (case completeTaskAttempt c3 f taskRoleName taskIndex True
                                   (Some (NewTaskAttemptCompletionStatus code diag None)) of
                              None \<Rightarrow> None
                            | Some (c4, f4) \<Rightarrow> Some (Return (c4, f4, None))))))
          else if TaskStatus.State taskStatus \<noteq> TaskAttemptCreationPending then
            (case completeTaskAttempt c1 f taskRoleName taskIndex True
                    (if TaskAttemptStatus.CompletionStatus (TaskStatus.AttemptStatus taskStatus) = None
                     then Some (NewTaskAttemptCompletionStatus CompletionCodePodExternalDeleted
                                  ''Pod was deleted by others'' None)
                     else None) of
               None \<Rightarrow> None
             | Some (c2, f2) \<Rightarrow> Some (Return (c2, f2, None)))
          else Some (Continue (c1, f))
      | Some (c1, Some pod, None) \<Rightarrow>
          if Pod.DeletionTimestamp pod = None then
            (case (if TaskStatus.State taskStatus = TaskAttemptDeletionPending then
                     (case PodUID (TaskStatus.AttemptStatus taskStatus) of
                        None \<Rightarrow> None
                      | Some podUID \<Rightarrow>
                         (case deletePod c1 f taskRoleName taskIndex podUID False False of
                            None \<Rightarrow> None
                          | Some (c2, Some err) \<Rightarrow> Some (Return (c2, f, Some err))
                          | Some (c2, None) \<Rightarrow>
                             (case TransitionTaskState (now c) f taskRoleName taskIndex
                                     TaskAttemptDeletionRequested of
                                None \<Rightarrow> None
                              | Some f2 \<Rightarrow> Some (Continue (c2, f2, TaskAttemptDeletionRequested)))))
                   else Some (Continue (c1, f, TaskStatus.State taskStatus))) of
               None \<Rightarrow> None
             | Some (Return r) \<Rightarrow> Some (Return r)
             | Some (Continue (c2, f2, state2)) \<Rightarrow>
                 if state2 = TaskAttemptDeletionRequested then Some (Return (c2, f2, None))
                 else
                   (case (if state2 = TaskAttemptCreationRequested
                          then TransitionTaskState (now c) f2 taskRoleName taskIndex TaskAttemptPreparing
                          else Some f2) of
                      None \<Rightarrow> None
                    | Some f3 \<Rightarrow>
                       (let f4 = updTaskStatus taskRoleName taskIndex (setPodFields pod) f3 in
                        case Phase pod of
                          PodUnknown \<Rightarrow> Some (Continue (c2, f4))
                        | PodPending \<Rightarrow>
                           (case TransitionTaskState (now c) f4 taskRoleName taskIndex TaskAttemptPreparing of
                              None \<Rightarrow> None
                            | Some f5 \<Rightarrow> Some (Continue (c2, f5)))
                        | PodRunning \<Rightarrow>
                           (case TransitionTaskState (now c) f4 taskRoleName taskIndex TaskAttemptRunning of
                              None \<Rightarrow> None
                            | Some f5 \<Rightarrow> Some (Continue (c2, f5)))
                        | PodSucceeded \<Rightarrow>
                           (case completeTaskAttempt c2 f4 taskRoleName taskIndex False
                                   (Some (NewTaskAttemptCompletionStatus CompletionCodeSucceeded
                                            ''Pod succeeded'' (Some (Capture pod)))) of
                              None \<Rightarrow> None
                            | Some (c5, f5) \<Rightarrow> Some (Return (c5, f5, None)))
                        | PodFailed \<Rightarrow>
                           (case MatchCompletionCodeInfos c pod of
                              (code, diagnostics) \<Rightarrow>
                               (case completeTaskAttempt c2 f4 taskRoleName taskIndex False
                                       (Some \<lparr>Code = code, Diagnostics = ''Pod failed: '' @ diagnostics,
                                              Pod = Some (Capture pod)\<rparr>) of
                                  None \<Rightarrow> None
                                | Some (c5, f5) \<Rightarrow> Some (Return (c5, f5, None))))
                        | PodPhaseOther x \<Rightarrow>
                            Some (Return (c2, f4, Some (UnrecognizedPodPhase (PodPhaseOther x)))))))
          else
            (let f2 = (if TaskAttemptStatus.CompletionStatus (TaskStatus.AttemptStatus taskStatus) = None
                       then updTaskStatus taskRoleName taskIndex
                              (setTaskCompletionStatus
                                 (Some (NewTaskAttemptCompletionStatus CompletionCodePodExternalDeleted
                                          ''Pod is being deleted by others'' None))) f
                       else f) in
             case TransitionTaskState (now c) f2 taskRoleName taskIndex TaskAttemptDeleting of
               None \<Rightarrow> None
             | Some f3 \<Rightarrow>
                (case handlePodGracefulDeletion c1 f3 taskRoleName taskIndex pod of
                   None \<Rightarrow> None
                 | Some (c2, err) \<Rightarrow> Some (Return (c2, f3, err)))))"

text \<open>Lines 1800 to 1872: attemptToRetryTask, for a task in \<^verbatim>\<open>TaskAttemptCompleted\<close>.\<close>

definition syncTaskRetry ::
  "FrameworkController \<Rightarrow> Framework \<Rightarrow> TaskRoleSpec option \<Rightarrow> string \<Rightarrow> int \<Rightarrow> TaskStatus \<Rightarrow>
     ((FrameworkController \<times> Framework \<times> error option, FrameworkController \<times> Framework) flow) option" where
  "syncTaskRetry c f taskRoleSpec taskRoleName taskIndex taskStatus =
     (case (case taskRoleSpec of
              None \<Rightarrow> Some \<lparr>RetryDecision.ShouldRetry = False, IsAccountable = True, DelaySec = 0,
                            Reason = ''TaskRoleSpec is already deleted''\<rparr>
            | Some spec \<Rightarrow>
               (case TaskAttemptStatus.CompletionStatus (TaskStatus.AttemptStatus taskStatus) of
                  None \<Rightarrow> None
                | Some cs \<Rightarrow>
                    Some (FrameworkController.ShouldRetry c (TaskSpec.RetryPolicy (Task spec))
                            (TaskStatus.RetryPolicyStatus taskStatus) (Inr cs) 0 0))) of
        None \<Rightarrow> None
      | Some retryDecision \<Rightarrow>
         (case (if RetryDelaySec (TaskStatus.RetryPolicyStatus taskStatus) = None then
                  (if RetryDecision.ShouldRetry retryDecision
                   then Some (updTaskStatus taskRoleName taskIndex
                                (setTaskRetryDelaySec (Some (DelaySec retryDecision))) f,
                              Some (DelaySec retryDecision))
                   else (case TransitionTaskState (now c) f taskRoleName taskIndex TaskCompleted of
                           None \<Rightarrow> None
                         | Some f1 \<Rightarrow> Some (f1, None)))
                else Some (f, RetryDelaySec (TaskStatus.RetryPolicyStatus taskStatus))) of
            None \<Rightarrow> None
          | Some (f1, None) \<Rightarrow> Some (Continue (c, f1))
          | Some (f1, Some d) \<Rightarrow>
             (case (if DeletionPending taskStatus then Some (c, False)
                    else enqueueTaskRetryDelayTimeoutCheck c f1 taskRoleName taskIndex True) of
                None \<Rightarrow> None
              | Some (c1, waiting) \<Rightarrow>
                  if waiting then Some (Return (c1, f1, None))
                  else
                    (let f2 = updTaskStatus taskRoleName taskIndex
                                (retryTask f1 taskRoleName taskIndex retryDecision) f1 in
                     case TransitionTaskState (now c) f2 taskRoleName taskIndex TaskAttemptCreationPending of
                       None \<Rightarrow> None
                     | Some f3 \<Rightarrow> Some (Return (enqueueFrameworkSync c1 f3, f3, None))))))"

text \<open>Lines 1876 to 1940: a task in \<^verbatim>\<open>TaskAttemptCreationPending\<close>.\<close>

definition syncTaskCreate ::
  "FrameworkController \<Rightarrow> Framework \<Rightarrow> ConfigMap option \<Rightarrow> TaskRoleSpec option \<Rightarrow> string \<Rightarrow> int \<Rightarrow>
     TaskStatus \<Rightarrow> (FrameworkController \<times> Framework \<times> error option) option" where
  "syncTaskCreate c f cm taskRoleSpec taskRoleName taskIndex taskStatus =
     (if IsCompleting f then Some (c, f, None)
      else if DeletionPending taskStatus \<or> taskRoleSpec = None then
        (case getOrCleanupPod c f cm taskRoleName taskIndex True of
           None \<Rightarrow> None
         | Some (c1, pod, Some err) \<Rightarrow> Some (c1, f, Some err)
         | Some (c1, pod, None) \<Rightarrow>
            (case completeTaskAttempt c1 f taskRoleName taskIndex True
                    (Some (NewTaskAttemptCompletionStatus CompletionCodeDeleteTaskRequested
                             ''User has requested to delete the Task by Framework ScaleDown'' None)) of
               None \<Rightarrow> None
             | Some (c2, f2) \<Rightarrow> Some (c2, f2, None)))
      else
        (case createPod c f cm taskRoleName taskIndex of
           None \<Rightarrow> None
         | Some (c1, Inl err) \<Rightarrow>
            (case Cause err of
               None \<Rightarrow> Some (c1, f, Some err)
             | Some apiErr \<Rightarrow>
                 if IsPodSpecPermanentError c apiErr then
                   (case getOrCleanupPod c1 f cm taskRoleName taskIndex True of
                      None \<Rightarrow> None
                    | Some (c2, pod, Some err2) \<Rightarrow> Some (c2, f, Some err2)
                    | Some (c2, pod, None) \<Rightarrow>
                       (case completeTaskAttempt c2 f taskRoleName taskIndex True
                               (Some (NewTaskAttemptCompletionStatus CompletionCodePodSpecPermanentError
                                        (''Failed to create Pod: '' @ ToJson c apiErr) None)) of
                          None \<Rightarrow> None
                        | Some (c3, f3) \<Rightarrow> Some (c3, f3, None)))
                 else Some (c1, f, Some err))
         | Some (c1, Inr pod) \<Rightarrow>
            (let f1 = updTaskStatus taskRoleName taskIndex (setPodCreated pod) f in
             case TransitionTaskState (now c) f1 taskRoleName taskIndex TaskAttemptCreationRequested of
               None \<Rightarrow> None
             | Some f2 \<Rightarrow>
                (case enqueueTaskAttemptCreationTimeoutCheck c1 f2 taskRoleName taskIndex False of
                   None \<Rightarrow> None
                 | Some (c2, waiting) \<Rightarrow> Some (c2, f2, None)))))"

text \<open>Lines 1944 to 2010: attemptToCompleteFrameworkAttempt, for a task in \<^verbatim>\<open>TaskCompleted\<close>.\<close>

definition syncTaskCompleted ::
  "FrameworkController \<Rightarrow> Framework \<Rightarrow> TaskRoleSpec option \<Rightarrow> string \<Rightarrow> int \<Rightarrow> TaskStatus \<Rightarrow>
     (FrameworkController \<times> Framework \<times> error option) option" where
  "syncTaskCompleted c f taskRoleSpec taskRoleName taskIndex taskStatus =
     (if IsCompleting f then Some (c, f, None)
      else
        (case (if DeletionPending taskStatus then None else taskRoleSpec) of
           None \<Rightarrow> Some (enqueueFrameworkSync c f, f, None)
         | Some spec \<Rightarrow>
            (case TaskRoleStatusOf f taskRoleName of
               None \<Rightarrow> None
             | Some taskRoleStatus \<Rightarrow>
                (let minFailedTaskCount = MinFailedTaskCount (FrameworkAttemptCompletionPolicy spec);
                     minSucceededTaskCount = MinSucceededTaskCount (FrameworkAttemptCompletionPolicy spec);
                     failedTaskCount = RoleTaskCountStatus taskRoleStatus (BindIDP IsFailed True);
                     succeededTaskCount = RoleTaskCountStatus taskRoleStatus (BindIDP IsSucceeded True);
                     trigger1 = (if IsFailed taskStatus True \<and> minFailedTaskCount \<ge> 1 \<and>
                                    failedTaskCount \<ge> minFailedTaskCount
                                 then Some (NewFailedTaskTriggeredCompletionStatus taskStatus taskRoleName
                                              failedTaskCount minFailedTaskCount)
                                 else None);
                     trigger2 = (if IsSucceeded taskStatus True \<and> minSucceededTaskCount \<ge> 1 \<and>
                                    succeededTaskCount \<ge> minSucceededTaskCount
                                 then Some (NewSucceededTaskTriggeredCompletionStatus taskStatus taskRoleName
                                              succeededTaskCount minSucceededTaskCount)
                                 else trigger1) in
                 case trigger2 of
                   Some triggerCompletionStatus \<Rightarrow>
                    (case completeFrameworkAttempt c f False (Some triggerCompletionStatus) of
                       None \<Rightarrow> None
                     | Some (c1, f1) \<Rightarrow> Some (c1, f1, None))
                 | None \<Rightarrow>
                    (let totalTaskCount = GetTotalTaskCountSpec f;
                         completedTaskCount = GetTaskCountStatus f (BindIDP IsCompleted True) in
                     if completedTaskCount \<ge> totalTaskCount then
                       (case completeFrameworkAttempt c f False
                               (Some (NewCompletedTaskTriggeredCompletionStatus (Some taskStatus)
                                        taskRoleName completedTaskCount totalTaskCount)) of
                          None \<Rightarrow> None
                        | Some (c1, f1) \<Rightarrow> Some (c1, f1, None))
                     else Some (c, f, None))))))"

text \<open>
  \<^verbatim>\<open>syncTaskState\<close>. The pointer \<^verbatim>\<open>taskStatus\<close> is read again from \<open>f\<close> after every section
  that may have written through it.
\<close>

definition syncTaskState ::
  "FrameworkController \<Rightarrow> Framework \<Rightarrow> ConfigMap option \<Rightarrow> string \<Rightarrow> int \<Rightarrow>
     (FrameworkController \<times> Framework \<times> error option) option" where
  "syncTaskState c f cm taskRoleName taskIndex =
     (let taskRoleSpec = GetTaskRoleSpec f taskRoleName in
      case TaskStatusOf f taskRoleName taskIndex of
        None \<Rightarrow> None
      | Some taskStatus \<Rightarrow>
          if TaskStatus.State taskStatus = TaskCompleted then Some (c, f, None)
          else
            (case (if TaskStatus.State taskStatus \<noteq> TaskAttemptCompleted
                   then syncTaskPod c f cm taskRoleName taskIndex taskStatus
                   else Some (Continue (c, f))) of
               None \<Rightarrow> None
             | Some (Return r) \<Rightarrow> Some r
             | Some (Continue (c1, f1)) \<Rightarrow>
                (case TaskStatusOf f1 taskRoleName taskIndex of
                   None \<Rightarrow> None
                 | Some taskStatus1 \<Rightarrow>
                     if TaskStatus.State taskStatus1 = TaskAttemptPreparing \<or>
                        TaskStatus.State taskStatus1 = TaskAttemptRunning then
                       (if DeletionPending taskStatus1 then
                          (case completeTaskAttempt c1 f1 taskRoleName taskIndex False
                                  (Some (NewTaskAttemptCompletionStatus CompletionCodeDeleteTaskRequested
                                           ''User has requested to delete the Task by Framework ScaleDown''
                                           None)) of
                             None \<Rightarrow> None
                           | Some (c2, f2) \<Rightarrow> Some (c2, f2, None))
                        else Some (c1, f1, None))
                     else
                       (case (if TaskStatus.State taskStatus1 = TaskAttemptCompleted
                              then syncTaskRetry c1 f1 taskRoleSpec taskRoleName taskIndex taskStatus1
                              else Some (Continue (c1, f1))) of
                          None \<Rightarrow> None
                        | Some (Return r) \<Rightarrow> Some r
                        | Some (Continue (c2, f2)) \<Rightarrow>
                           (case TaskStatusOf f2 taskRoleName taskIndex of
                              None \<Rightarrow> None
                            | Some taskStatus2 \<Rightarrow>
                                if TaskStatus.State taskStatus2 = TaskAttemptCreationPending then
                                  syncTaskCreate c2 f2 cm taskRoleSpec taskRoleName taskIndex taskStatus2
                                else if TaskStatus.State taskStatus2 = TaskCompleted then
                                  syncTaskCompleted c2 f2 taskRoleSpec taskRoleName taskIndex taskStatus2
                                else None)))))"

text \<open>
  \<^verbatim>\<open>syncTaskRoleStatuses\<close>: every task of every role in turn, the errors collected.
  \<^verbatim>\<open>errorAgg.NewAggregate\<close> of no error is nil.
\<close>

definition syncTaskAt ::
  "FrameworkController \<Rightarrow> Framework \<Rightarrow> ConfigMap option \<Rightarrow> nat \<Rightarrow> nat \<Rightarrow> error list \<Rightarrow>
     (FrameworkController \<times> Framework \<times> error list) option" where
  "syncTaskAt c f cm ri ti errs =
     (case taskAt f ri ti of
        None \<Rightarrow> None
      | Some taskStatus \<Rightarrow>
         (case syncTaskState c f cm (TaskRoleStatus.Name (FTaskRoleStatuses f ! ri)) (Index taskStatus) of
            None \<Rightarrow> None
          | Some (c1, f1, None) \<Rightarrow> Some (c1, f1, errs)
          | Some (c1, f1, Some err) \<Rightarrow> Some (c1, f1, errs @ [err])))"

fun syncTasks ::
  "FrameworkController \<Rightarrow> Framework \<Rightarrow> ConfigMap option \<Rightarrow> nat \<Rightarrow> nat list \<Rightarrow> error list \<Rightarrow>
     (FrameworkController \<times> Framework \<times> error list) option" where
  "syncTasks c f cm ri [] errs = Some (c, f, errs)"
| "syncTasks c f cm ri (ti # tis) errs =
     (case syncTaskAt c f cm ri ti errs of
        None \<Rightarrow> None
      | Some (c1, f1, errs1) \<Rightarrow> syncTasks c1 f1 cm ri tis errs1)"

fun syncRoles ::
  "FrameworkController \<Rightarrow> Framework \<Rightarrow> ConfigMap option \<Rightarrow> nat list \<Rightarrow> error list \<Rightarrow>
     (FrameworkController \<times> Framework \<times> error list) option" where
  "syncRoles c f cm [] errs = Some (c, f, errs)"
| "syncRoles c f cm (ri # ris) errs =
     (if ri < length (FTaskRoleStatuses f) then
        (case syncTasks c f cm ri [0..<length (TaskStatuses (FTaskRoleStatuses f ! ri))] errs of
           None \<Rightarrow> None
         | Some (c1, f1, errs1) \<Rightarrow> syncRoles c1 f1 cm ris errs1)
      else None)"

definition NewAggregate :: "error list \<Rightarrow> error option" where
  "NewAggregate errs = (if errs = [] then None else Some (Aggregate errs))"

definition syncTaskRoleStatuses ::
  "FrameworkController \<Rightarrow> Framework \<Rightarrow> ConfigMap option \<Rightarrow>
     (FrameworkController \<times> Framework \<times> error option) option" where
  "syncTaskRoleStatuses c f cm =
     (case syncRoles c f cm [0..<length (FTaskRoleStatuses f)] [] of
        None \<Rightarrow> None
      | Some (c1, f1, errs) \<Rightarrow> Some (c1, f1, NewAggregate errs))"

subsection \<open>The framework state machine\<close>

definition setFrameworkCompletionStatus ::
  "FrameworkAttemptCompletionStatus option \<Rightarrow> Framework \<Rightarrow> Framework" where
  "setFrameworkCompletionStatus cs f =
     f\<lparr>Status := (Status f)\<lparr>FrameworkStatus.AttemptStatus :=
        (FrameworkStatus.AttemptStatus (Status f))\<lparr>FrameworkAttemptStatus.CompletionStatus := cs\<rparr>\<rparr>\<rparr>"

definition setFrameworkRetryDelaySec :: "int option \<Rightarrow> Framework \<Rightarrow> Framework" where
  "setFrameworkRetryDelaySec d f =
     f\<lparr>Status := (Status f)\<lparr>FrameworkStatus.RetryPolicyStatus :=
        (FrameworkStatus.RetryPolicyStatus (Status f))\<lparr>RetryDelaySec := d\<rparr>\<rparr>\<rparr>"

definition setConfigMapCreated :: "ConfigMap \<Rightarrow> Framework \<Rightarrow> Framework" where
  "setConfigMapCreated cm f =
     f\<lparr>Status := (Status f)\<lparr>FrameworkStatus.AttemptStatus :=
        (FrameworkStatus.AttemptStatus (Status f))
          \<lparr>ConfigMapUID := Some (ConfigMap.UID cm),
           FrameworkAttemptStatus.InstanceUID :=
             Some (FrameworkAttemptStatus.ID (FrameworkStatus.AttemptStatus (Status f)), ConfigMap.UID cm)\<rparr>\<rparr>\<rparr>"

text \<open>Lines 1188 to 1194: the counters and the fresh attempt of a retried framework.\<close>

definition retryFramework :: "RetryDecision \<Rightarrow> Framework \<Rightarrow> Framework" where
  "retryFramework retryDecision f =
     (let total = int32 (TotalRetriedCount (FrameworkStatus.RetryPolicyStatus (Status f)) + 1);
          accountable = (if IsAccountable retryDecision
                         then int32 (AccountableRetriedCount (FrameworkStatus.RetryPolicyStatus (Status f)) + 1)
                         else AccountableRetriedCount (FrameworkStatus.RetryPolicyStatus (Status f))) in
      f\<lparr>Status := (Status f)
           \<lparr>FrameworkStatus.RetryPolicyStatus :=
              \<lparr>TotalRetriedCount = total, AccountableRetriedCount = accountable, RetryDelaySec = None\<rparr>,
            FrameworkStatus.AttemptStatus := NewFrameworkAttemptStatus f total\<rparr>\<rparr>)"

text \<open>
  \<^verbatim>\<open>syncFrameworkState\<close>, lines 1026 to 1127: the framework against its ConfigMap. The
  state is not \<^verbatim>\<open>FrameworkCompleted\<close> nor \<^verbatim>\<open>FrameworkAttemptCompleted\<close> here.
\<close>

definition syncFrameworkConfigMap ::
  "FrameworkController \<Rightarrow> Framework \<Rightarrow>
     ((FrameworkController \<times> Framework \<times> error option,
       FrameworkController \<times> Framework \<times> ConfigMap option) flow) option" where
  "syncFrameworkConfigMap c f =
     (case getOrCleanupConfigMap c f False of
        (c1, cm, Some err) \<Rightarrow> Some (Return (c1, f, Some err))
      | (c1, None, None) \<Rightarrow>
          if FrameworkStatus.State (Status f) = FrameworkAttemptCreationRequested then
            (case (if ExecutionType (Spec f) = ExecutionStop
                   then (c1, False, CompletionCodeStopFrameworkRequested,
                         ''User has requested to stop the Framework'')
                   else (case enqueueFrameworkAttemptCreationTimeoutCheck c1 f True of
                           (c2, waiting) \<Rightarrow>
                             (c2, waiting, CompletionCodeConfigMapCreationTimeout,
                              ''ConfigMap does not appear in the local cache within timeout '' @
                              SecToDurationText c (ObjectLocalCacheCreationTimeoutSec (cConfig c)) @
                              '', so consider it was deleted and explicitly delete it''))) of
               (c2, waiting, code, diag) \<Rightarrow>
                 if waiting then Some (Return (c2, f, None))
                 else
                   (case ConfigMapUIDOf f of
                      None \<Rightarrow> None
                    | Some cmUID \<Rightarrow>
                       (case deleteConfigMap c2 f cmUID True of
                          (c3, Some err) \<Rightarrow> Some (Return (c3, f, Some err))
                        | (c3, None) \<Rightarrow>
                           (case completeFrameworkAttempt c3 f True
                                   (Some (NewFrameworkAttemptCompletionStatus code diag None)) of
                              None \<Rightarrow> None
                            | Some (c4, f4) \<Rightarrow> Some (Return (c4, f4, None))))))
          else if FrameworkStatus.State (Status f) \<noteq> FrameworkAttemptCreationPending then
            (case completeFrameworkAttempt c1 f True
                    (if FrameworkAttemptStatus.CompletionStatus (FrameworkStatus.AttemptStatus (Status f)) = None
                     then Some (NewFrameworkAttemptCompletionStatus CompletionCodeConfigMapExternalDeleted
                                  ''ConfigMap was deleted by others'' None)
                     else None) of
               None \<Rightarrow> None
             | Some (c2, f2) \<Rightarrow> Some (Return (c2, f2, None)))
          else Some (Continue (c1, f, None))
      | (c1, Some cm, None) \<Rightarrow>
          if ConfigMap.DeletionTimestamp cm = None then
            (case (if FrameworkStatus.State (Status f) = FrameworkAttemptDeletionPending then
                     (case ConfigMapUIDOf f of
                        None \<Rightarrow> None
                      | Some cmUID \<Rightarrow>
                         (case deleteConfigMap c1 f cmUID False of
                            (c2, Some err) \<Rightarrow> Some (Return (c2, f, Some err))
                          | (c2, None) \<Rightarrow>
                              Some (Continue (c2, TransitionFrameworkState (now c) f
                                                    FrameworkAttemptDeletionRequested))))
                   else Some (Continue (c1, f))) of
               None \<Rightarrow> None
             | Some (Return r) \<Rightarrow> Some (Return r)
             | Some (Continue (c2, f2)) \<Rightarrow>
                 if FrameworkStatus.State (Status f2) = FrameworkAttemptDeletionRequested
                 then Some (Continue (c2, f2, Some cm))
                 else if FrameworkStatus.State (Status f2) = FrameworkAttemptCreationRequested
                 then Some (Continue (c2, TransitionFrameworkState (now c) f2 FrameworkAttemptPreparing,
                                      Some cm))
                 else Some (Continue (c2, f2, Some cm)))
          else
            (let f2 = (if FrameworkAttemptStatus.CompletionStatus (FrameworkStatus.AttemptStatus (Status f)) = None
                       then setFrameworkCompletionStatus
                              (Some (NewFrameworkAttemptCompletionStatus CompletionCodeConfigMapExternalDeleted
                                       ''ConfigMap is being deleted by others'' None)) f
                       else f) in
             Some (Continue (c1, TransitionFrameworkState (now c) f2 FrameworkAttemptDeleting, Some cm))))"

text \<open>
  Lines 1133 to 1204: attemptToRetryFramework, for a framework in
  \<^verbatim>\<open>FrameworkAttemptCompleted\<close>. The retry evaluator reads through the pointer
  \<^verbatim>\<open>f.Status.AttemptStatus.CompletionStatus\<close>. Every path of the section returns.
\<close>

definition syncFrameworkRetry ::
  "FrameworkController \<Rightarrow> Framework \<Rightarrow> (FrameworkController \<times> Framework \<times> error option) option" where
  "syncFrameworkRetry c f =
     (case FrameworkAttemptStatus.CompletionStatus (FrameworkStatus.AttemptStatus (Status f)) of
        None \<Rightarrow> None
      | Some cs \<Rightarrow>
         (let retryDecision =
                FrameworkController.ShouldRetry c (FrameworkSpec.RetryPolicy (Spec f))
                  (FrameworkStatus.RetryPolicyStatus (Status f)) (Inl cs)
                  (FrameworkMinRetryDelaySecForTransientConflictFailed (cConfig c))
                  (FrameworkMaxRetryDelaySecForTransientConflictFailed (cConfig c)) in
          case (if RetryDelaySec (FrameworkStatus.RetryPolicyStatus (Status f)) = None then
                  (if RetryDecision.ShouldRetry retryDecision
                   then Continue (setFrameworkRetryDelaySec (Some (DelaySec retryDecision)) f)
                   else (let f1 = TransitionFrameworkState (now c) f FrameworkCompleted in
                         Return (fst (enqueueFrameworkCompletedRetainTimeoutCheck c f1 False), f1, None)))
                else Continue f) of
            Return r \<Rightarrow> Some r
          | Continue f1 \<Rightarrow>
             (case (if ExecutionType (Spec f1) = ExecutionStop then Some (c, False)
                    else enqueueFrameworkRetryDelayTimeoutCheck c f1 True) of
                None \<Rightarrow> None
              | Some (c1, waiting) \<Rightarrow>
                  if waiting then Some (c1, f1, None)
                  else
                    (let f2 = TransitionFrameworkState (now c) (retryFramework retryDecision f1)
                                FrameworkAttemptCreationPending in
                     Some (enqueueFrameworkSync c1 f2, f2, None)))))"

text \<open>Lines 1210 to 1255: createFrameworkAttempt, for \<^verbatim>\<open>FrameworkAttemptCreationPending\<close>.\<close>

definition syncFrameworkCreate ::
  "FrameworkController \<Rightarrow> Framework \<Rightarrow> (FrameworkController \<times> Framework \<times> error option) option" where
  "syncFrameworkCreate c f =
     (if FrameworkObj.DeletionTimestamp f \<noteq> None then Some (c, f, None)
      else if ExecutionType (Spec f) = ExecutionStop then
        (case getOrCleanupConfigMap c f True of
           (c1, cm, Some err) \<Rightarrow> Some (c1, f, Some err)
         | (c1, cm, None) \<Rightarrow>
            (case completeFrameworkAttempt c1 f True
                    (Some (NewFrameworkAttemptCompletionStatus CompletionCodeStopFrameworkRequested
                             ''User has requested to stop the Framework'' None)) of
               None \<Rightarrow> None
             | Some (c2, f2) \<Rightarrow> Some (c2, f2, None)))
      else
        (case createConfigMap c f of
           (c1, Inl err) \<Rightarrow> Some (c1, f, Some err)
         | (c1, Inr cm) \<Rightarrow>
            (let f2 = TransitionFrameworkState (now c) (setConfigMapCreated cm f)
                        FrameworkAttemptCreationRequested in
             Some (fst (enqueueFrameworkAttemptCreationTimeoutCheck c1 f2 False), f2, None))))"

text \<open>Lines 1260 to 1286: the attempt, its completion policy and its tasks.\<close>

definition syncFrameworkAttempt ::
  "FrameworkController \<Rightarrow> Framework \<Rightarrow> ConfigMap option \<Rightarrow>
     (FrameworkController \<times> Framework \<times> error option) option" where
  "syncFrameworkAttempt c f cm =
     (case (if \<not> IsCompleting f \<and> ExecutionType (Spec f) = ExecutionStop
            then completeFrameworkAttempt c f False
                   (Some (NewFrameworkAttemptCompletionStatus CompletionCodeStopFrameworkRequested
                            ''User has requested to stop the Framework'' None))
            else Some (c, f)) of
        None \<Rightarrow> None
      | Some (c1, f1) \<Rightarrow>
         (case (if \<not> IsCompleting f1
                then (case syncFrameworkAttemptCompletionPolicy c1 f1 of
                        None \<Rightarrow> None
                      | Some (c2, f2, triggered) \<Rightarrow> Some (c2, f2))
                else Some (c1, f1)) of
            None \<Rightarrow> None
          | Some (c2, f2) \<Rightarrow>
             (case syncTaskRoleStatuses c2 f2 cm of
                None \<Rightarrow> None
              | Some (c3, f3, err) \<Rightarrow>
                  Some (c3,
                        (if FrameworkStatus.State (Status f3) = FrameworkAttemptPreparing \<and>
                            IsAnyTaskRunning f3 True
                         then TransitionFrameworkState (now c) f3 FrameworkAttemptRunning
                         else f3),
                        err))))"

definition syncFrameworkState ::
  "FrameworkController \<Rightarrow> Framework \<Rightarrow> (FrameworkController \<times> Framework \<times> error option) option" where
  "syncFrameworkState c f =
     (if FrameworkStatus.State (Status f) = FrameworkCompleted then
        (case enqueueFrameworkCompletedRetainTimeoutCheck c f True of
           (c1, waiting) \<Rightarrow>
             if waiting then Some (c1, f, None)
             else (case deleteFramework c1 f True of (c2, err) \<Rightarrow> Some (c2, f, err)))
      else
        (case (if FrameworkStatus.State (Status f) \<noteq> FrameworkAttemptCompleted
               then syncFrameworkConfigMap c f
               else Some (Continue (c, f, None))) of
           None \<Rightarrow> None
         | Some (Return r) \<Rightarrow> Some r
         | Some (Continue (c1, f1, cm)) \<Rightarrow>
             if FrameworkStatus.State (Status f1) = FrameworkAttemptCompleted then syncFrameworkRetry c1 f1
             else if FrameworkStatus.State (Status f1) = FrameworkAttemptCreationPending
             then syncFrameworkCreate c1 f1
             else if FrameworkStatus.State (Status f1) = FrameworkAttemptPreparing \<or>
                     FrameworkStatus.State (Status f1) = FrameworkAttemptRunning \<or>
                     FrameworkStatus.State (Status f1) = FrameworkAttemptDeletionRequested \<or>
                     FrameworkStatus.State (Status f1) = FrameworkAttemptDeleting
             then syncFrameworkAttempt c1 f1 cm
             else None))"

subsection \<open>A concrete framework\<close>

text \<open>
  The example the sources end with (\<^verbatim>\<open>batchstatefulfailed\<close>): one role \<^verbatim>\<open>worker\<close> of three
  tasks, completed by the first failed task. Its status is given with the three task
  slots in place, the first of them created and waiting for its pod.
\<close>

definition workerRoleSpec :: TaskRoleSpec where
  "workerRoleSpec =
     \<lparr>TaskRoleSpec.Name = ''worker'', TaskNumber = 3,
      FrameworkAttemptCompletionPolicy = \<lparr>MinFailedTaskCount = 1, MinSucceededTaskCount = - 1\<rparr>,
      Task = \<lparr>TaskSpec.RetryPolicy = \<lparr>MaxRetryCount = 1, FancyRetryPolicy = True\<rparr>,
              TaskSpec.PodGracefulDeletionTimeoutSec = Some 1800, PodTemplate = ''ubuntu''\<rparr>\<rparr>"

definition exampleSpec :: FrameworkSpec where
  "exampleSpec =
     \<lparr>ExecutionType = ExecutionStart,
      FrameworkSpec.RetryPolicy = \<lparr>MaxRetryCount = 1, FancyRetryPolicy = True\<rparr>,
      TaskRoles = [workerRoleSpec], TaskRolesIsNil = False\<rparr>"

definition exampleTask :: "int \<Rightarrow> TaskState \<Rightarrow> UID option \<Rightarrow> TaskStatus" where
  "exampleTask i st podUID =
     \<lparr>Index = i, TaskStatus.State = st, TaskStatus.TransitionTime = 100, CompletionTime = None,
      DeletionPending = False,
      TaskStatus.RetryPolicyStatus =
        \<lparr>TotalRetriedCount = 0, AccountableRetriedCount = 0, RetryDelaySec = None\<rparr>,
      TaskStatus.AttemptStatus =
        \<lparr>TaskAttemptStatus.ID = 0, PodName = ''batchstatefulfailed-worker'', PodUID = podUID,
         TaskAttemptStatus.InstanceUID = None, PodNodeName = None, PodIP = None, PodHostIP = None,
         TaskAttemptStatus.CompletionStatus = None\<rparr>\<rparr>"

definition exampleStatus :: FrameworkStatus where
  "exampleStatus =
     \<lparr>FrameworkStatus.State = FrameworkAttemptRunning, FrameworkStatus.TransitionTime = 90,
      FrameworkStatus.RetryPolicyStatus =
        \<lparr>TotalRetriedCount = 0, AccountableRetriedCount = 0, RetryDelaySec = None\<rparr>,
      FrameworkStatus.AttemptStatus =
        \<lparr>FrameworkAttemptStatus.ID = 0, ConfigMapName = ''batchstatefulfailed-attempt'',
         ConfigMapUID = Some ''cm-1'', FrameworkAttemptStatus.InstanceUID = Some (0, ''cm-1''),
         FrameworkAttemptStatus.CompletionStatus = None,
         TaskRoleStatuses =
           [\<lparr>TaskRoleStatus.Name = ''worker'',
             TaskRoleStatus.PodGracefulDeletionTimeoutSec = Some 1800,
             TaskStatuses =
               [exampleTask 0 TaskAttemptCreationRequested (Some ''pod-0''),
                exampleTask 1 TaskAttemptCreationPending None,
                exampleTask 2 TaskAttemptCreationPending None]\<rparr>]\<rparr>\<rparr>"

definition exampleFramework :: Framework where
  "exampleFramework =
     \<lparr>Namespace = ''default'', FrameworkObj.Name = ''batchstatefulfailed'', FrameworkObj.UID = ''f-1'',
      FrameworkObj.DeletionTimestamp = None, Spec = exampleSpec, Status = exampleStatus\<rparr>"

text \<open>
  The same framework later (scenario 6 of the specification): task 0 has failed and is
  completed, tasks 1 and 2 are still running.
\<close>

definition examplePodFailure :: TaskAttemptCompletionStatus where
  "examplePodFailure = \<lparr>Code = CompletionCodePodFailure 1, Diagnostics = ''Pod failed: exit 1'', Pod = None\<rparr>"

definition failedTask :: "int \<Rightarrow> time \<Rightarrow> TaskStatus" where
  "failedTask i t =
     \<lparr>Index = i, TaskStatus.State = TaskCompleted, TaskStatus.TransitionTime = t,
      CompletionTime = Some t, DeletionPending = False,
      TaskStatus.RetryPolicyStatus =
        \<lparr>TotalRetriedCount = 1, AccountableRetriedCount = 1, RetryDelaySec = None\<rparr>,
      TaskStatus.AttemptStatus =
        \<lparr>TaskAttemptStatus.ID = 1, PodName = ''batchstatefulfailed-worker'', PodUID = Some ''pod-0'',
         TaskAttemptStatus.InstanceUID = Some (1, ''pod-0''), PodNodeName = Some ''node-1'',
         PodIP = Some ''10.0.0.1'', PodHostIP = Some ''10.1.0.1'',
         TaskAttemptStatus.CompletionStatus = Some examplePodFailure\<rparr>\<rparr>"

definition exampleFailedFramework :: Framework where
  "exampleFailedFramework =
     setTaskRoleStatuses
       [\<lparr>TaskRoleStatus.Name = ''worker'', TaskRoleStatus.PodGracefulDeletionTimeoutSec = Some 1800,
         TaskStatuses = [failedTask 0 200, exampleTask 1 TaskAttemptRunning (Some ''pod-1''),
                         exampleTask 2 TaskAttemptRunning (Some ''pod-2'')]\<rparr>]
       exampleFramework"

definition exampleStop :: FrameworkAttemptCompletionStatus where
  "exampleStop = NewFrameworkAttemptCompletionStatus CompletionCodeStopFrameworkRequested
     ''User has requested to stop the Framework'' None"

text \<open>
  A framework of two roles: a parameter server \<^verbatim>\<open>ps\<close> completed by its first succeeded or
  failed task, and the workers. The only \<^verbatim>\<open>ps\<close> task has succeeded at time 300, after
  worker 0 has failed at time 200.
\<close>

definition psRoleSpec :: TaskRoleSpec where
  "psRoleSpec =
     \<lparr>TaskRoleSpec.Name = ''ps'', TaskNumber = 1,
      FrameworkAttemptCompletionPolicy = \<lparr>MinFailedTaskCount = 1, MinSucceededTaskCount = 1\<rparr>,
      Task = \<lparr>TaskSpec.RetryPolicy = \<lparr>MaxRetryCount = 0, FancyRetryPolicy = False\<rparr>,
              TaskSpec.PodGracefulDeletionTimeoutSec = None, PodTemplate = ''ubuntu''\<rparr>\<rparr>"

definition succeededTask :: "int \<Rightarrow> time \<Rightarrow> TaskStatus" where
  "succeededTask i t =
     \<lparr>Index = i, TaskStatus.State = TaskCompleted, TaskStatus.TransitionTime = t,
      CompletionTime = Some t, DeletionPending = False,
      TaskStatus.RetryPolicyStatus =
        \<lparr>TotalRetriedCount = 0, AccountableRetriedCount = 0, RetryDelaySec = None\<rparr>,
      TaskStatus.AttemptStatus =
        \<lparr>TaskAttemptStatus.ID = 0, PodName = ''batchstatefulfailed-ps'', PodUID = Some ''pod-ps'',
         TaskAttemptStatus.InstanceUID = Some (0, ''pod-ps''), PodNodeName = Some ''node-2'',
         PodIP = Some ''10.0.0.2'', PodHostIP = Some ''10.1.0.2'',
         TaskAttemptStatus.CompletionStatus =
           Some \<lparr>Code = CompletionCodeSucceeded, Diagnostics = ''Pod succeeded'', Pod = None\<rparr>\<rparr>\<rparr>"

definition exampleTwoRoleFramework :: Framework where
  "exampleTwoRoleFramework =
     setTaskRoleStatuses
       [\<lparr>TaskRoleStatus.Name = ''ps'', TaskRoleStatus.PodGracefulDeletionTimeoutSec = None,
         TaskStatuses = [succeededTask 0 300]\<rparr>,
        \<lparr>TaskRoleStatus.Name = ''worker'', TaskRoleStatus.PodGracefulDeletionTimeoutSec = Some 1800,
         TaskStatuses = [failedTask 0 200, exampleTask 1 TaskAttemptRunning (Some ''pod-1''),
                         exampleTask 2 TaskAttemptRunning (Some ''pod-2'')]\<rparr>]
       (exampleFramework\<lparr>Spec := exampleSpec\<lparr>TaskRoles := [psRoleSpec, workerRoleSpec]\<rparr>\<rparr>)"

text \<open>
  The two-role framework after a change of its spec (scenario 5 of the specification):
  the workers are scaled down from three to one, the role \<^verbatim>\<open>ps\<close> is removed and a role
  \<^verbatim>\<open>evaluator\<close> of two tasks is added.
\<close>

definition evaluatorRoleSpec :: TaskRoleSpec where
  "evaluatorRoleSpec =
     \<lparr>TaskRoleSpec.Name = ''evaluator'', TaskNumber = 2,
      FrameworkAttemptCompletionPolicy = \<lparr>MinFailedTaskCount = 1, MinSucceededTaskCount = - 1\<rparr>,
      Task = \<lparr>TaskSpec.RetryPolicy = \<lparr>MaxRetryCount = 0, FancyRetryPolicy = False\<rparr>,
              TaskSpec.PodGracefulDeletionTimeoutSec = None, PodTemplate = ''ubuntu''\<rparr>\<rparr>"

definition exampleRescaledFramework :: Framework where
  "exampleRescaledFramework =
     exampleTwoRoleFramework
       \<lparr>Spec := exampleSpec\<lparr>TaskRoles := [workerRoleSpec\<lparr>TaskNumber := 1\<rparr>, evaluatorRoleSpec]\<rparr>\<rparr>"

text \<open>
  A framework whose roles set no threshold: \<^verbatim>\<open>ps\<close> of one task, succeeded at time 300, and
  two workers, failed at time 200 and succeeded at time 400; a third worker, scaled down
  and completed at time 500, is deletion pending.
\<close>

definition exampleAllCompletedFramework :: Framework where
  "exampleAllCompletedFramework =
     setTaskRoleStatuses
       [\<lparr>TaskRoleStatus.Name = ''ps'', TaskRoleStatus.PodGracefulDeletionTimeoutSec = None,
         TaskStatuses = [succeededTask 0 300]\<rparr>,
        \<lparr>TaskRoleStatus.Name = ''worker'', TaskRoleStatus.PodGracefulDeletionTimeoutSec = Some 1800,
         TaskStatuses = [failedTask 0 200, succeededTask 1 400,
                         (failedTask 2 500)\<lparr>DeletionPending := True\<rparr>]\<rparr>]
       (exampleFramework\<lparr>Spec := exampleSpec\<lparr>TaskRoles :=
          [psRoleSpec\<lparr>FrameworkAttemptCompletionPolicy :=
             \<lparr>MinFailedTaskCount = - 1, MinSucceededTaskCount = - 1\<rparr>\<rparr>,
           workerRoleSpec\<lparr>TaskNumber := 2, FrameworkAttemptCompletionPolicy :=
             \<lparr>MinFailedTaskCount = - 1, MinSucceededTaskCount = - 1\<rparr>\<rparr>]\<rparr>\<rparr>)"

text \<open>
  A controller whose caches are empty and whose API server answers every delete with
  the error \<open>e\<close> (or accepts it, for \<open>None\<close>) and every get with not-found.
\<close>

definition exampleRemote :: "api_error option \<Rightarrow> Remote" where
  "exampleRemote e =
     \<lparr>deleteResponse = (\<lambda>_. e),
      getFrameworkResponse = (\<lambda>_. Inl ErrNotFound),
      getConfigMapResponse = (\<lambda>_. Inl ErrNotFound),
      getPodResponse = (\<lambda>_. Inl ErrNotFound),
      createConfigMapResponse = (\<lambda>_. Inl (ErrOther ''forbidden'')),
      createPodResponse = (\<lambda>_. Inl (ErrOther ''forbidden''))\<rparr>"

definition exampleController :: "api_error option \<Rightarrow> time \<Rightarrow> FrameworkController" where
  "exampleController e t =
     \<lparr>cConfig = \<lparr>FrameworkCompletedRetainSec = 2592000, ObjectLocalCacheCreationTimeoutSec = 300,
                 FrameworkMinRetryDelaySecForTransientConflictFailed = 60,
                 FrameworkMaxRetryDelaySecForTransientConflictFailed = 900\<rparr>,
      remote = exampleRemote e, requests = [],
      cmLister = (\<lambda>_ _. Inl ErrNotFound), podLister = (\<lambda>_ _. Inl ErrNotFound),
      fQueue = [], now = t,
      FrameworkController.ShouldRetry =
        (\<lambda>_ _ _ _ _. \<lparr>RetryDecision.ShouldRetry = False, IsAccountable = True, DelaySec = 0, Reason = []\<rparr>),
      MatchCompletionCodeInfos = (\<lambda>_. (CompletionCodePodFailure 1, ''failed'')),
      IsPodSpecPermanentError = (\<lambda>_. False),
      SecToDurationText = (\<lambda>sec. intString (sec div 60) @ ''m'' @ intString (sec mod 60) @ ''s''),
      ToJson = (\<lambda>_. ''{}'')\<rparr>"

text \<open>
  The example framework once its attempt is completed (at time 250) by the failure of
  task 0, and a retry evaluator that grants a retry after a delay of 60 seconds.
\<close>

definition exampleCompletedFramework :: Framework where
  "exampleCompletedFramework =
     exampleFailedFramework
       \<lparr>Status := (Status exampleFailedFramework)
          \<lparr>FrameworkStatus.State := FrameworkAttemptCompleted,
           FrameworkStatus.TransitionTime := 250,
           FrameworkStatus.AttemptStatus :=
             (FrameworkStatus.AttemptStatus (Status exampleFailedFramework))
               \<lparr>FrameworkAttemptStatus.CompletionStatus :=
                  Some (NewFailedTaskTriggeredCompletionStatus (failedTask 0 200) ''worker'' 1 1)\<rparr>\<rparr>\<rparr>"

definition exampleRetryingController :: "time \<Rightarrow> FrameworkController" where
  "exampleRetryingController t =
     (exampleController None t)
       \<lparr>FrameworkController.ShouldRetry :=
          (\<lambda>_ _ _ _ _. \<lparr>RetryDecision.ShouldRetry = True, IsAccountable = True, DelaySec = 60,
                          Reason = ''fancy retry''\<rparr>)\<rparr>"

text \<open>
  The example framework with its execution type set to \<^verbatim>\<open>Stop\<close>: while it runs, seen by a
  controller whose cache holds the ConfigMap of the attempt, or holds it with a deletion
  timestamp; and once its attempt is completed, with a retry scheduled an hour later.
\<close>

definition exampleConfigMap :: ConfigMap where
  "exampleConfigMap =
     \<lparr>ConfigMap.Name = ''batchstatefulfailed-attempt'', ConfigMap.UID = ''cm-1'',
      ConfigMap.DeletionTimestamp = None, ConfigMap.ControllerUID = Some ''f-1''\<rparr>"

definition exampleStoppedFramework :: Framework where
  "exampleStoppedFramework = exampleFramework\<lparr>Spec := exampleSpec\<lparr>ExecutionType := ExecutionStop\<rparr>\<rparr>"

definition exampleManagingController :: "time \<Rightarrow> FrameworkController" where
  "exampleManagingController t = (exampleController None t)\<lparr>cmLister := (\<lambda>_ _. Inr exampleConfigMap)\<rparr>"

definition exampleDeletingController :: "time \<Rightarrow> FrameworkController" where
  "exampleDeletingController t =
     (exampleController None t)
       \<lparr>cmLister := (\<lambda>_ _. Inr (exampleConfigMap\<lparr>ConfigMap.DeletionTimestamp := Some 450\<rparr>))\<rparr>"

definition exampleStoppedCompletedFramework :: Framework where
  "exampleStoppedCompletedFramework =
     setFrameworkRetryDelaySec (Some 3600)
       (exampleCompletedFramework\<lparr>Spec := exampleSpec\<lparr>ExecutionType := ExecutionStop\<rparr>\<rparr>)"

text \<open>
  A spec that names the role \<^verbatim>\<open>worker\<close> twice, with one task and with three, over a status
  of two workers.
\<close>

definition exampleDuplicateRoleFramework :: Framework where
  "exampleDuplicateRoleFramework =
     setTaskRoleStatuses
       [\<lparr>TaskRoleStatus.Name = ''worker'', TaskRoleStatus.PodGracefulDeletionTimeoutSec = Some 1800,
         TaskStatuses = [exampleTask 0 TaskAttemptRunning (Some ''pod-0''),
                         exampleTask 1 TaskAttemptRunning (Some ''pod-1'')]\<rparr>]
       (exampleFramework\<lparr>Spec := exampleSpec\<lparr>TaskRoles :=
          [workerRoleSpec\<lparr>TaskNumber := 1\<rparr>, workerRoleSpec]\<rparr>\<rparr>)"

text \<open>
  The completed example framework with its retry counters at the largest \<^verbatim>\<open>int32\<close>; and the
  stopped example framework while the deletion of its ConfigMap is requested, its attempt
  completed by the failure of task 0.
\<close>

definition exampleLastRetryFramework :: Framework where
  "exampleLastRetryFramework =
     exampleCompletedFramework
       \<lparr>Status := (Status exampleCompletedFramework)
          \<lparr>FrameworkStatus.RetryPolicyStatus :=
             \<lparr>TotalRetriedCount = 2147483647, AccountableRetriedCount = 2147483647,
              RetryDelaySec = None\<rparr>\<rparr>\<rparr>"

definition exampleStoppedDeletingFramework :: Framework where
  "exampleStoppedDeletingFramework =
     exampleStoppedFramework
       \<lparr>Status := (Status exampleStoppedFramework)
          \<lparr>FrameworkStatus.State := FrameworkAttemptDeletionRequested,
           FrameworkStatus.AttemptStatus :=
             (FrameworkStatus.AttemptStatus (Status exampleStoppedFramework))
               \<lparr>FrameworkAttemptStatus.CompletionStatus :=
                  Some (NewFailedTaskTriggeredCompletionStatus (failedTask 0 200) ''worker'' 1 1)\<rparr>\<rparr>\<rparr>"

subsection \<open>Well-formedness of a status\<close>

text \<open>
  Projections of a status: the names of its roles, and a field of every task slot.
\<close>

definition roleNames :: "Framework \<Rightarrow> string list" where
  "roleNames f = map TaskRoleStatus.Name (FTaskRoleStatuses f)"

definition projTasks :: "(TaskStatus \<Rightarrow> 'a) \<Rightarrow> Framework \<Rightarrow> 'a list list" where
  "projTasks p f = map (\<lambda>trs. map p (TaskStatuses trs)) (FTaskRoleStatuses f)"

text \<open>
  Every task slot is found again by the name of its role and its \<^verbatim>\<open>Index\<close> field; this
  is what the loops that hand \<^verbatim>\<open>taskRoleStatus.Name\<close> and \<^verbatim>\<open>taskStatus.Index\<close> to a lookup
  need in order not to panic.
\<close>

definition tasksFindable :: "Framework \<Rightarrow> bool" where
  "tasksFindable f =
     list_all (\<lambda>trs. list_all (\<lambda>ts. TaskStatusOf f (TaskRoleStatus.Name trs) (Index ts) \<noteq> None)
                        (TaskStatuses trs))
       (FTaskRoleStatuses f)"

text \<open>
  Every task in \<^verbatim>\<open>TaskCompleted\<close> has its completion time (the transition into
  \<^verbatim>\<open>TaskCompleted\<close> records it).
\<close>

definition completedTasksTimed :: "Framework \<Rightarrow> bool" where
  "completedTasksTimed f =
     list_all (\<lambda>trs. list_all (\<lambda>ts. TaskStatus.State ts = TaskCompleted \<longrightarrow> CompletionTime ts \<noteq> None)
                        (TaskStatuses trs))
       (FTaskRoleStatuses f)"

text \<open>
  The scale invariant, per role of the spec: the role has a status with at least
  \<^verbatim>\<open>taskNumber\<close> task slots, and every slot at or beyond \<^verbatim>\<open>taskNumber\<close> is deletion
  pending. And for the roles of the status that the spec does not name: every task is
  deletion pending.
\<close>

definition roleScaled :: "Framework \<Rightarrow> TaskRoleSpec \<Rightarrow> bool" where
  "roleScaled f r =
     (case GetTaskRoleStatus f (TaskRoleSpec.Name r) of
        None \<Rightarrow> False
      | Some trs \<Rightarrow>
          TaskNumber r \<le> int (length (TaskStatuses trs)) \<and>
          list_all DeletionPending (drop (nat (TaskNumber r)) (TaskStatuses trs)))"

definition absentRolesMarked :: "Framework \<Rightarrow> bool" where
  "absentRolesMarked f =
     list_all (\<lambda>trs. GetTaskRoleSpec f (TaskRoleStatus.Name trs) = None \<longrightarrow>
                       list_all DeletionPending (TaskStatuses trs))
       (FTaskRoleStatuses f)"

text \<open>
  The completed tasks (deletion-pending ones left out) of the roles of the spec, in the
  words of the specification: "the latest-completed task across all roles"; a role of
  \<^verbatim>\<open>taskNumber\<close> 0 contributes none.
\<close>

definition specCompletedTasksOf :: "Framework \<Rightarrow> TaskRoleSpec list \<Rightarrow> TaskStatus list" where
  "specCompletedTasksOf f rs =
     concat (map (\<lambda>r. case GetTaskRoleStatus f (TaskRoleSpec.Name r) of
                         None \<Rightarrow> []
                       | Some trs \<Rightarrow>
                           if TaskNumber r = 0 then []
                           else filter (BindIDP IsCompleted True) (TaskStatuses trs)) rs)"

definition specCompletedTasks :: "Framework \<Rightarrow> TaskStatus list" where
  "specCompletedTasks f = specCompletedTasksOf f (TaskRoles (Spec f))"

text \<open>
  Every role of the spec that has a status has exactly \<^verbatim>\<open>taskNumber\<close> completed tasks
  (deletion-pending ones left out).
\<close>

definition rolesFullyCompleted :: "Framework \<Rightarrow> bool" where
  "rolesFullyCompleted f =
     list_all (\<lambda>r. case GetTaskRoleStatus f (TaskRoleSpec.Name r) of
                      None \<Rightarrow> True
                    | Some trs \<Rightarrow> RoleTaskCountStatus trs (BindIDP IsCompleted True) = TaskNumber r)
       (TaskRoles (Spec f))"

text \<open>
  \<open>f'\<close> is \<open>f\<close> with some task slots overwritten: the same framework but for the contents
  of the task slots, which keep their roles, their places and their \<^verbatim>\<open>Index\<close> fields.
\<close>

definition tasksUpdated :: "Framework \<Rightarrow> Framework \<Rightarrow> bool" where
  "tasksUpdated f f' =
     (f' = setTaskRoleStatuses (FTaskRoleStatuses f') f \<and> roleNames f' = roleNames f \<and>
      projTasks Index f' = projTasks Index f)"

definition taskCompletionStatus :: "TaskStatus \<Rightarrow> TaskAttemptCompletionStatus option" where
  "taskCompletionStatus ts = TaskAttemptStatus.CompletionStatus (TaskStatus.AttemptStatus ts)"

definition frameworkCompletionStatus :: "Framework \<Rightarrow> FrameworkAttemptCompletionStatus option" where
  "frameworkCompletionStatus f =
     FrameworkAttemptStatus.CompletionStatus (FrameworkStatus.AttemptStatus (Status f))"

section \<open>Properties\<close>

subsection \<open>Task slots under update\<close>

lemma FTaskRoleStatuses_set [simp]: "FTaskRoleStatuses (setTaskRoleStatuses rs f) = rs"
  by (simp add: FTaskRoleStatuses_def setTaskRoleStatuses_def)

lemma set_set [simp]: "setTaskRoleStatuses rs (setTaskRoleStatuses rs' f) = setTaskRoleStatuses rs f"
  by (simp add: setTaskRoleStatuses_def)

lemma set_same [simp]: "setTaskRoleStatuses (FTaskRoleStatuses f) f = f"
  by (simp add: setTaskRoleStatuses_def FTaskRoleStatuses_def)

lemma map_updFirst: "(\<And>x. p (g x) = p x) \<Longrightarrow> map p (updFirst P g xs) = map p xs"
  by (induction xs) auto

lemma length_updFirst [simp]: "length (updFirst P g xs) = length xs"
  by (induction xs) auto

lemma find_updFirst:
  "(\<And>x. P (g x) = P x) \<Longrightarrow> find P (updFirst P g xs) = map_option g (find P xs)"
  by (induction xs) auto

lemma find_updFirst_other:
  "(\<And>x. Q (g x) = Q x) \<Longrightarrow> (\<And>x. P x \<Longrightarrow> \<not> Q x) \<Longrightarrow> find Q (updFirst P g xs) = find Q xs"
  by (induction xs) auto

lemma roleNames_updTaskRoleStatus:
  "(\<And>trs. TaskRoleStatus.Name (g trs) = TaskRoleStatus.Name trs) \<Longrightarrow>
     roleNames (updTaskRoleStatus n g f) = roleNames f"
  by (simp add: roleNames_def updTaskRoleStatus_def map_updFirst)

lemma roleNames_updTaskStatus [simp]: "roleNames (updTaskStatus n i g f) = roleNames f"
  by (simp add: updTaskStatus_def roleNames_updTaskRoleStatus)

lemma map_list_update_same: "p y = p (xs ! k) \<Longrightarrow> map p (xs[k := y]) = map p xs"
  by (metis list_update_id map_update)

lemma projTasks_updTaskStatus:
  assumes "\<And>ts. p (g ts) = p ts"
  shows "projTasks p (updTaskStatus n i g f) = projTasks p f"
  unfolding projTasks_def updTaskStatus_def updTaskRoleStatus_def FTaskRoleStatuses_set
  by (rule map_updFirst) (simp add: map_list_update_same assms)

lemma projTasks_updTaskAt:
  assumes "\<And>ts. p (g ts) = p ts"
  shows "projTasks p (updTaskAt ri ti g f) = projTasks p f"
  unfolding projTasks_def updTaskAt_def FTaskRoleStatuses_set
  by (rule map_list_update_same) (simp add: map_list_update_same assms)

lemma roleNames_updTaskAt [simp]: "roleNames (updTaskAt ri ti g f) = roleNames f"
  unfolding roleNames_def updTaskAt_def FTaskRoleStatuses_set
  by (rule map_list_update_same) simp

lemma projTasks_mapTaskStatuses: "projTasks p (mapTaskStatuses g f) = projTasks (p \<circ> g) f"
  by (simp add: projTasks_def mapTaskStatuses_def comp_def)

lemma roleNames_mapTaskStatuses [simp]: "roleNames (mapTaskStatuses g f) = roleNames f"
  by (simp add: roleNames_def mapTaskStatuses_def comp_def)

text \<open>Lookups in terms of the projections.\<close>

lemma find_Name_None: "(find (\<lambda>r. TaskRoleStatus.Name r = n) rs = None) = (n \<notin> set (map TaskRoleStatus.Name rs))"
  by (induction rs) auto

lemma TaskStatusOf_updTaskStatus_same:
  "TaskStatusOf f n i = Some ts \<Longrightarrow> TaskStatusOf (updTaskStatus n i g f) n i = Some (g ts)"
  by (auto simp: TaskStatusOf_def TaskRoleStatusOf_def GetTaskRoleStatus_def updTaskStatus_def
      updTaskRoleStatus_def find_updFirst nthTask_def split: option.splits if_splits)


lemma tasksUpdated_refl [simp]: "tasksUpdated f f"
  by (simp add: tasksUpdated_def)

lemma tasksUpdated_trans: "tasksUpdated f f1 \<Longrightarrow> tasksUpdated f1 f2 \<Longrightarrow> tasksUpdated f f2"
  by (metis set_set tasksUpdated_def)

lemma Index_transitionTask [simp]: "Index (transitionTask t dst ts) = Index ts"
  by (simp add: transitionTask_def)

lemma taskCS_transitionTask [simp]:
  "taskCompletionStatus (transitionTask t dst ts) = taskCompletionStatus ts"
  by (simp add: transitionTask_def taskCompletionStatus_def)

lemma tasksUpdated_updTaskStatus:
  "(\<And>ts. Index (g ts) = Index ts) \<Longrightarrow> tasksUpdated f (updTaskStatus n i g f)"
  unfolding tasksUpdated_def
  by (simp add: projTasks_updTaskStatus) (simp add: updTaskStatus_def updTaskRoleStatus_def)

lemma tasksUpdated_updTaskAt:
  "(\<And>ts. Index (g ts) = Index ts) \<Longrightarrow> tasksUpdated f (updTaskAt ri ti g f)"
  unfolding tasksUpdated_def
  by (simp add: projTasks_updTaskAt) (simp add: updTaskAt_def)

lemma tasksUpdated_mapTaskStatuses:
  "(\<And>ts. Index (g ts) = Index ts) \<Longrightarrow> tasksUpdated f (mapTaskStatuses g f)"
  unfolding tasksUpdated_def
  by (simp add: projTasks_mapTaskStatuses comp_def) (simp add: mapTaskStatuses_def)

text \<open>Whether a lookup succeeds depends on the names and the places only.\<close>

lemma lookup_shape:
  "map TaskRoleStatus.Name rs = map TaskRoleStatus.Name rs' \<Longrightarrow>
   map (\<lambda>trs. map p (TaskStatuses trs)) rs = map (\<lambda>trs. map p (TaskStatuses trs)) rs' \<Longrightarrow>
   ((case find (\<lambda>r. TaskRoleStatus.Name r = n) rs of None \<Rightarrow> None
       | Some trs \<Rightarrow> nthTask (TaskStatuses trs) i) = None) =
   ((case find (\<lambda>r. TaskRoleStatus.Name r = n) rs' of None \<Rightarrow> None
       | Some trs \<Rightarrow> nthTask (TaskStatuses trs) i) = None)"
proof (induction rs arbitrary: rs')
  case Nil
  then show ?case by simp
next
  case (Cons r rs)
  then obtain r' rest where rs': "rs' = r' # rest" by (cases rs') auto
  with Cons.prems have n: "TaskRoleStatus.Name r = TaskRoleStatus.Name r'"
    and l: "map p (TaskStatuses r) = map p (TaskStatuses r')" by auto
  from l have "length (TaskStatuses r) = length (TaskStatuses r')" by (rule map_eq_imp_length_eq)
  with Cons rs' n show ?case by (auto simp: nthTask_def)
qed

lemma TaskStatusOf_tasksUpdated:
  assumes "tasksUpdated f f'"
  shows "(TaskStatusOf f' n i = None) = (TaskStatusOf f n i = None)"
  using assms lookup_shape [where rs = "FTaskRoleStatuses f'" and rs' = "FTaskRoleStatuses f"
      and p = Index and n = n and i = i]
  by (simp add: tasksUpdated_def roleNames_def projTasks_def TaskStatusOf_def TaskRoleStatusOf_def
      GetTaskRoleStatus_def)

lemma list_all_zip_map:
  "list_all (\<lambda>(a, b). Q a b) (zip (map g xs) (map h xs)) = list_all (\<lambda>x. Q (g x) (h x)) xs"
  by (induction xs) auto

lemma tasksFindable_zip:
  "tasksFindable f =
     list_all (\<lambda>(n, is). list_all (\<lambda>i. TaskStatusOf f n i \<noteq> None) is)
       (zip (roleNames f) (projTasks Index f))"
  unfolding tasksFindable_def roleNames_def projTasks_def list_all_zip_map
  by (simp add: list_all_iff)

lemma tasksFindable_tasksUpdated:
  assumes "tasksUpdated f f'"
  shows "tasksFindable f' = tasksFindable f"
  using assms TaskStatusOf_tasksUpdated [OF assms]
  by (simp add: tasksFindable_zip tasksUpdated_def)


lemma tasksUpdated_updTaskStatus':
  "tasksUpdated f f1 \<Longrightarrow> (\<And>ts. Index (g ts) = Index ts) \<Longrightarrow> tasksUpdated f (updTaskStatus n i g f1)"
  by (blast intro: tasksUpdated_trans tasksUpdated_updTaskStatus)

lemma tasksUpdated_updTaskAt':
  "tasksUpdated f f1 \<Longrightarrow> (\<And>ts. Index (g ts) = Index ts) \<Longrightarrow> tasksUpdated f (updTaskAt ri ti g f1)"
  by (blast intro: tasksUpdated_trans tasksUpdated_updTaskAt)

lemma map_updFirst_at:
  "(\<And>x. find P xs = Some x \<Longrightarrow> p (g x) = p x) \<Longrightarrow> map p (updFirst P g xs) = map p xs"
  by (induction xs) auto

lemma projTasks_updTaskStatus_at:
  assumes "TaskStatusOf f n i = Some ts0" and "p (g ts0) = p ts0"
  shows "projTasks p (updTaskStatus n i g f) = projTasks p f"
  unfolding projTasks_def updTaskStatus_def updTaskRoleStatus_def FTaskRoleStatuses_set
proof (rule map_updFirst_at)
  fix trs
  assume "find (\<lambda>r. TaskRoleStatus.Name r = n) (FTaskRoleStatuses f) = Some trs"
  with assms have "TaskStatuses trs ! nat i = ts0"
    by (auto simp: TaskStatusOf_def TaskRoleStatusOf_def GetTaskRoleStatus_def nthTask_def
        split: if_splits)
  with assms(2)
  show "map p (TaskStatuses (trs\<lparr>TaskStatuses := (TaskStatuses trs)[nat i := g (TaskStatuses trs ! nat i)]\<rparr>))
        = map p (TaskStatuses trs)"
    by (simp add: map_list_update_same)
qed

lemma TransitionTaskState_Some:
  "TaskStatusOf f n i = Some ts \<Longrightarrow>
     TransitionTaskState t f n i dst = Some (updTaskStatus n i (transitionTask t dst) f)"
  by (simp add: TransitionTaskState_def)

lemma taskCS_set [simp]:
  "taskCompletionStatus (ts\<lparr>TaskStatus.AttemptStatus :=
      (TaskStatus.AttemptStatus ts)\<lparr>TaskAttemptStatus.CompletionStatus := cs\<rparr>\<rparr>) = cs"
  by (simp add: taskCompletionStatus_def)

lemma completeTaskAttempt_Some:
  assumes "TaskStatusOf f n i = Some ts"
  shows "\<exists>c' f' ts'. completeTaskAttempt c f n i force cs = Some (c', f') \<and> tasksUpdated f f' \<and>
           TaskStatusOf f' n i = Some ts' \<and>
           taskCompletionStatus ts' = (if taskCompletionStatus ts = None then cs else taskCompletionStatus ts) \<and>
           (cs = None \<or> taskCompletionStatus ts \<noteq> None \<longrightarrow>
              projTasks taskCompletionStatus f' = projTasks taskCompletionStatus f)"
proof -
  let ?g = "\<lambda>ts. ts\<lparr>TaskStatus.AttemptStatus :=
      (TaskStatus.AttemptStatus ts)\<lparr>TaskAttemptStatus.CompletionStatus := cs\<rparr>\<rparr>"
  define f1 where "f1 = (if taskCompletionStatus ts = None then updTaskStatus n i ?g f else f)"
  define ts1 where "ts1 = (if taskCompletionStatus ts = None then ?g ts else ts)"
  define dst where "dst = (if force then TaskAttemptCompleted else TaskAttemptDeletionPending)"
  have u1: "tasksUpdated f f1"
    by (simp add: f1_def tasksUpdated_updTaskStatus)
  have l1: "TaskStatusOf f1 n i = Some ts1"
    using assms by (simp add: f1_def ts1_def TaskStatusOf_updTaskStatus_same)
  have p1: "cs = None \<or> taskCompletionStatus ts \<noteq> None \<Longrightarrow>
      projTasks taskCompletionStatus f1 = projTasks taskCompletionStatus f"
    using assms by (auto simp: f1_def intro: projTasks_updTaskStatus_at)
  define f2 where "f2 = updTaskStatus n i (transitionTask (now c) dst) f1"
  have r: "completeTaskAttempt c f n i force cs = Some (enqueueFrameworkSync c f2, f2)"
    using assms l1
    by (simp add: completeTaskAttempt_def f1_def f2_def dst_def taskCompletionStatus_def
        TransitionTaskState_Some Let_def)
  have u2: "tasksUpdated f f2"
    using u1 by (simp add: f2_def tasksUpdated_updTaskStatus')
  have l2: "TaskStatusOf f2 n i = Some (transitionTask (now c) dst ts1)"
    using l1 by (simp add: f2_def TaskStatusOf_updTaskStatus_same)
  have p2: "projTasks taskCompletionStatus f2 = projTasks taskCompletionStatus f1"
    by (simp add: f2_def projTasks_updTaskStatus)
  have c2: "taskCompletionStatus (transitionTask (now c) dst ts1) =
      (if taskCompletionStatus ts = None then cs else taskCompletionStatus ts)"
    by (simp add: ts1_def)
  show ?thesis
    using r u2 l2 p1 p2 c2 by auto
qed

lemma taskAt_Some:
  "taskAt f ri ti = Some ts \<Longrightarrow>
     ri < length (FTaskRoleStatuses f) \<and> ti < length (TaskStatuses (FTaskRoleStatuses f ! ri)) \<and>
     ts = TaskStatuses (FTaskRoleStatuses f ! ri) ! ti"
  by (auto simp: taskAt_def split: if_splits)

lemma tasksFindable_at:
  "tasksFindable f \<Longrightarrow> taskAt f ri ti = Some ts \<Longrightarrow>
     TaskStatusOf f (TaskRoleStatus.Name (FTaskRoleStatuses f ! ri)) (Index ts) \<noteq> None"
  by (auto simp: tasksFindable_def list_all_iff dest!: taskAt_Some)

lemma forceCompleteTask_Some:
  assumes "tasksFindable f" and "taskAt f ri ti = Some ts"
  shows "\<exists>c' f'. forceCompleteTask c f ri ti = Some (c', f') \<and> tasksUpdated f f' \<and>
           projTasks taskCompletionStatus f' = projTasks taskCompletionStatus f"
proof (cases "TaskStatus.State ts = TaskCompleted")
  case True
  with assms show ?thesis by (simp add: forceCompleteTask_def)
next
  case False
  let ?n = "TaskRoleStatus.Name (FTaskRoleStatuses f ! ri)"
  obtain ts0 where l0: "TaskStatusOf f ?n (Index ts) = Some ts0"
    using tasksFindable_at [OF assms] by auto
  obtain c1 f1 where s1: "(if TaskStatus.State ts \<noteq> TaskAttemptCompleted
        then completeTaskAttempt c f ?n (Index ts) True None else Some (c, f)) = Some (c1, f1)"
    and u1: "tasksUpdated f f1"
    and p1: "projTasks taskCompletionStatus f1 = projTasks taskCompletionStatus f"
    using completeTaskAttempt_Some [OF l0, of c True None] by (cases "TaskStatus.State ts \<noteq> TaskAttemptCompleted") auto
  define f2 where "f2 = updTaskAt ri ti
      (\<lambda>ts. ts\<lparr>TaskStatus.RetryPolicyStatus := (TaskStatus.RetryPolicyStatus ts)\<lparr>RetryDelaySec := None\<rparr>\<rparr>) f1"
  have u2: "tasksUpdated f f2"
    using u1 by (simp add: f2_def tasksUpdated_updTaskAt')
  have p2: "projTasks taskCompletionStatus f2 = projTasks taskCompletionStatus f"
    using p1 by (simp add: f2_def projTasks_updTaskAt taskCompletionStatus_def)
  obtain ts2 where l2: "TaskStatusOf f2 ?n (Index ts) = Some ts2"
    using TaskStatusOf_tasksUpdated [OF u2, of ?n "Index ts"] l0 by auto
  define f3 where "f3 = updTaskStatus ?n (Index ts) (transitionTask (now c) TaskCompleted) f2"
  have r: "forceCompleteTask c f ri ti = Some (c1, f3)"
    using assms(2) False s1 l2
    by (simp add: forceCompleteTask_def Let_def f2_def f3_def TransitionTaskState_Some)
  have u3: "tasksUpdated f f3"
    using u2 by (simp add: f3_def tasksUpdated_updTaskStatus')
  have p3: "projTasks taskCompletionStatus f3 = projTasks taskCompletionStatus f"
    using p2 by (simp add: f3_def projTasks_updTaskStatus)
  show ?thesis using r u3 p3 by auto
qed

lemma tasksUpdated_lengths:
  assumes "tasksUpdated f f'"
  shows "length (FTaskRoleStatuses f') = length (FTaskRoleStatuses f)"
    and "ri < length (FTaskRoleStatuses f) \<Longrightarrow>
         length (TaskStatuses (FTaskRoleStatuses f' ! ri)) = length (TaskStatuses (FTaskRoleStatuses f ! ri))"
proof -
  from assms have n: "map TaskRoleStatus.Name (FTaskRoleStatuses f') = map TaskRoleStatus.Name (FTaskRoleStatuses f)"
    and p: "map (\<lambda>trs. map Index (TaskStatuses trs)) (FTaskRoleStatuses f') =
            map (\<lambda>trs. map Index (TaskStatuses trs)) (FTaskRoleStatuses f)"
    by (simp_all add: tasksUpdated_def roleNames_def projTasks_def)
  from n show l: "length (FTaskRoleStatuses f') = length (FTaskRoleStatuses f)"
    by (rule map_eq_imp_length_eq)
  assume ri: "ri < length (FTaskRoleStatuses f)"
  from p have "map (\<lambda>trs. map Index (TaskStatuses trs)) (FTaskRoleStatuses f') ! ri =
      map (\<lambda>trs. map Index (TaskStatuses trs)) (FTaskRoleStatuses f) ! ri" by simp
  with ri l have "map Index (TaskStatuses (FTaskRoleStatuses f' ! ri)) =
      map Index (TaskStatuses (FTaskRoleStatuses f ! ri))" by simp
  then show "length (TaskStatuses (FTaskRoleStatuses f' ! ri)) = length (TaskStatuses (FTaskRoleStatuses f ! ri))"
    by (rule map_eq_imp_length_eq)
qed

lemma forceCompleteTasks_Some:
  assumes "tasksFindable f" and "ri < length (FTaskRoleStatuses f)"
    and "\<forall>ti \<in> set tis. ti < length (TaskStatuses (FTaskRoleStatuses f ! ri))"
  shows "\<exists>c' f'. forceCompleteTasks c f ri tis = Some (c', f') \<and> tasksUpdated f f' \<and>
           projTasks taskCompletionStatus f' = projTasks taskCompletionStatus f"
  using assms
proof (induction tis arbitrary: c f)
  case Nil
  then show ?case by simp
next
  case (Cons ti tis)
  then have "taskAt f ri ti = Some (TaskStatuses (FTaskRoleStatuses f ! ri) ! ti)"
    by (simp add: taskAt_def)
  from forceCompleteTask_Some [OF Cons.prems(1) this, of c]
  obtain c1 f1 where s: "forceCompleteTask c f ri ti = Some (c1, f1)" and u: "tasksUpdated f f1"
    and p: "projTasks taskCompletionStatus f1 = projTasks taskCompletionStatus f" by auto
  have "tasksFindable f1" using u Cons.prems(1) by (simp add: tasksFindable_tasksUpdated)
  moreover have "ri < length (FTaskRoleStatuses f1)"
    using tasksUpdated_lengths(1) [OF u] Cons.prems(2) by simp
  moreover have "\<forall>ti \<in> set tis. ti < length (TaskStatuses (FTaskRoleStatuses f1 ! ri))"
    using tasksUpdated_lengths(2) [OF u Cons.prems(2)] Cons.prems(3) by simp
  ultimately obtain c2 f2 where s2: "forceCompleteTasks c1 f1 ri tis = Some (c2, f2)"
    and u2: "tasksUpdated f1 f2"
    and p2: "projTasks taskCompletionStatus f2 = projTasks taskCompletionStatus f1"
    using Cons.IH [of f1 c1] by auto
  show ?case using s s2 p p2 tasksUpdated_trans [OF u u2] by simp
qed

lemma forceCompleteRoles_Some:
  assumes "tasksFindable f" and "\<forall>ri \<in> set ris. ri < length (FTaskRoleStatuses f)"
  shows "\<exists>c' f'. forceCompleteRoles c f ris = Some (c', f') \<and> tasksUpdated f f' \<and>
           projTasks taskCompletionStatus f' = projTasks taskCompletionStatus f"
  using assms
proof (induction ris arbitrary: c f)
  case Nil
  then show ?case by simp
next
  case (Cons ri ris)
  then have ri: "ri < length (FTaskRoleStatuses f)" by simp
  from forceCompleteTasks_Some [OF Cons.prems(1) ri, of "[0..<length (TaskStatuses (FTaskRoleStatuses f ! ri))]" c]
  obtain c1 f1 where s: "forceCompleteTasks c f ri [0..<length (TaskStatuses (FTaskRoleStatuses f ! ri))] = Some (c1, f1)"
    and u: "tasksUpdated f f1"
    and p: "projTasks taskCompletionStatus f1 = projTasks taskCompletionStatus f" by auto
  have "tasksFindable f1" using u Cons.prems(1) by (simp add: tasksFindable_tasksUpdated)
  moreover have "\<forall>ri \<in> set ris. ri < length (FTaskRoleStatuses f1)"
    using tasksUpdated_lengths(1) [OF u] Cons.prems(2) by simp
  ultimately obtain c2 f2 where s2: "forceCompleteRoles c1 f1 ris = Some (c2, f2)"
    and u2: "tasksUpdated f1 f2"
    and p2: "projTasks taskCompletionStatus f2 = projTasks taskCompletionStatus f1"
    using Cons.IH [of f1 c1] by auto
  show ?case using ri s s2 p p2 tasksUpdated_trans [OF u u2] by simp
qed


lemma same_roles:
  assumes "FTaskRoleStatuses f' = FTaskRoleStatuses f"
  shows "TaskStatusOf f' = TaskStatusOf f" and "tasksFindable f' = tasksFindable f"
    and "projTasks p f' = projTasks p f" and "roleNames f' = roleNames f"
proof -
  show t: "TaskStatusOf f' = TaskStatusOf f"
    using assms by (auto simp: fun_eq_iff TaskStatusOf_def TaskRoleStatusOf_def GetTaskRoleStatus_def)
  show "tasksFindable f' = tasksFindable f"
    using assms t by (simp add: tasksFindable_def)
  show "projTasks p f' = projTasks p f" "roleNames f' = roleNames f"
    using assms by (simp_all add: projTasks_def roleNames_def)
qed

lemma FTaskRoleStatuses_TransitionFrameworkState [simp]:
  "FTaskRoleStatuses (TransitionFrameworkState t f dst) = FTaskRoleStatuses f"
  by (simp add: TransitionFrameworkState_def FTaskRoleStatuses_def)

lemma State_TransitionFrameworkState [simp]:
  "FrameworkStatus.State (Status (TransitionFrameworkState t f dst)) = dst"
  by (simp add: TransitionFrameworkState_def)

lemma fcs_TransitionFrameworkState [simp]:
  "frameworkCompletionStatus (TransitionFrameworkState t f dst) = frameworkCompletionStatus f"
  by (simp add: TransitionFrameworkState_def frameworkCompletionStatus_def)

lemma fcs_setTaskRoleStatuses [simp]:
  "frameworkCompletionStatus (setTaskRoleStatuses rs f) = frameworkCompletionStatus f"
  by (simp add: setTaskRoleStatuses_def frameworkCompletionStatus_def)

lemma fcs_tasksUpdated: "tasksUpdated f f' \<Longrightarrow> frameworkCompletionStatus f' = frameworkCompletionStatus f"
  by (metis fcs_setTaskRoleStatuses tasksUpdated_def)

lemma taskCS_defaultTaskCompletion:
  "taskCompletionStatus (defaultTaskCompletion ts) =
     (case taskCompletionStatus ts of
        None \<Rightarrow> Some (NewTaskAttemptCompletionStatus CompletionCodeFrameworkAttemptCompletion
                        ''Stop to complete current FrameworkAttempt'' None)
      | Some old \<Rightarrow> Some old)"
  by (auto simp: defaultTaskCompletion_def taskCompletionStatus_def)

lemma Index_defaultTaskCompletion [simp]: "Index (defaultTaskCompletion ts) = Index ts"
  by (simp add: defaultTaskCompletion_def)

lemma completeFrameworkAttempt_Some:
  assumes "force \<longrightarrow> tasksFindable f"
  shows "\<exists>c' f'. completeFrameworkAttempt c f force cs = Some (c', f') \<and>
           frameworkCompletionStatus f' =
             (if frameworkCompletionStatus f = None then cs else frameworkCompletionStatus f) \<and>
           FrameworkStatus.State (Status f') =
             (if force then FrameworkAttemptCompleted else FrameworkAttemptDeletionPending) \<and>
           roleNames f' = roleNames f \<and> projTasks Index f' = projTasks Index f \<and>
           projTasks taskCompletionStatus f' =
             projTasks (\<lambda>ts. case taskCompletionStatus ts of
                None \<Rightarrow> Some (NewTaskAttemptCompletionStatus CompletionCodeFrameworkAttemptCompletion
                                ''Stop to complete current FrameworkAttempt'' None)
              | Some old \<Rightarrow> Some old) f"
proof -
  define f1 where "f1 = (if frameworkCompletionStatus f = None
      then f\<lparr>Status := (Status f)\<lparr>FrameworkStatus.AttemptStatus :=
             (FrameworkStatus.AttemptStatus (Status f))\<lparr>FrameworkAttemptStatus.CompletionStatus := cs\<rparr>\<rparr>\<rparr>
      else f)"
  define f2 where "f2 = mapTaskStatuses defaultTaskCompletion f1"
  have r1: "FTaskRoleStatuses f1 = FTaskRoleStatuses f"
    by (simp add: f1_def FTaskRoleStatuses_def)
  have c1: "frameworkCompletionStatus f1 =
      (if frameworkCompletionStatus f = None then cs else frameworkCompletionStatus f)"
    by (simp add: f1_def frameworkCompletionStatus_def)
  have u2: "tasksUpdated f1 f2"
    by (simp add: f2_def tasksUpdated_mapTaskStatuses)
  have p2: "projTasks taskCompletionStatus f2 =
      projTasks (\<lambda>ts. case taskCompletionStatus ts of
                None \<Rightarrow> Some (NewTaskAttemptCompletionStatus CompletionCodeFrameworkAttemptCompletion
                                ''Stop to complete current FrameworkAttempt'' None)
              | Some old \<Rightarrow> Some old) f"
    by (simp add: f2_def projTasks_mapTaskStatuses comp_def taskCS_defaultTaskCompletion
        same_roles(3) [OF r1])
  have n2: "roleNames f2 = roleNames f" "projTasks Index f2 = projTasks Index f"
    using u2 same_roles(3,4) [OF r1] by (simp_all add: tasksUpdated_def)
  have c2: "frameworkCompletionStatus f2 =
      (if frameworkCompletionStatus f = None then cs else frameworkCompletionStatus f)"
    using fcs_tasksUpdated [OF u2] c1 by simp
  show ?thesis
  proof (cases force)
    case False
    then have "completeFrameworkAttempt c f force cs =
        Some (enqueueFrameworkSync c (TransitionFrameworkState (now c) f2 FrameworkAttemptDeletionPending),
              TransitionFrameworkState (now c) f2 FrameworkAttemptDeletionPending)"
      by (simp add: completeFrameworkAttempt_def f1_def f2_def frameworkCompletionStatus_def Let_def)
    with False p2 n2 c2 show ?thesis
      by (simp add: same_roles(3,4) [OF FTaskRoleStatuses_TransitionFrameworkState])
  next
    case True
    with assms have "tasksFindable f2"
      using tasksFindable_tasksUpdated [OF u2] same_roles(2) [OF r1] by simp
    from forceCompleteRoles_Some [OF this, of "[0..<length (FTaskRoleStatuses f2)]" c]
    obtain c3 f3 where s3: "forceCompleteRoles c f2 [0..<length (FTaskRoleStatuses f2)] = Some (c3, f3)"
      and u3: "tasksUpdated f2 f3"
      and p3: "projTasks taskCompletionStatus f3 = projTasks taskCompletionStatus f2" by auto
    from True s3 have "completeFrameworkAttempt c f force cs =
        Some (enqueueFrameworkSync c3 (TransitionFrameworkState (now c) f3 FrameworkAttemptCompleted),
              TransitionFrameworkState (now c) f3 FrameworkAttemptCompleted)"
      by (simp add: completeFrameworkAttempt_def f1_def f2_def frameworkCompletionStatus_def Let_def)
    moreover have "roleNames f3 = roleNames f" "projTasks Index f3 = projTasks Index f"
      using u3 n2 by (simp_all add: tasksUpdated_def)
    moreover have "frameworkCompletionStatus f3 =
        (if frameworkCompletionStatus f = None then cs else frameworkCompletionStatus f)"
      using fcs_tasksUpdated [OF u3] c2 by simp
    ultimately show ?thesis using True p2 p3
      by (simp add: same_roles(3,4) [OF FTaskRoleStatuses_TransitionFrameworkState])
  qed
qed

subsection \<open>Deleting objects that are already gone\<close>

text \<open>
  C10. The delete operations are idempotent on objects that are already absent: when the
  delete request is answered with an error, \<^verbatim>\<open>deleteFramework\<close>, \<^verbatim>\<open>deleteConfigMap\<close> and
  \<^verbatim>\<open>deletePod\<close> return nil if the error is not-found, and return the delete failure for
  every other error. (\<^verbatim>\<open>deletePod\<close> is called on an existing task.)
\<close>

theorem delete_not_found_is_success:
  "(deleteResponse (remote c) (requests c @
        [FrameworksDelete (Namespace f) (FrameworkObj.Name f)
           \<lparr>PreconditionsUID = FrameworkObj.UID f, GracePeriodSeconds = None,
            PropagationPolicy = Some DeletePropagationForeground\<rparr>]) = Some e
      \<longrightarrow> snd (deleteFramework c f confirm) = (if IsNotFound e then None else Some (DeleteFailed e)))
   \<and> (deleteResponse (remote c) (requests c @
        [ConfigMapsDelete (Namespace f) (ConfigMapNameOf f)
           \<lparr>PreconditionsUID = cmUID, GracePeriodSeconds = None, PropagationPolicy = None\<rparr>]) = Some e
      \<longrightarrow> snd (deleteConfigMap c f cmUID confirm) = (if IsNotFound e then None else Some (DeleteFailed e)))
   \<and> (TaskStatusOf f taskRoleName taskIndex = Some taskStatus
      \<and> deleteResponse (remote c) (requests c @
        [PodsDelete (Namespace f) (PodName (TaskStatus.AttemptStatus taskStatus))
           \<lparr>PreconditionsUID = podUID, GracePeriodSeconds = (if force then Some 0 else None),
            PropagationPolicy = None\<rparr>]) = Some e
      \<longrightarrow> (\<exists>c'. deletePod c f taskRoleName taskIndex podUID confirm force =
                  Some (c', if IsNotFound e then None else Some (DeleteFailed e))))"
  by (simp add: deleteFramework_def deleteConfigMap_def deletePod_def Let_def)

lemma example_task0:
  "TaskStatusOf exampleFramework ''worker'' 0 =
     Some (exampleTask 0 TaskAttemptCreationRequested (Some ''pod-0''))"
  by (simp add: TaskStatusOf_def TaskRoleStatusOf_def GetTaskRoleStatus_def FTaskRoleStatuses_def
      exampleFramework_def exampleStatus_def nthTask_def)

theorem delete_not_found_is_success_witness:
  "snd (deleteFramework (exampleController (Some ErrNotFound) 500) exampleFramework True) = None
   \<and> snd (deleteConfigMap (exampleController (Some ErrNotFound) 500) exampleFramework ''cm-1'' True) = None
   \<and> (\<exists>c'. deletePod (exampleController (Some ErrNotFound) 500) exampleFramework ''worker'' 0 ''pod-0''
              True False = Some (c', None))"
  using delete_not_found_is_success [of "exampleController (Some ErrNotFound) 500" exampleFramework
      ErrNotFound True "''cm-1''" "''worker''" 0
      "exampleTask 0 TaskAttemptCreationRequested (Some ''pod-0'')" "''pod-0''" False]
    example_task0
  by (simp add: exampleController_def exampleRemote_def IsNotFound_def)

subsection \<open>Framework update events\<close>

text \<open>
  C9. A Framework update event whose old and new objects have the same UID and equal
  specs enqueues nothing: the controller, and with it the work queue, is unchanged,
  whatever the status and the other metadata of the two objects are.
\<close>

theorem updateFrameworkObj_same_spec_no_enqueue:
  "FrameworkObj.UID oldObj = FrameworkObj.UID newObj \<Longrightarrow> Spec oldObj = Spec newObj \<Longrightarrow>
     updateFrameworkObj c oldObj newObj = c \<and> fQueue (updateFrameworkObj c oldObj newObj) = fQueue c"
  by (simp add: updateFrameworkObj_def)

theorem updateFrameworkObj_same_spec_no_enqueue_witness:
  "fQueue (updateFrameworkObj (exampleController None 500) exampleFramework
      (exampleFramework\<lparr>Status := exampleStatus\<lparr>FrameworkStatus.State := FrameworkAttemptPreparing\<rparr>,
                        FrameworkObj.DeletionTimestamp := Some 400\<rparr>)) = []"
  using updateFrameworkObj_same_spec_no_enqueue [of exampleFramework
      "exampleFramework\<lparr>Status := exampleStatus\<lparr>FrameworkStatus.State := FrameworkAttemptPreparing\<rparr>,
                        FrameworkObj.DeletionTimestamp := Some 400\<rparr>" "exampleController None 500"]
  by (simp add: exampleController_def exampleFramework_def)

subsection \<open>Completion status of an attempt\<close>

text \<open>
  C3. CompletionStatus is write-once per attempt. \<^verbatim>\<open>completeTaskAttempt\<close> on an existing
  task and \<^verbatim>\<open>completeFrameworkAttempt\<close> (forced on a status whose task slots are found by
  role name and index, or not forced on any status) return, and the attempt's
  CompletionStatus afterwards is the \<^verbatim>\<open>completionStatus\<close> argument only if the field was
  nil before; a field that was set is left as it was, and then
  \<^verbatim>\<open>completeTaskAttempt\<close> changes the completion status of no task at all.
\<close>

theorem CompletionStatus_write_once:
  "(TaskStatusOf f taskRoleName taskIndex = Some taskStatus \<longrightarrow>
      (\<exists>c' f' taskStatus'.
          completeTaskAttempt c f taskRoleName taskIndex force completionStatus = Some (c', f') \<and>
          TaskStatusOf f' taskRoleName taskIndex = Some taskStatus' \<and>
          taskCompletionStatus taskStatus' =
            (if taskCompletionStatus taskStatus = None then completionStatus
             else taskCompletionStatus taskStatus) \<and>
          (taskCompletionStatus taskStatus \<noteq> None \<longrightarrow>
             projTasks taskCompletionStatus f' = projTasks taskCompletionStatus f)))
   \<and> ((force \<longrightarrow> tasksFindable f) \<longrightarrow>
      (\<exists>c' f'.
          completeFrameworkAttempt c f force frameworkCompletion = Some (c', f') \<and>
          frameworkCompletionStatus f' =
            (if frameworkCompletionStatus f = None then frameworkCompletion
             else frameworkCompletionStatus f)))"
proof (intro conjI impI)
  assume "TaskStatusOf f taskRoleName taskIndex = Some taskStatus"
  from completeTaskAttempt_Some [OF this, of c force completionStatus]
  show "\<exists>c' f' taskStatus'.
          completeTaskAttempt c f taskRoleName taskIndex force completionStatus = Some (c', f') \<and>
          TaskStatusOf f' taskRoleName taskIndex = Some taskStatus' \<and>
          taskCompletionStatus taskStatus' =
            (if taskCompletionStatus taskStatus = None then completionStatus
             else taskCompletionStatus taskStatus) \<and>
          (taskCompletionStatus taskStatus \<noteq> None \<longrightarrow>
             projTasks taskCompletionStatus f' = projTasks taskCompletionStatus f)"
    by blast
next
  assume "force \<longrightarrow> tasksFindable f"
  from completeFrameworkAttempt_Some [OF this, of c frameworkCompletion]
  show "\<exists>c' f'.
          completeFrameworkAttempt c f force frameworkCompletion = Some (c', f') \<and>
          frameworkCompletionStatus f' =
            (if frameworkCompletionStatus f = None then frameworkCompletion
             else frameworkCompletionStatus f)"
    by blast
qed

lemma exampleFailed_roles:
  "FTaskRoleStatuses exampleFailedFramework =
     [\<lparr>TaskRoleStatus.Name = ''worker'', TaskRoleStatus.PodGracefulDeletionTimeoutSec = Some 1800,
       TaskStatuses = [failedTask 0 200, exampleTask 1 TaskAttemptRunning (Some ''pod-1''),
                       exampleTask 2 TaskAttemptRunning (Some ''pod-2'')]\<rparr>]"
  by (simp add: exampleFailedFramework_def)

lemma exampleFailed_lookup:
  "TaskStatusOf exampleFailedFramework ''worker'' 0 = Some (failedTask 0 200)"
  "TaskStatusOf exampleFailedFramework ''worker'' 1 = Some (exampleTask 1 TaskAttemptRunning (Some ''pod-1''))"
  "TaskStatusOf exampleFailedFramework ''worker'' 2 = Some (exampleTask 2 TaskAttemptRunning (Some ''pod-2''))"
  by (simp_all add: TaskStatusOf_def TaskRoleStatusOf_def GetTaskRoleStatus_def exampleFailed_roles
      nthTask_def)

lemma exampleFailed_findable: "tasksFindable exampleFailedFramework"
  by (simp add: tasksFindable_def exampleFailed_roles exampleFailed_lookup failedTask_def
      exampleTask_def)

lemma exampleFailed_taskCS:
  "taskCompletionStatus (failedTask 0 200) = Some examplePodFailure"
  "taskCompletionStatus (exampleTask i st u) = None"
  by (simp_all add: taskCompletionStatus_def failedTask_def exampleTask_def)

theorem CompletionStatus_write_once_witness:
  "(\<exists>c' f' taskStatus'.
       completeTaskAttempt (exampleController None 500) exampleFailedFramework ''worker'' 0 True
         (Some (NewTaskAttemptCompletionStatus CompletionCodePodExternalDeleted ''Pod was deleted by others'' None))
         = Some (c', f') \<and>
       TaskStatusOf f' ''worker'' 0 = Some taskStatus' \<and>
       taskCompletionStatus taskStatus' = Some examplePodFailure \<and>
       projTasks taskCompletionStatus f' = [[Some examplePodFailure, None, None]])
   \<and> (\<exists>c' f'.
       completeFrameworkAttempt (exampleController None 500)
         (setFrameworkCompletionStatus (Some exampleStop) exampleFailedFramework) True
         (Some (NewFrameworkAttemptCompletionStatus CompletionCodeConfigMapExternalDeleted
                  ''ConfigMap was deleted by others'' None)) = Some (c', f') \<and>
       frameworkCompletionStatus f' = Some exampleStop)"
proof -
  have r: "FTaskRoleStatuses (setFrameworkCompletionStatus (Some exampleStop) exampleFailedFramework) =
      FTaskRoleStatuses exampleFailedFramework"
    by (simp add: setFrameworkCompletionStatus_def FTaskRoleStatuses_def)
  have "tasksFindable (setFrameworkCompletionStatus (Some exampleStop) exampleFailedFramework)"
    using same_roles(2) [OF r] exampleFailed_findable by simp
  moreover have "frameworkCompletionStatus
      (setFrameworkCompletionStatus (Some exampleStop) exampleFailedFramework) = Some exampleStop"
    by (simp add: setFrameworkCompletionStatus_def frameworkCompletionStatus_def)
  moreover have "projTasks taskCompletionStatus exampleFailedFramework = [[Some examplePodFailure, None, None]]"
    by (simp add: projTasks_def exampleFailed_roles exampleFailed_taskCS)
  ultimately show ?thesis
    using CompletionStatus_write_once [of exampleFailedFramework "''worker''" 0 "failedTask 0 200"
        "exampleController None 500" True
        "Some (NewTaskAttemptCompletionStatus CompletionCodePodExternalDeleted ''Pod was deleted by others'' None)"]
      CompletionStatus_write_once [of "setFrameworkCompletionStatus (Some exampleStop) exampleFailedFramework"
        "''worker''" 0 "failedTask 0 200" "exampleController None 500" True None
        "Some (NewFrameworkAttemptCompletionStatus CompletionCodeConfigMapExternalDeleted
                  ''ConfigMap was deleted by others'' None)"]
      exampleFailed_lookup(1) exampleFailed_taskCS(1)
    by simp
qed

text \<open>
  C5. Completing a framework attempt, forced or not, gives the default completion status
  of code \<^verbatim>\<open>FrameworkAttemptCompletion\<close> to every task attempt, in every role, whose
  CompletionStatus is still nil, and leaves every other task attempt's CompletionStatus
  as it was. (A forced completion finds each task again by role name and index, so it
  is stated on a status where those lookups succeed.)
\<close>

theorem completeFrameworkAttempt_cascades_default:
  assumes "force \<longrightarrow> tasksFindable f"
  shows "\<exists>c' f'. completeFrameworkAttempt c f force completionStatus = Some (c', f') \<and>
           roleNames f' = roleNames f \<and>
           projTasks taskCompletionStatus f' =
             projTasks (\<lambda>taskStatus. case taskCompletionStatus taskStatus of
                None \<Rightarrow> Some (NewTaskAttemptCompletionStatus CompletionCodeFrameworkAttemptCompletion
                                ''Stop to complete current FrameworkAttempt'' None)
              | Some old \<Rightarrow> Some old) f"
  using completeFrameworkAttempt_Some [OF assms, of c completionStatus] by blast

theorem completeFrameworkAttempt_cascades_default_witness:
  "tasksFindable exampleFailedFramework
   \<and> (\<exists>c' f'. completeFrameworkAttempt (exampleController None 500) exampleFailedFramework True
                 (Some exampleStop) = Some (c', f') \<and>
        roleNames f' = [''worker''] \<and>
        projTasks taskCompletionStatus f' =
          [[Some examplePodFailure,
            Some \<lparr>Code = CompletionCodeFrameworkAttemptCompletion,
                  Diagnostics = ''Stop to complete current FrameworkAttempt'', Pod = None\<rparr>,
            Some \<lparr>Code = CompletionCodeFrameworkAttemptCompletion,
                  Diagnostics = ''Stop to complete current FrameworkAttempt'', Pod = None\<rparr>]])"
  using completeFrameworkAttempt_cascades_default [of True exampleFailedFramework
      "exampleController None 500" "Some exampleStop"] exampleFailed_findable
  by (simp add: projTasks_def roleNames_def exampleFailed_roles exampleFailed_taskCS
      NewTaskAttemptCompletionStatus_def)

subsection \<open>The completion policy: role thresholds\<close>

lemma CTO_Some:
  assumes "list_all (\<lambda>ts. TaskStatus.State ts = TaskCompleted \<longrightarrow> CompletionTime ts \<noteq> None) (TaskStatuses trs)"
    and "\<And>ts. sel ts \<Longrightarrow> TaskStatus.State ts = TaskCompleted"
    and "0 \<le> k" and "k < RoleTaskCountStatus trs sel"
  shows "\<exists>t. CompletionTimeOrderedTaskStatus trs sel k = Some t \<and> t \<in> set (TaskStatuses trs) \<and> sel t \<and>
              CompletionTime t \<noteq> None"
proof -
  let ?sel = "filter sel (TaskStatuses trs)"
  have a: "\<not> list_ex (\<lambda>ts. CompletionTime ts = None) ?sel"
    using assms(1,2) by (auto simp: list_ex_iff list_all_iff)
  have l: "nat k < length (sort_key completionTimeOf ?sel)"
    using assms(3,4) by (simp add: RoleTaskCountStatus_def)
  then have m: "sort_key completionTimeOf ?sel ! nat k \<in> set (sort_key completionTimeOf ?sel)"
    by (rule nth_mem)
  have r: "CompletionTimeOrderedTaskStatus trs sel k = Some (sort_key completionTimeOf ?sel ! nat k)"
    using a l assms(3) by (simp add: CompletionTimeOrderedTaskStatus_def nthTask_def Let_def)
  from m have s: "sort_key completionTimeOf ?sel ! nat k \<in> set ?sel" by simp
  with a have "CompletionTime (sort_key completionTimeOf ?sel ! nat k) \<noteq> None"
    by (auto simp: list_ex_iff)
  with r s show ?thesis by auto
qed

lemma sel_completed:
  "BindIDP IsFailed True ts \<Longrightarrow> TaskStatus.State ts = TaskCompleted"
  "BindIDP IsSucceeded True ts \<Longrightarrow> TaskStatus.State ts = TaskCompleted"
  "BindIDP IsCompleted True ts \<Longrightarrow> TaskStatus.State ts = TaskCompleted"
  by (simp_all add: BindIDP_def IsFailed_def IsSucceeded_def IsCompleted_def)

text \<open>One step of the loop is a fold over the role's candidates.\<close>

lemma role_step:
  assumes "list_all (\<lambda>ts. TaskStatus.State ts = TaskCompleted \<longrightarrow> CompletionTime ts \<noteq> None) (TaskStatuses trs)"
  shows "\<exists>acc1. failedTrigger r trs acc = Some acc1 \<and>
           succeededTrigger r trs acc1 = Some (foldl considerCandidate acc (specRoleCandidates r trs)) \<and>
           (\<forall>(t, s) \<in> set (specRoleCandidates r trs). CompletionTime t \<noteq> None)"
proof -
  let ?mF = "MinFailedTaskCount (FrameworkAttemptCompletionPolicy r)"
  let ?mS = "MinSucceededTaskCount (FrameworkAttemptCompletionPolicy r)"
  let ?F = "RoleTaskCountStatus trs (BindIDP IsFailed True)"
  let ?S = "RoleTaskCountStatus trs (BindIDP IsSucceeded True)"
  have f: "?mF \<ge> 1 \<Longrightarrow> ?F \<ge> ?mF \<Longrightarrow>
      \<exists>t. CompletionTimeOrderedTaskStatus trs (BindIDP IsFailed True) (?mF - 1) = Some t \<and> CompletionTime t \<noteq> None"
    using CTO_Some [OF assms sel_completed(1), where k = "?mF - 1"] by fastforce
  have s: "?mS \<ge> 1 \<Longrightarrow> ?S \<ge> ?mS \<Longrightarrow>
      \<exists>t. CompletionTimeOrderedTaskStatus trs (BindIDP IsSucceeded True) (?mS - 1) = Some t \<and> CompletionTime t \<noteq> None"
    using CTO_Some [OF assms sel_completed(2), where k = "?mS - 1"] by fastforce
  have cF: "\<And>t. ?mF \<ge> 1 \<and> ?F \<ge> ?mF \<Longrightarrow>
      CompletionTimeOrderedTaskStatus trs (BindIDP IsFailed True) (?mF - 1) = Some t \<Longrightarrow>
      failedTrigger r trs acc = Some (considerCandidate acc
         (t, NewFailedTaskTriggeredCompletionStatus t (TaskRoleSpec.Name r) ?F ?mF))"
    by (simp add: failedTrigger_def considerCandidate_def Let_def)
  have nF: "\<not> (?mF \<ge> 1 \<and> ?F \<ge> ?mF) \<Longrightarrow> failedTrigger r trs acc = Some acc"
    by (auto simp: failedTrigger_def Let_def)
  have cS: "\<And>t a. ?mS \<ge> 1 \<and> ?S \<ge> ?mS \<Longrightarrow>
      CompletionTimeOrderedTaskStatus trs (BindIDP IsSucceeded True) (?mS - 1) = Some t \<Longrightarrow>
      succeededTrigger r trs a = Some (considerCandidate a
         (t, NewSucceededTaskTriggeredCompletionStatus t (TaskRoleSpec.Name r) ?S ?mS))"
    by (simp add: succeededTrigger_def considerCandidate_def Let_def)
  have nS: "\<And>a. \<not> (?mS \<ge> 1 \<and> ?S \<ge> ?mS) \<Longrightarrow> succeededTrigger r trs a = Some a"
    by (auto simp: succeededTrigger_def Let_def)
  show ?thesis
  proof (cases "?mF \<ge> 1 \<and> ?F \<ge> ?mF")
    case mf: True
    then obtain t where t: "CompletionTimeOrderedTaskStatus trs (BindIDP IsFailed True) (?mF - 1) = Some t"
      "CompletionTime t \<noteq> None" using f by blast
    show ?thesis
    proof (cases "?mS \<ge> 1 \<and> ?S \<ge> ?mS")
      case ms: True
      then obtain u where u: "CompletionTimeOrderedTaskStatus trs (BindIDP IsSucceeded True) (?mS - 1) = Some u"
        "CompletionTime u \<noteq> None" using s by blast
      have "specRoleCandidates r trs =
          [(t, NewFailedTaskTriggeredCompletionStatus t (TaskRoleSpec.Name r) ?F ?mF),
           (u, NewSucceededTaskTriggeredCompletionStatus u (TaskRoleSpec.Name r) ?S ?mS)]"
        using mf ms t u by (simp add: specRoleCandidates_def Let_def)
      then show ?thesis using cF [OF mf t(1)] cS [OF ms u(1)] t(2) u(2) by simp
    next
      case ms: False
      have "specRoleCandidates r trs =
          [(t, NewFailedTaskTriggeredCompletionStatus t (TaskRoleSpec.Name r) ?F ?mF)]"
        using mf ms t by (auto simp: specRoleCandidates_def Let_def)
      then show ?thesis using cF [OF mf t(1)] nS [OF ms] t(2) by simp
    qed
  next
    case mf: False
    show ?thesis
    proof (cases "?mS \<ge> 1 \<and> ?S \<ge> ?mS")
      case ms: True
      then obtain u where u: "CompletionTimeOrderedTaskStatus trs (BindIDP IsSucceeded True) (?mS - 1) = Some u"
        "CompletionTime u \<noteq> None" using s by blast
      have "specRoleCandidates r trs =
          [(u, NewSucceededTaskTriggeredCompletionStatus u (TaskRoleSpec.Name r) ?S ?mS)]"
        using mf ms u by (auto simp: specRoleCandidates_def Let_def)
      then show ?thesis using nF [OF mf] cS [OF ms u(1)] u(2) by simp
    next
      case ms: False
      have "specRoleCandidates r trs = []"
        using mf ms by (auto simp: specRoleCandidates_def Let_def)
      then show ?thesis using nF [OF mf] nS [OF ms] by simp
    qed
  qed
qed


lemma GetTaskRoleStatus_mem:
  "GetTaskRoleStatus f n = Some trs \<Longrightarrow> trs \<in> set (FTaskRoleStatuses f) \<and> TaskRoleStatus.Name trs = n"
  by (auto simp: GetTaskRoleStatus_def find_Some_iff)

lemma firstTriggerLoop_fold:
  assumes "completedTasksTimed f"
  shows "firstTriggerLoop f rs acc =
           Some (foldl considerCandidate acc
                   (concat (map (\<lambda>r. case GetTaskRoleStatus f (TaskRoleSpec.Name r) of
                                        None \<Rightarrow> [] | Some trs \<Rightarrow> specRoleCandidates r trs) rs)))"
proof (induction rs arbitrary: acc)
  case Nil
  show ?case by simp
next
  case (Cons r rs)
  show ?case
  proof (cases "GetTaskRoleStatus f (TaskRoleSpec.Name r)")
    case None
    then show ?thesis using Cons.IH by simp
  next
    case (Some trs)
    then have "list_all (\<lambda>ts. TaskStatus.State ts = TaskCompleted \<longrightarrow> CompletionTime ts \<noteq> None) (TaskStatuses trs)"
      using assms GetTaskRoleStatus_mem [OF Some] by (auto simp: completedTasksTimed_def list_all_iff)
    from role_step [OF this, of r acc]
    obtain acc1 where "failedTrigger r trs acc = Some acc1"
      "succeededTrigger r trs acc1 = Some (foldl considerCandidate acc (specRoleCandidates r trs))"
      by blast
    with Some show ?thesis using Cons.IH by simp
  qed
qed

lemma specTriggerCandidates_timed:
  assumes "completedTasksTimed f" and "(t, s) \<in> set (specTriggerCandidates f)"
  shows "CompletionTime t \<noteq> None"
proof -
  from assms(2) obtain r where
    "(t, s) \<in> set (case GetTaskRoleStatus f (TaskRoleSpec.Name r) of
                     None \<Rightarrow> [] | Some trs \<Rightarrow> specRoleCandidates r trs)"
    by (auto simp: specTriggerCandidates_def)
  then obtain trs where g: "GetTaskRoleStatus f (TaskRoleSpec.Name r) = Some trs"
    and m: "(t, s) \<in> set (specRoleCandidates r trs)"
    by (cases "GetTaskRoleStatus f (TaskRoleSpec.Name r)") auto
  have "list_all (\<lambda>ts. TaskStatus.State ts = TaskCompleted \<longrightarrow> CompletionTime ts \<noteq> None) (TaskStatuses trs)"
    using assms(1) GetTaskRoleStatus_mem [OF g] by (auto simp: completedTasksTimed_def list_all_iff)
  from role_step [OF this, of r "(None, None)"] m show ?thesis by blast
qed

text \<open>The fold keeps the earliest candidate seen, and of equally early ones the first.\<close>

lemma consider_earliest:
  assumes "\<forall>(t, s) \<in> set (seen @ cs). CompletionTime t \<noteq> None"
    and "(seen = [] \<and> acc = (None, None)) \<or>
         (\<exists>(t, s) \<in> set seen. acc = (CompletionTime t, Some s) \<and>
            (\<forall>(t', s') \<in> set seen. completionTimeOf t \<le> completionTimeOf t'))"
  shows "(seen @ cs = [] \<and> foldl considerCandidate acc cs = (None, None)) \<or>
         (\<exists>(t, s) \<in> set (seen @ cs). foldl considerCandidate acc cs = (CompletionTime t, Some s) \<and>
            (\<forall>(t', s') \<in> set (seen @ cs). completionTimeOf t \<le> completionTimeOf t'))"
  using assms
proof (induction cs arbitrary: seen acc)
  case Nil
  then show ?case by simp
next
  case (Cons c cs)
  obtain t' s' where c: "c = (t', s')" by (cases c)
  from Cons.prems(1) c obtain b where b: "CompletionTime t' = Some b" by force
  have step: "(\<exists>(t, s) \<in> set (seen @ [c]). considerCandidate acc c = (CompletionTime t, Some s) \<and>
            (\<forall>(t', s') \<in> set (seen @ [c]). completionTimeOf t \<le> completionTimeOf t'))"
  proof (cases "seen = [] \<and> acc = (None, None)")
    case True
    then show ?thesis using c by (simp add: considerCandidate_def considerTrigger_def)
  next
    case False
    with Cons.prems(2) obtain t s where ts: "(t, s) \<in> set seen" "acc = (CompletionTime t, Some s)"
      "\<forall>(t', s') \<in> set seen. completionTimeOf t \<le> completionTimeOf t'" by blast
    from Cons.prems(1) ts(1) obtain a where a: "CompletionTime t = Some a" by force
    show ?thesis
    proof (cases "b < a")
      case True
      then have "considerCandidate acc c = (CompletionTime t', Some s')"
        using ts(2) a b c by (simp add: considerCandidate_def considerTrigger_def TimeBefore_def)
      moreover have "\<forall>(u, v) \<in> set (seen @ [c]). completionTimeOf t' \<le> completionTimeOf u"
        using ts(3) True a b c by (fastforce simp: completionTimeOf_def)
      ultimately show ?thesis using c by auto
    next
      case False
      then have "considerCandidate acc c = acc"
        using ts(2) a b c by (simp add: considerCandidate_def considerTrigger_def TimeBefore_def)
      moreover have "\<forall>(u, v) \<in> set (seen @ [c]). completionTimeOf t \<le> completionTimeOf u"
        using ts(3) False a b c by (fastforce simp: completionTimeOf_def)
      ultimately show ?thesis using ts(1,2) by auto
    qed
  qed
  have "\<forall>(t, s) \<in> set ((seen @ [c]) @ cs). CompletionTime t \<noteq> None"
    using Cons.prems(1) by simp
  from Cons.IH [OF this, of "considerCandidate acc c"] step
  show ?case by simp
qed


lemma specRoleCandidates_cases:
  assumes "(t, s) \<in> set (specRoleCandidates r trs)"
  shows "(1 \<le> MinFailedTaskCount (FrameworkAttemptCompletionPolicy r) \<and>
          MinFailedTaskCount (FrameworkAttemptCompletionPolicy r) \<le> RoleTaskCountStatus trs (BindIDP IsFailed True) \<and>
          s = NewFailedTaskTriggeredCompletionStatus t (TaskRoleSpec.Name r)
                (RoleTaskCountStatus trs (BindIDP IsFailed True))
                (MinFailedTaskCount (FrameworkAttemptCompletionPolicy r))) \<or>
         (1 \<le> MinSucceededTaskCount (FrameworkAttemptCompletionPolicy r) \<and>
          MinSucceededTaskCount (FrameworkAttemptCompletionPolicy r) \<le> RoleTaskCountStatus trs (BindIDP IsSucceeded True) \<and>
          s = NewSucceededTaskTriggeredCompletionStatus t (TaskRoleSpec.Name r)
                (RoleTaskCountStatus trs (BindIDP IsSucceeded True))
                (MinSucceededTaskCount (FrameworkAttemptCompletionPolicy r)))"
proof -
  let ?mF = "MinFailedTaskCount (FrameworkAttemptCompletionPolicy r)"
  let ?mS = "MinSucceededTaskCount (FrameworkAttemptCompletionPolicy r)"
  let ?F = "RoleTaskCountStatus trs (BindIDP IsFailed True)"
  let ?S = "RoleTaskCountStatus trs (BindIDP IsSucceeded True)"
  let ?A = "(if ?mF \<ge> 1 \<and> ?F \<ge> ?mF then
         (case CompletionTimeOrderedTaskStatus trs (BindIDP IsFailed True) (?mF - 1) of
            None \<Rightarrow> []
          | Some t \<Rightarrow> [(t, NewFailedTaskTriggeredCompletionStatus t (TaskRoleSpec.Name r) ?F ?mF)])
       else [])"
  let ?B = "(if ?mS \<ge> 1 \<and> ?S \<ge> ?mS then
         (case CompletionTimeOrderedTaskStatus trs (BindIDP IsSucceeded True) (?mS - 1) of
            None \<Rightarrow> []
          | Some t \<Rightarrow> [(t, NewSucceededTaskTriggeredCompletionStatus t (TaskRoleSpec.Name r) ?S ?mS)])
       else [])"
  from assms have "(t, s) \<in> set ?A \<or> (t, s) \<in> set ?B"
    unfolding specRoleCandidates_def Let_def set_append Un_iff .
  then show ?thesis
  proof
    assume a: "(t, s) \<in> set ?A"
    then have c: "?mF \<ge> 1 \<and> ?F \<ge> ?mF" by (cases "?mF \<ge> 1 \<and> ?F \<ge> ?mF") simp_all
    with a have "s = NewFailedTaskTriggeredCompletionStatus t (TaskRoleSpec.Name r) ?F ?mF"
      by (cases "CompletionTimeOrderedTaskStatus trs (BindIDP IsFailed True) (?mF - 1)") simp_all
    with c show ?thesis by simp
  next
    assume b: "(t, s) \<in> set ?B"
    then have c: "?mS \<ge> 1 \<and> ?S \<ge> ?mS" by (cases "?mS \<ge> 1 \<and> ?S \<ge> ?mS") simp_all
    with b have "s = NewSucceededTaskTriggeredCompletionStatus t (TaskRoleSpec.Name r) ?S ?mS"
      by (cases "CompletionTimeOrderedTaskStatus trs (BindIDP IsSucceeded True) (?mS - 1)") simp_all
    with c show ?thesis by simp
  qed
qed

lemma specTriggerCandidates_threshold:
  assumes "(t, s) \<in> set (specTriggerCandidates f)"
  shows "\<exists>k m. triggerCounts s = Some (k, m) \<and> 1 \<le> m \<and> m \<le> k"
proof -
  from assms obtain r where
    "(t, s) \<in> set (case GetTaskRoleStatus f (TaskRoleSpec.Name r) of
                     None \<Rightarrow> [] | Some trs \<Rightarrow> specRoleCandidates r trs)"
    by (auto simp: specTriggerCandidates_def)
  then obtain trs where "(t, s) \<in> set (specRoleCandidates r trs)"
    by (cases "GetTaskRoleStatus f (TaskRoleSpec.Name r)") auto
  from specRoleCandidates_cases [OF this] show ?thesis
    by (elim disjE conjE) simp_all
qed

lemma specTriggerCandidates_member:
  assumes "completedTasksTimed f" and "r \<in> set (TaskRoles (Spec f))"
    and "GetTaskRoleStatus f (TaskRoleSpec.Name r) = Some trs"
  shows "(1 \<le> MinFailedTaskCount (FrameworkAttemptCompletionPolicy r) \<and>
          MinFailedTaskCount (FrameworkAttemptCompletionPolicy r) \<le> RoleTaskCountStatus trs (BindIDP IsFailed True)
          \<longrightarrow> (\<exists>t. CompletionTimeOrderedTaskStatus trs (BindIDP IsFailed True)
                      (MinFailedTaskCount (FrameworkAttemptCompletionPolicy r) - 1) = Some t \<and>
                   (t, NewFailedTaskTriggeredCompletionStatus t (TaskRoleSpec.Name r)
                         (RoleTaskCountStatus trs (BindIDP IsFailed True))
                         (MinFailedTaskCount (FrameworkAttemptCompletionPolicy r)))
                     \<in> set (specTriggerCandidates f))) \<and>
         (1 \<le> MinSucceededTaskCount (FrameworkAttemptCompletionPolicy r) \<and>
          MinSucceededTaskCount (FrameworkAttemptCompletionPolicy r) \<le> RoleTaskCountStatus trs (BindIDP IsSucceeded True)
          \<longrightarrow> (\<exists>t. CompletionTimeOrderedTaskStatus trs (BindIDP IsSucceeded True)
                      (MinSucceededTaskCount (FrameworkAttemptCompletionPolicy r) - 1) = Some t \<and>
                   (t, NewSucceededTaskTriggeredCompletionStatus t (TaskRoleSpec.Name r)
                         (RoleTaskCountStatus trs (BindIDP IsSucceeded True))
                         (MinSucceededTaskCount (FrameworkAttemptCompletionPolicy r)))
                     \<in> set (specTriggerCandidates f)))"
proof -
  let ?mF = "MinFailedTaskCount (FrameworkAttemptCompletionPolicy r)"
  let ?mS = "MinSucceededTaskCount (FrameworkAttemptCompletionPolicy r)"
  have timed: "list_all (\<lambda>ts. TaskStatus.State ts = TaskCompleted \<longrightarrow> CompletionTime ts \<noteq> None) (TaskStatuses trs)"
    using assms(1) GetTaskRoleStatus_mem [OF assms(3)] by (auto simp: completedTasksTimed_def list_all_iff)
  have sub: "\<And>x. x \<in> set (specRoleCandidates r trs) \<Longrightarrow> x \<in> set (specTriggerCandidates f)"
    using assms(2,3) by (force simp: specTriggerCandidates_def)
  have a: "\<exists>t. CompletionTimeOrderedTaskStatus trs (BindIDP IsFailed True) (?mF - 1) = Some t \<and>
          (t, NewFailedTaskTriggeredCompletionStatus t (TaskRoleSpec.Name r)
                (RoleTaskCountStatus trs (BindIDP IsFailed True)) ?mF) \<in> set (specTriggerCandidates f)"
    if c: "1 \<le> ?mF \<and> ?mF \<le> RoleTaskCountStatus trs (BindIDP IsFailed True)"
  proof -
    from CTO_Some [OF timed sel_completed(1), where k = "?mF - 1"] c
    obtain t where t: "CompletionTimeOrderedTaskStatus trs (BindIDP IsFailed True) (?mF - 1) = Some t"
      by fastforce
    with c have "(t, NewFailedTaskTriggeredCompletionStatus t (TaskRoleSpec.Name r)
                (RoleTaskCountStatus trs (BindIDP IsFailed True)) ?mF) \<in> set (specRoleCandidates r trs)"
      unfolding specRoleCandidates_def Let_def set_append Un_iff by (intro disjI1) simp
    with t sub show ?thesis by blast
  qed
  have b: "\<exists>t. CompletionTimeOrderedTaskStatus trs (BindIDP IsSucceeded True) (?mS - 1) = Some t \<and>
          (t, NewSucceededTaskTriggeredCompletionStatus t (TaskRoleSpec.Name r)
                (RoleTaskCountStatus trs (BindIDP IsSucceeded True)) ?mS) \<in> set (specTriggerCandidates f)"
    if c: "1 \<le> ?mS \<and> ?mS \<le> RoleTaskCountStatus trs (BindIDP IsSucceeded True)"
  proof -
    from CTO_Some [OF timed sel_completed(2), where k = "?mS - 1"] c
    obtain t where t: "CompletionTimeOrderedTaskStatus trs (BindIDP IsSucceeded True) (?mS - 1) = Some t"
      by fastforce
    with c have "(t, NewSucceededTaskTriggeredCompletionStatus t (TaskRoleSpec.Name r)
                (RoleTaskCountStatus trs (BindIDP IsSucceeded True)) ?mS) \<in> set (specRoleCandidates r trs)"
      unfolding specRoleCandidates_def Let_def set_append Un_iff by (intro disjI2) simp
    with t sub show ?thesis by blast
  qed
  from a b show ?thesis by blast
qed

lemma firstTrigger_earliest:
  assumes "completedTasksTimed f"
  shows "(specTriggerCandidates f = [] \<and>
            firstTriggerLoop f (TaskRoles (Spec f)) (None, None) = Some (None, None)) \<or>
         (\<exists>(trigger, status) \<in> set (specTriggerCandidates f).
            firstTriggerLoop f (TaskRoles (Spec f)) (None, None) = Some (CompletionTime trigger, Some status) \<and>
            (\<forall>(trigger', status') \<in> set (specTriggerCandidates f).
                completionTimeOf trigger \<le> completionTimeOf trigger'))"
proof -
  have "\<forall>(t, s) \<in> set ([] @ specTriggerCandidates f). CompletionTime t \<noteq> None"
    using specTriggerCandidates_timed [OF assms] by auto
  from consider_earliest [OF this, of "(None, None)"]
  show ?thesis
    using firstTriggerLoop_fold [OF assms, of "TaskRoles (Spec f)" "(None, None)"]
    by (simp add: specTriggerCandidates_def)
qed

text \<open>
  C1. The completion-policy evaluator, for every role of the spec that has a status:
  with \<open>minFailedTaskCount \<ge> 1\<close> and at least that many failed tasks, the role's
  \<open>minFailedTaskCount\<close>-th earliest-completed failed task is a trigger candidate, and
  likewise for succeeded tasks; every candidate comes from a threshold of at least 1 that
  the count has reached, so a threshold below 1 produces none; and the loop ends with the
  candidate of the earliest completion time over all roles (none if there is no
  candidate), which is handed to \<^verbatim>\<open>completeFrameworkAttempt\<close> unforced: the attempt
  enters \<^verbatim>\<open>FrameworkAttemptDeletionPending\<close> and its CompletionStatus, nil before, is that
  candidate's status. Completed tasks carry their completion time.
\<close>

theorem completion_policy_earliest_trigger:
  assumes "completedTasksTimed f"
  shows
    "(\<forall>r \<in> set (TaskRoles (Spec f)). \<forall>trs. GetTaskRoleStatus f (TaskRoleSpec.Name r) = Some trs \<longrightarrow>
        (1 \<le> MinFailedTaskCount (FrameworkAttemptCompletionPolicy r) \<and>
          MinFailedTaskCount (FrameworkAttemptCompletionPolicy r) \<le> RoleTaskCountStatus trs (BindIDP IsFailed True)
          \<longrightarrow> (\<exists>t. CompletionTimeOrderedTaskStatus trs (BindIDP IsFailed True)
                      (MinFailedTaskCount (FrameworkAttemptCompletionPolicy r) - 1) = Some t \<and>
                   (t, NewFailedTaskTriggeredCompletionStatus t (TaskRoleSpec.Name r)
                         (RoleTaskCountStatus trs (BindIDP IsFailed True))
                         (MinFailedTaskCount (FrameworkAttemptCompletionPolicy r)))
                     \<in> set (specTriggerCandidates f))) \<and>
        (1 \<le> MinSucceededTaskCount (FrameworkAttemptCompletionPolicy r) \<and>
          MinSucceededTaskCount (FrameworkAttemptCompletionPolicy r) \<le> RoleTaskCountStatus trs (BindIDP IsSucceeded True)
          \<longrightarrow> (\<exists>t. CompletionTimeOrderedTaskStatus trs (BindIDP IsSucceeded True)
                      (MinSucceededTaskCount (FrameworkAttemptCompletionPolicy r) - 1) = Some t \<and>
                   (t, NewSucceededTaskTriggeredCompletionStatus t (TaskRoleSpec.Name r)
                         (RoleTaskCountStatus trs (BindIDP IsSucceeded True))
                         (MinSucceededTaskCount (FrameworkAttemptCompletionPolicy r)))
                     \<in> set (specTriggerCandidates f))))
     \<and> (\<forall>(trigger, status) \<in> set (specTriggerCandidates f).
          \<exists>k m. triggerCounts status = Some (k, m) \<and> 1 \<le> m \<and> m \<le> k)
     \<and> ((specTriggerCandidates f = [] \<and>
            firstTriggerLoop f (TaskRoles (Spec f)) (None, None) = Some (None, None))
         \<or> (\<exists>(trigger, status) \<in> set (specTriggerCandidates f).
              firstTriggerLoop f (TaskRoles (Spec f)) (None, None) = Some (CompletionTime trigger, Some status) \<and>
              (\<forall>(trigger', status') \<in> set (specTriggerCandidates f).
                  completionTimeOf trigger \<le> completionTimeOf trigger') \<and>
              (\<exists>c' f'. syncFrameworkAttemptCompletionPolicy c f = Some (c', f', True) \<and>
                  completeFrameworkAttempt c f False (Some status) = Some (c', f') \<and>
                  FrameworkStatus.State (Status f') = FrameworkAttemptDeletionPending \<and>
                  frameworkCompletionStatus f' =
                    (if frameworkCompletionStatus f = None then Some status
                     else frameworkCompletionStatus f))))"
proof (intro conjI)
  show "\<forall>r \<in> set (TaskRoles (Spec f)). \<forall>trs. GetTaskRoleStatus f (TaskRoleSpec.Name r) = Some trs \<longrightarrow>
        (1 \<le> MinFailedTaskCount (FrameworkAttemptCompletionPolicy r) \<and>
          MinFailedTaskCount (FrameworkAttemptCompletionPolicy r) \<le> RoleTaskCountStatus trs (BindIDP IsFailed True)
          \<longrightarrow> (\<exists>t. CompletionTimeOrderedTaskStatus trs (BindIDP IsFailed True)
                      (MinFailedTaskCount (FrameworkAttemptCompletionPolicy r) - 1) = Some t \<and>
                   (t, NewFailedTaskTriggeredCompletionStatus t (TaskRoleSpec.Name r)
                         (RoleTaskCountStatus trs (BindIDP IsFailed True))
                         (MinFailedTaskCount (FrameworkAttemptCompletionPolicy r)))
                     \<in> set (specTriggerCandidates f))) \<and>
        (1 \<le> MinSucceededTaskCount (FrameworkAttemptCompletionPolicy r) \<and>
          MinSucceededTaskCount (FrameworkAttemptCompletionPolicy r) \<le> RoleTaskCountStatus trs (BindIDP IsSucceeded True)
          \<longrightarrow> (\<exists>t. CompletionTimeOrderedTaskStatus trs (BindIDP IsSucceeded True)
                      (MinSucceededTaskCount (FrameworkAttemptCompletionPolicy r) - 1) = Some t \<and>
                   (t, NewSucceededTaskTriggeredCompletionStatus t (TaskRoleSpec.Name r)
                         (RoleTaskCountStatus trs (BindIDP IsSucceeded True))
                         (MinSucceededTaskCount (FrameworkAttemptCompletionPolicy r)))
                     \<in> set (specTriggerCandidates f)))"
    using specTriggerCandidates_member [OF assms] by blast
next
  show "\<forall>(trigger, status) \<in> set (specTriggerCandidates f).
          \<exists>k m. triggerCounts status = Some (k, m) \<and> 1 \<le> m \<and> m \<le> k"
    using specTriggerCandidates_threshold by blast
next
  from firstTrigger_earliest [OF assms]
  show "(specTriggerCandidates f = [] \<and>
            firstTriggerLoop f (TaskRoles (Spec f)) (None, None) = Some (None, None))
         \<or> (\<exists>(trigger, status) \<in> set (specTriggerCandidates f).
              firstTriggerLoop f (TaskRoles (Spec f)) (None, None) = Some (CompletionTime trigger, Some status) \<and>
              (\<forall>(trigger', status') \<in> set (specTriggerCandidates f).
                  completionTimeOf trigger \<le> completionTimeOf trigger') \<and>
              (\<exists>c' f'. syncFrameworkAttemptCompletionPolicy c f = Some (c', f', True) \<and>
                  completeFrameworkAttempt c f False (Some status) = Some (c', f') \<and>
                  FrameworkStatus.State (Status f') = FrameworkAttemptDeletionPending \<and>
                  frameworkCompletionStatus f' =
                    (if frameworkCompletionStatus f = None then Some status
                     else frameworkCompletionStatus f)))"
  proof (elim disjE bexE)
    assume "specTriggerCandidates f = [] \<and>
        firstTriggerLoop f (TaskRoles (Spec f)) (None, None) = Some (None, None)"
    then show ?thesis by blast
  next
    fix x
    assume x: "x \<in> set (specTriggerCandidates f)"
      and h: "case x of (trigger, status) \<Rightarrow>
        firstTriggerLoop f (TaskRoles (Spec f)) (None, None) = Some (CompletionTime trigger, Some status) \<and>
        (\<forall>(trigger', status') \<in> set (specTriggerCandidates f).
            completionTimeOf trigger \<le> completionTimeOf trigger')"
    obtain trigger status where xe: "x = (trigger, status)" by (cases x)
    from completeFrameworkAttempt_Some [of False f c "Some status"]
    obtain c' f' where cf: "completeFrameworkAttempt c f False (Some status) = Some (c', f')"
      "FrameworkStatus.State (Status f') = FrameworkAttemptDeletionPending"
      "frameworkCompletionStatus f' =
         (if frameworkCompletionStatus f = None then Some status else frameworkCompletionStatus f)"
      by auto
    from h xe have l: "firstTriggerLoop f (TaskRoles (Spec f)) (None, None) =
        Some (CompletionTime trigger, Some status)" by simp
    have "syncFrameworkAttemptCompletionPolicy c f = Some (c', f', True)"
      using l cf(1) by (simp add: syncFrameworkAttemptCompletionPolicy_def)
    with x h xe cf show ?thesis by blast
  qed
qed


lemma exampleTwoRole_roles:
  "FTaskRoleStatuses exampleTwoRoleFramework =
     [\<lparr>TaskRoleStatus.Name = ''ps'', TaskRoleStatus.PodGracefulDeletionTimeoutSec = None,
       TaskStatuses = [succeededTask 0 300]\<rparr>,
      \<lparr>TaskRoleStatus.Name = ''worker'', TaskRoleStatus.PodGracefulDeletionTimeoutSec = Some 1800,
       TaskStatuses = [failedTask 0 200, exampleTask 1 TaskAttemptRunning (Some ''pod-1''),
                       exampleTask 2 TaskAttemptRunning (Some ''pod-2'')]\<rparr>]"
  "TaskRoles (Spec exampleTwoRoleFramework) = [psRoleSpec, workerRoleSpec]"
  by (simp_all add: exampleTwoRoleFramework_def setTaskRoleStatuses_def FTaskRoleStatuses_def
      exampleFramework_def exampleSpec_def)

lemma example_selectors:
  "BindIDP IsFailed True (failedTask i t)" "\<not> BindIDP IsSucceeded True (failedTask i t)"
  "\<not> BindIDP IsFailed True (succeededTask i t)" "BindIDP IsSucceeded True (succeededTask i t)"
  "\<not> BindIDP IsFailed True (exampleTask i TaskAttemptRunning u)"
  "\<not> BindIDP IsSucceeded True (exampleTask i TaskAttemptRunning u)"
  by (simp_all add: BindIDP_def IsFailed_def IsSucceeded_def IsCompleted_def failedTask_def
      succeededTask_def exampleTask_def examplePodFailure_def)

lemma exampleTwoRole_candidates:
  "specTriggerCandidates exampleTwoRoleFramework =
     [(succeededTask 0 300, NewSucceededTaskTriggeredCompletionStatus (succeededTask 0 300) ''ps'' 1 1),
      (failedTask 0 200, NewFailedTaskTriggeredCompletionStatus (failedTask 0 200) ''worker'' 1 1)]"
  by (simp add: specTriggerCandidates_def exampleTwoRole_roles GetTaskRoleStatus_def
      specRoleCandidates_def psRoleSpec_def workerRoleSpec_def RoleTaskCountStatus_def
      example_selectors CompletionTimeOrderedTaskStatus_def nthTask_def Let_def)
    (simp add: failedTask_def succeededTask_def)

lemma exampleTwoRole_timed: "completedTasksTimed exampleTwoRoleFramework"
  by (simp add: completedTasksTimed_def exampleTwoRole_roles failedTask_def succeededTask_def
      exampleTask_def)

theorem completion_policy_earliest_trigger_witness:
  "completedTasksTimed exampleTwoRoleFramework
   \<and> (\<exists>c' f'. syncFrameworkAttemptCompletionPolicy (exampleController None 500) exampleTwoRoleFramework
                  = Some (c', f', True) \<and>
        FrameworkStatus.State (Status f') = FrameworkAttemptDeletionPending \<and>
        frameworkCompletionStatus f' =
          Some (NewFailedTaskTriggeredCompletionStatus (failedTask 0 200) ''worker'' 1 1))"
proof -
  have t: "completionTimeOf (failedTask 0 200) = 200" "completionTimeOf (succeededTask 0 300) = 300"
    by (simp_all add: completionTimeOf_def failedTask_def succeededTask_def)
  have n: "frameworkCompletionStatus exampleTwoRoleFramework = None"
    by (simp add: frameworkCompletionStatus_def exampleTwoRoleFramework_def setTaskRoleStatuses_def
        exampleFramework_def exampleStatus_def)
  from completion_policy_earliest_trigger [OF exampleTwoRole_timed, of "exampleController None 500"]
  show ?thesis
    using exampleTwoRole_timed by (simp add: exampleTwoRole_candidates t n) auto
qed

subsection \<open>Rescaling\<close>

lemma markTasks_post:
  "markTasks tss js p = Some (tss', p') \<Longrightarrow>
     length tss' = length tss \<and>
     (\<forall>i < length tss. DeletionPending (tss' ! i) = (DeletionPending (tss ! i) \<or> int i \<in> set js))"
proof (induction js arbitrary: tss p)
  case Nil
  then show ?case by simp
next
  case (Cons j js)
  from Cons.prems obtain ts where ts: "nthTask tss j = Some ts"
    by (cases "nthTask tss j") auto
  then have j: "0 \<le> j" "nat j < length tss" "ts = tss ! nat j"
    by (auto simp: nthTask_def split: if_splits)
  obtain ts' isNew where m: "MarkAsDeletionPending ts = (ts', isNew)" by (cases "MarkAsDeletionPending ts")
  then have d: "DeletionPending ts'" by (auto simp: MarkAsDeletionPending_def split: if_splits)
  from Cons.prems ts m have "markTasks (tss[nat j := ts']) js (if isNew then True else p) = Some (tss', p')"
    by simp
  from Cons.IH [OF this] have l: "length tss' = length tss"
    and a: "\<forall>i < length tss. DeletionPending (tss' ! i) =
        (DeletionPending (tss[nat j := ts'] ! i) \<or> int i \<in> set js)" by simp_all
  have "\<forall>i < length tss. DeletionPending (tss' ! i) = (DeletionPending (tss ! i) \<or> int i \<in> set (j # js))"
  proof (intro allI impI)
    fix i assume i: "i < length tss"
    show "DeletionPending (tss' ! i) = (DeletionPending (tss ! i) \<or> int i \<in> set (j # js))"
    proof (cases "i = nat j")
      case True
      with a i j d show ?thesis by simp
    next
      case False
      with j(1) have "int i \<noteq> j" by auto
      with a i False show ?thesis by simp
    qed
  qed
  with l show ?case by simp
qed

lemma markTasks_total:
  "\<forall>j \<in> set js. 0 \<le> j \<and> j < int (length tss) \<Longrightarrow> \<exists>r. markTasks tss js p = Some r"
proof (induction js arbitrary: tss p)
  case Nil
  then show ?case by simp
next
  case (Cons j js)
  then have "nthTask tss j = Some (tss ! nat j)" by (simp add: nthTask_def)
  moreover obtain ts' isNew where "MarkAsDeletionPending (tss ! nat j) = (ts', isNew)"
    by (cases "MarkAsDeletionPending (tss ! nat j)")
  moreover have "\<exists>r. markTasks (tss[nat j := ts']) js (if isNew then True else p) = Some r"
    using Cons.prems by (intro Cons.IH) simp
  ultimately show ?case by simp
qed


lemma Spec_setTaskRoleStatuses [simp]: "Spec (setTaskRoleStatuses rs f) = Spec f"
  by (simp add: setTaskRoleStatuses_def)

lemma State_setTaskRoleStatuses [simp]:
  "FrameworkStatus.State (Status (setTaskRoleStatuses rs f)) = FrameworkStatus.State (Status f)"
  by (simp add: setTaskRoleStatuses_def)

lemma GetTaskRoleSpec_setTaskRoleStatuses [simp]:
  "GetTaskRoleSpec (setTaskRoleStatuses rs f) = GetTaskRoleSpec f"
  by (simp add: fun_eq_iff GetTaskRoleSpec_def)

lemma Spec_updTaskRoleStatus [simp]: "Spec (updTaskRoleStatus n g f) = Spec f"
  by (simp add: updTaskRoleStatus_def)

lemma GetTaskRoleStatus_set:
  "GetTaskRoleStatus (setTaskRoleStatuses rs f) n = find (\<lambda>r. TaskRoleStatus.Name r = n) rs"
  by (simp add: GetTaskRoleStatus_def)

lemma GetTaskRoleStatus_upd_same:
  "(\<And>trs. TaskRoleStatus.Name (g trs) = TaskRoleStatus.Name trs) \<Longrightarrow>
     GetTaskRoleStatus (updTaskRoleStatus n g f) n = map_option g (GetTaskRoleStatus f n)"
  by (simp add: GetTaskRoleStatus_def updTaskRoleStatus_def find_updFirst)

lemma GetTaskRoleStatus_upd_other:
  "(\<And>trs. TaskRoleStatus.Name (g trs) = TaskRoleStatus.Name trs) \<Longrightarrow> m \<noteq> n \<Longrightarrow>
     GetTaskRoleStatus (updTaskRoleStatus n g f) m = GetTaskRoleStatus f m"
  unfolding GetTaskRoleStatus_def updTaskRoleStatus_def FTaskRoleStatuses_set
  by (rule find_updFirst_other) simp_all

lemma find_append:
  "find P (xs @ ys) = (case find P xs of None \<Rightarrow> find P ys | Some x \<Rightarrow> Some x)"
  by (induction xs) auto

lemma GetTaskRoleStatus_None: "(GetTaskRoleStatus f n = None) = (n \<notin> set (roleNames f))"
  by (simp add: GetTaskRoleStatus_def roleNames_def find_Name_None)

lemma list_all_drop_nth:
  "list_all P (drop k xs) = (\<forall>i < length xs. k \<le> i \<longrightarrow> P (xs ! i))"
proof -
  have "list_all P (drop k xs) = (\<forall>j < length xs - k. P (xs ! (k + j)))"
    by (simp add: list_all_length)
  also have "\<dots> = (\<forall>i < length xs. k \<le> i \<longrightarrow> P (xs ! i))"
  proof (intro iffI allI impI)
    fix i assume a: "\<forall>j < length xs - k. P (xs ! (k + j))" and "i < length xs" "k \<le> i"
    then have "i - k < length xs - k" by arith
    with a have "P (xs ! (k + (i - k)))" by blast
    with \<open>k \<le> i\<close> show "P (xs ! i)" by simp
  next
    fix j assume "\<forall>i < length xs. k \<le> i \<longrightarrow> P (xs ! i)" and "j < length xs - k"
    then show "P (xs ! (k + j))" by simp
  qed
  finally show ?thesis .
qed

lemma scaleRoleSpec_post:
  assumes "scaleRoleSpec c g r p = Some (g', p')"
  shows "roleScaled g' r \<and> Spec g' = Spec g \<and>
      FrameworkStatus.State (Status g') = FrameworkStatus.State (Status g) \<and>
      (distinct (roleNames g) \<longrightarrow> distinct (roleNames g')) \<and>
      (\<forall>n. n \<noteq> TaskRoleSpec.Name r \<longrightarrow> GetTaskRoleStatus g' n = GetTaskRoleStatus g n)"
proof -
  let ?n = "TaskRoleSpec.Name r"
  let ?k = "TaskNumber r"
  show ?thesis
  proof (cases "GetTaskRoleStatus g ?n")
    case None
    let ?new = "\<lparr>TaskRoleStatus.Name = ?n, TaskRoleStatus.PodGracefulDeletionTimeoutSec = None,
                 TaskStatuses = map (NewTaskStatus (now c) g ?n) [0..?k - 1]\<rparr>"
    from None assms have g': "g' = setTaskRoleStatuses (FTaskRoleStatuses g @ [?new]) g"
      by (simp add: scaleRoleSpec_def Let_def)
    from None have f: "find (\<lambda>r. TaskRoleStatus.Name r = ?n) (FTaskRoleStatuses g) = None"
      by (simp add: GetTaskRoleStatus_def)
    have 1: "GetTaskRoleStatus g' ?n = Some ?new"
      using f by (simp add: g' GetTaskRoleStatus_set find_append)
    have 2: "roleScaled g' r"
      by (simp add: roleScaled_def 1)
    have 3: "distinct (roleNames g) \<longrightarrow> distinct (roleNames g')"
      using None by (simp add: g' roleNames_def GetTaskRoleStatus_def find_Name_None)
    have 4: "\<forall>n. n \<noteq> ?n \<longrightarrow> GetTaskRoleStatus g' n = GetTaskRoleStatus g n"
      by (auto simp: g' GetTaskRoleStatus_set GetTaskRoleStatus_def find_append split: option.splits)
    show ?thesis using 2 3 4 by (simp add: g')
  next
    case (Some trs)
    let ?cnt = "int (length (TaskStatuses trs))"
    consider (up) "?cnt < ?k" | (down) "?cnt > ?k" | (same) "?cnt = ?k" by linarith
    then show ?thesis
    proof cases
      case up
      let ?g = "\<lambda>trs. trs\<lparr>TaskStatuses := TaskStatuses trs @
                        map (NewTaskStatus (now c) g ?n) [?cnt..?k - 1]\<rparr>"
      from Some up assms have g': "g' = updTaskRoleStatus ?n ?g g"
        by (simp add: scaleRoleSpec_def Let_def)
      have 1: "GetTaskRoleStatus g' ?n = Some (?g trs)"
        using Some by (simp add: g' GetTaskRoleStatus_upd_same)
      have 2: "roleScaled g' r"
        using up by (simp add: roleScaled_def 1)
      have 3: "roleNames g' = roleNames g"
        by (simp add: g' roleNames_updTaskRoleStatus)
      have 4: "\<forall>n. n \<noteq> ?n \<longrightarrow> GetTaskRoleStatus g' n = GetTaskRoleStatus g n"
        by (simp add: g' GetTaskRoleStatus_upd_other)
      show ?thesis using 2 3 4 by (simp add: g' updTaskRoleStatus_def)
    next
      case down
      with Some assms obtain tss p1 where
        m: "markTasks (TaskStatuses trs) (rev [?k..?cnt - 1]) p = Some (tss, p1)"
        and g': "g' = updTaskRoleStatus ?n (\<lambda>trs. trs\<lparr>TaskStatuses := tss\<rparr>) g"
        by (auto simp: scaleRoleSpec_def Let_def split: option.splits)
      from markTasks_post [OF m] have l: "length tss = length (TaskStatuses trs)"
        and a: "\<forall>i < length (TaskStatuses trs). DeletionPending (tss ! i) =
            (DeletionPending (TaskStatuses trs ! i) \<or> int i \<in> set (rev [?k..?cnt - 1]))" by simp_all
      have 1: "GetTaskRoleStatus g' ?n = Some (trs\<lparr>TaskStatuses := tss\<rparr>)"
        using Some by (simp add: g' GetTaskRoleStatus_upd_same)
      have "\<forall>i < length tss. nat ?k \<le> i \<longrightarrow> DeletionPending (tss ! i)"
        using a l by auto
      then have 2: "roleScaled g' r"
        using down l by (simp add: roleScaled_def 1 list_all_drop_nth)
      have 3: "roleNames g' = roleNames g"
        by (simp add: g' roleNames_updTaskRoleStatus)
      have 4: "\<forall>n. n \<noteq> ?n \<longrightarrow> GetTaskRoleStatus g' n = GetTaskRoleStatus g n"
        by (simp add: g' GetTaskRoleStatus_upd_other)
      show ?thesis using 2 3 4 by (simp add: g' updTaskRoleStatus_def)
    next
      case same
      with Some assms have g': "g' = g" by (simp add: scaleRoleSpec_def Let_def)
      have "roleScaled g r" using Some same by (simp add: roleScaled_def)
      then show ?thesis by (simp add: g')
    qed
  qed
qed


lemma scaleRoleSpec_total:
  assumes "0 \<le> TaskNumber r"
  shows "\<exists>x. scaleRoleSpec c g r p = Some x"
proof (cases "GetTaskRoleStatus g (TaskRoleSpec.Name r)")
  case None
  then show ?thesis by (simp add: scaleRoleSpec_def Let_def)
next
  case (Some trs)
  have "\<exists>x. markTasks (TaskStatuses trs)
           (rev [TaskNumber r..int (length (TaskStatuses trs)) - 1]) p = Some x"
    using assms by (intro markTasks_total) auto
  with Some show ?thesis by (auto simp: scaleRoleSpec_def Let_def)
qed

lemma roleScaled_cong:
  "GetTaskRoleStatus g' (TaskRoleSpec.Name r) = GetTaskRoleStatus g (TaskRoleSpec.Name r) \<Longrightarrow>
     roleScaled g' r = roleScaled g r"
  by (simp add: roleScaled_def)

lemma scaleRoleSpecs_post:
  assumes "scaleRoleSpecs c g rs p = Some (g', p')" and "distinct (map TaskRoleSpec.Name rs)"
  shows "Spec g' = Spec g \<and>
      FrameworkStatus.State (Status g') = FrameworkStatus.State (Status g) \<and>
      (distinct (roleNames g) \<longrightarrow> distinct (roleNames g')) \<and>
      (\<forall>r \<in> set rs. roleScaled g' r) \<and>
      (\<forall>n. n \<notin> set (map TaskRoleSpec.Name rs) \<longrightarrow> GetTaskRoleStatus g' n = GetTaskRoleStatus g n)"
  using assms
proof (induction rs arbitrary: g p)
  case Nil
  then show ?case by simp
next
  case (Cons r rs)
  from Cons.prems(1) obtain g1 p1 where s1: "scaleRoleSpec c g r p = Some (g1, p1)"
    and s2: "scaleRoleSpecs c g1 rs p1 = Some (g', p')"
    by (auto split: option.splits)
  note a = scaleRoleSpec_post [OF s1]
  from Cons.prems(2) have d: "distinct (map TaskRoleSpec.Name rs)"
    and nr: "TaskRoleSpec.Name r \<notin> set (map TaskRoleSpec.Name rs)" by simp_all
  note b = Cons.IH [OF s2 d]
  from b nr have "GetTaskRoleStatus g' (TaskRoleSpec.Name r) = GetTaskRoleStatus g1 (TaskRoleSpec.Name r)"
    by blast
  then have "roleScaled g' r" using a roleScaled_cong by blast
  moreover have "\<forall>n. n \<notin> set (map TaskRoleSpec.Name (r # rs)) \<longrightarrow>
      GetTaskRoleStatus g' n = GetTaskRoleStatus g n"
    using a b by simp
  ultimately show ?case using a b by simp
qed

lemma scaleRoleSpecs_total:
  assumes "\<forall>r \<in> set rs. 0 \<le> TaskNumber r"
  shows "\<exists>x. scaleRoleSpecs c g rs p = Some x"
  using assms
proof (induction rs arbitrary: g p)
  case Nil
  then show ?case by simp
next
  case (Cons r rs)
  then obtain g1 p1 where "scaleRoleSpec c g r p = Some (g1, p1)"
    using scaleRoleSpec_total [of r c g p] by auto
  moreover have "\<exists>x. scaleRoleSpecs c g1 rs p1 = Some x" using Cons by simp
  ultimately show ?case by simp
qed

text \<open>The second loop.\<close>

lemma scaleRoleStatuses_post:
  "scaleRoleStatuses f rs p = Some (rs', p') \<Longrightarrow>
     list_all2 (\<lambda>trs trs'. TaskRoleStatus.Name trs' = TaskRoleStatus.Name trs \<and>
                  (if GetTaskRoleSpec f (TaskRoleStatus.Name trs) = None
                   then list_all DeletionPending (TaskStatuses trs') else trs' = trs)) rs rs'"
proof (induction rs arbitrary: p rs')
  case Nil
  then show ?case by simp
next
  case (Cons trs rs)
  let ?cnt = "int (length (TaskStatuses trs))"
  from Cons.prems obtain trs1 p1 rest where
    h: "(if GetTaskRoleSpec f (TaskRoleStatus.Name trs) = None
         then (case markTasks (TaskStatuses trs) (rev [0..?cnt - 1]) p of
                 None \<Rightarrow> None
               | Some (tss, p1) \<Rightarrow> Some (trs\<lparr>TaskStatuses := tss\<rparr>, p1))
         else Some (trs, p)) = Some (trs1, p1)"
    and r: "scaleRoleStatuses f rs p1 = Some (rest, p')" and e: "rs' = trs1 # rest"
    by (auto simp: Let_def split: option.splits)
  have "TaskRoleStatus.Name trs1 = TaskRoleStatus.Name trs \<and>
      (if GetTaskRoleSpec f (TaskRoleStatus.Name trs) = None
       then list_all DeletionPending (TaskStatuses trs1) else trs1 = trs)"
  proof (cases "GetTaskRoleSpec f (TaskRoleStatus.Name trs) = None")
    case True
    with h obtain tss where m: "markTasks (TaskStatuses trs) (rev [0..?cnt - 1]) p = Some (tss, p1)"
      and t: "trs1 = trs\<lparr>TaskStatuses := tss\<rparr>"
      by (auto split: option.splits)
    from markTasks_post [OF m] have "length tss = length (TaskStatuses trs)"
      and "\<forall>i < length (TaskStatuses trs). DeletionPending (tss ! i) =
            (DeletionPending (TaskStatuses trs ! i) \<or> int i \<in> set (rev [0..?cnt - 1]))" by simp_all
    then have "list_all DeletionPending tss" by (auto simp: list_all_length)
    with True t show ?thesis by simp
  next
    case False
    with h show ?thesis by auto
  qed
  with Cons.IH [OF r] e show ?case by simp
qed

lemma scaleRoleStatuses_total: "\<exists>x. scaleRoleStatuses f rs p = Some x"
proof (induction rs arbitrary: p)
  case Nil
  show ?case by simp
next
  case (Cons trs rs)
  let ?cnt = "int (length (TaskStatuses trs))"
  have "\<exists>x. markTasks (TaskStatuses trs) (rev [0..?cnt - 1]) p = Some x"
    by (intro markTasks_total) auto
  then obtain trs1 p1 where
    h: "(if GetTaskRoleSpec f (TaskRoleStatus.Name trs) = None
         then (case markTasks (TaskStatuses trs) (rev [0..?cnt - 1]) p of
                 None \<Rightarrow> None
               | Some (tss, p1) \<Rightarrow> Some (trs\<lparr>TaskStatuses := tss\<rparr>, p1))
         else Some (trs, p)) = Some (trs1, p1)"
    by (cases "GetTaskRoleSpec f (TaskRoleStatus.Name trs) = None") auto
  moreover obtain rest p2 where "scaleRoleStatuses f rs p1 = Some (rest, p2)"
    using Cons [of p1] by auto
  ultimately show ?case by (simp add: Let_def)
qed

lemma find_list_all2:
  assumes "list_all2 (\<lambda>x y. N y = N x \<and> R x y) xs ys" and "find (\<lambda>x. N x = n) xs = Some x"
  shows "\<exists>y. find (\<lambda>y. N y = n) ys = Some y \<and> R x y"
  using assms by (induction xs ys rule: list_all2_induct) (auto split: if_splits)

lemma list_all2_names:
  "list_all2 (\<lambda>x y. N y = N x \<and> R x y) xs ys \<Longrightarrow> map N ys = map N xs"
  by (induction xs ys rule: list_all2_induct) auto

lemma list_all2_marked:
  "list_all2 (\<lambda>x y. N y = N x \<and> (if Q (N x) then P y else y = x)) xs ys \<Longrightarrow>
     list_all (\<lambda>y. Q (N y) \<longrightarrow> P y) ys"
  by (induction xs ys rule: list_all2_induct) (auto split: if_splits)

lemma GetTaskRoleSpec_mem:
  "r \<in> set (TaskRoles (Spec f)) \<Longrightarrow> GetTaskRoleSpec f (TaskRoleSpec.Name r) \<noteq> None"
  by (auto simp: GetTaskRoleSpec_def find_None_iff)

lemma markTasks_nth:
  "markTasks tss js p = Some (tss', p') \<Longrightarrow>
     length tss' = length tss \<and>
     (\<forall>i < length tss. tss' ! i =
        (if int i \<in> set js then (tss ! i)\<lparr>DeletionPending := True\<rparr> else tss ! i))"
proof (induction js arbitrary: tss p)
  case Nil
  then show ?case by simp
next
  case (Cons j js)
  from Cons.prems obtain ts where ts: "nthTask tss j = Some ts"
    by (cases "nthTask tss j") auto
  then have j: "0 \<le> j" "nat j < length tss" "ts = tss ! nat j"
    by (auto simp: nthTask_def split: if_splits)
  obtain ts' isNew where m: "MarkAsDeletionPending ts = (ts', isNew)" by (cases "MarkAsDeletionPending ts")
  then have d: "ts' = ts\<lparr>DeletionPending := True\<rparr>"
    by (auto simp: MarkAsDeletionPending_def split: if_splits)
  from Cons.prems ts m have "markTasks (tss[nat j := ts']) js (if isNew then True else p) = Some (tss', p')"
    by simp
  from Cons.IH [OF this] have l: "length tss' = length tss"
    and a: "\<forall>i < length tss. tss' ! i =
        (if int i \<in> set js then (tss[nat j := ts'] ! i)\<lparr>DeletionPending := True\<rparr>
         else tss[nat j := ts'] ! i)"
    by simp_all
  have "tss' ! i = (if int i \<in> set (j # js) then (tss ! i)\<lparr>DeletionPending := True\<rparr> else tss ! i)"
    if i: "i < length tss" for i
  proof (cases "i = nat j")
    case True
    with a i j d show ?thesis by simp
  next
    case False
    with j have "int i \<noteq> j" by auto
    with a i False show ?thesis by simp
  qed
  with l show ?case by simp
qed

lemma markTasks_order:
  assumes "set js = set js'" and "markTasks tss js p = Some (tss1, p1)"
    and "markTasks tss js' q = Some (tss2, q1)"
  shows "tss1 = tss2"
  using markTasks_nth [OF assms(2)] markTasks_nth [OF assms(3)] assms(1)
  by (auto intro: nth_equalityI)

text \<open>
  C2. \<^verbatim>\<open>syncFrameworkScale\<close> on a framework that is not completing, not
  \<^verbatim>\<open>FrameworkAttemptCompleted\<close> and not \<^verbatim>\<open>FrameworkCompleted\<close>, whose spec names each role once
  and whose status names each role once: it returns when no \<^verbatim>\<open>taskNumber\<close> is negative, and
  whenever it returns, every role of the spec has a status with at least \<^verbatim>\<open>taskNumber\<close>
  task slots in which every slot at or beyond \<^verbatim>\<open>taskNumber\<close> is deletion pending, and
  every task of a status role that the spec does not name is deletion pending. The
  marking loops visit the excess slots from the highest index downward
  (\<open>rev [taskNumber..count - 1]\<close> in \<open>scaleRoleSpec\<close>); the slots they return depend on the
  indices visited and not on the order of the visits.
\<close>

theorem syncFrameworkScale_invariant:
  assumes "\<not> IsCompleting f"
    and "FrameworkStatus.State (Status f) \<noteq> FrameworkAttemptCompleted"
    and "FrameworkStatus.State (Status f) \<noteq> FrameworkCompleted"
    and "distinct (map TaskRoleSpec.Name (TaskRoles (Spec f)))"
    and "distinct (roleNames f)"
  shows "((\<forall>r \<in> set (TaskRoles (Spec f)). 0 \<le> TaskNumber r) \<longrightarrow> syncFrameworkScale c f \<noteq> None) \<and>
         (\<forall>f' p. syncFrameworkScale c f = Some (f', p) \<longrightarrow>
            Spec f' = Spec f \<and> distinct (roleNames f') \<and>
            (\<forall>r \<in> set (TaskRoles (Spec f)). roleScaled f' r) \<and> absentRolesMarked f') \<and>
         (\<forall>tss js js' p q tss1 p1 tss2 q1.
            set js = set js' \<and> markTasks tss js p = Some (tss1, p1) \<and>
            markTasks tss js' q = Some (tss2, q1) \<longrightarrow> tss1 = tss2)"
proof (intro conjI allI impI)
  fix tss js js' p q tss1 p1 tss2 q1
  assume "set js = set js' \<and> markTasks tss js p = Some (tss1, p1) \<and>
            markTasks tss js' q = Some (tss2, q1)"
  then show "tss1 = tss2" using markTasks_order by blast
next
  assume nn: "\<forall>r \<in> set (TaskRoles (Spec f)). 0 \<le> TaskNumber r"
  from scaleRoleSpecs_total [OF nn, of c f False] obtain f1 p1 where
    "scaleRoleSpecs c f (TaskRoles (Spec f)) False = Some (f1, p1)" by auto
  moreover from scaleRoleStatuses_total [of f1 "FTaskRoleStatuses f1" p1] obtain rs p2 where
    "scaleRoleStatuses f1 (FTaskRoleStatuses f1) p1 = Some (rs, p2)" by auto
  ultimately show "syncFrameworkScale c f \<noteq> None"
    using assms(1-3) by (simp add: syncFrameworkScale_def)
next
  fix f' p
  assume "syncFrameworkScale c f = Some (f', p)"
  with assms(1-3) obtain f1 p1 rs where
    s1: "scaleRoleSpecs c f (TaskRoles (Spec f)) False = Some (f1, p1)"
    and s2: "scaleRoleStatuses f1 (FTaskRoleStatuses f1) p1 = Some (rs, p)"
    and f': "f' = setTaskRoleStatuses rs f1"
    by (auto simp: syncFrameworkScale_def split: option.splits)
  note a = scaleRoleSpecs_post [OF s1 assms(4)]
  note b = scaleRoleStatuses_post [OF s2]
  have names: "map TaskRoleStatus.Name rs = map TaskRoleStatus.Name (FTaskRoleStatuses f1)"
    using b by (rule list_all2_names)
  show "Spec f' = Spec f" using a by (simp add: f')
  show "distinct (roleNames f')"
    using a assms(5) names by (simp add: f' roleNames_def)
  show "\<forall>r \<in> set (TaskRoles (Spec f)). roleScaled f' r"
  proof
    fix r assume r: "r \<in> set (TaskRoles (Spec f))"
    with a have sc: "roleScaled f1 r" by blast
    then obtain trs where g: "GetTaskRoleStatus f1 (TaskRoleSpec.Name r) = Some trs"
      by (auto simp: roleScaled_def split: option.splits)
    then have n: "TaskRoleStatus.Name trs = TaskRoleSpec.Name r"
      by (auto simp: GetTaskRoleStatus_def find_Some_iff)
    from r a have "GetTaskRoleSpec f1 (TaskRoleSpec.Name r) \<noteq> None"
      using GetTaskRoleSpec_mem [of r f1] by simp
    with find_list_all2 [OF b, of "TaskRoleSpec.Name r" trs] g n
    have "find (\<lambda>y. TaskRoleStatus.Name y = TaskRoleSpec.Name r) rs = Some trs"
      by (auto simp: GetTaskRoleStatus_def)
    then have "GetTaskRoleStatus f' (TaskRoleSpec.Name r) = Some trs"
      unfolding f' GetTaskRoleStatus_set .
    then have "GetTaskRoleStatus f' (TaskRoleSpec.Name r) = GetTaskRoleStatus f1 (TaskRoleSpec.Name r)"
      unfolding g .
    then show "roleScaled f' r" using sc roleScaled_cong by blast
  qed
  show "absentRolesMarked f'"
    unfolding absentRolesMarked_def f' FTaskRoleStatuses_set GetTaskRoleSpec_setTaskRoleStatuses
    using b by (rule list_all2_marked)
qed

lemma exampleRescaled_scale:
  "map_option (\<lambda>(f', p). (projTasks DeletionPending f', p))
     (syncFrameworkScale (exampleController None 500) exampleRescaledFramework) =
   Some ([[True], [False, True, True], [False, False]], True)"
  by code_simp

lemma exampleRescaled_wf:
  "\<not> IsCompleting exampleRescaledFramework"
  "FrameworkStatus.State (Status exampleRescaledFramework) \<noteq> FrameworkAttemptCompleted"
  "FrameworkStatus.State (Status exampleRescaledFramework) \<noteq> FrameworkCompleted"
  "distinct (map TaskRoleSpec.Name (TaskRoles (Spec exampleRescaledFramework)))"
  "distinct (roleNames exampleRescaledFramework)"
  "TaskRoles (Spec exampleRescaledFramework) = [workerRoleSpec\<lparr>TaskNumber := 1\<rparr>, evaluatorRoleSpec]"
  by code_simp+

theorem syncFrameworkScale_invariant_witness:
  "(\<not> IsCompleting exampleRescaledFramework \<and>
    distinct (map TaskRoleSpec.Name (TaskRoles (Spec exampleRescaledFramework))) \<and>
    distinct (roleNames exampleRescaledFramework))
   \<and> (\<exists>f' p. syncFrameworkScale (exampleController None 500) exampleRescaledFramework = Some (f', p) \<and>
         projTasks DeletionPending f' = [[True], [False, True, True], [False, False]] \<and>
         roleScaled f' (workerRoleSpec\<lparr>TaskNumber := 1\<rparr>) \<and> roleScaled f' evaluatorRoleSpec \<and>
         absentRolesMarked f')"
proof -
  obtain f' p where e: "syncFrameworkScale (exampleController None 500) exampleRescaledFramework = Some (f', p)"
    and d: "projTasks DeletionPending f' = [[True], [False, True, True], [False, False]]"
    using exampleRescaled_scale
    by (cases "syncFrameworkScale (exampleController None 500) exampleRescaledFramework") auto
  from syncFrameworkScale_invariant [OF exampleRescaled_wf(1-5), of "exampleController None 500"] e
  have "roleScaled f' (workerRoleSpec\<lparr>TaskNumber := 1\<rparr>) \<and> roleScaled f' evaluatorRoleSpec \<and>
      absentRolesMarked f'"
    by (simp add: exampleRescaled_wf(6))
  with e d exampleRescaled_wf(1,4,5) show ?thesis by blast
qed

text \<open>
  A spec that names a role twice: the first entry marks slot 1 of the two workers, the
  second appends a third worker. Slot 2 lies beyond the \<^verbatim>\<open>taskNumber\<close> of the first entry
  and is not deletion pending.
\<close>

theorem syncFrameworkScale_duplicate_role_names:
  "\<not> IsCompleting exampleDuplicateRoleFramework
   \<and> FrameworkStatus.State (Status exampleDuplicateRoleFramework) = FrameworkAttemptRunning
   \<and> TaskRoles (Spec exampleDuplicateRoleFramework) = [workerRoleSpec\<lparr>TaskNumber := 1\<rparr>, workerRoleSpec]
   \<and> projTasks DeletionPending exampleDuplicateRoleFramework = [[False, False]]
   \<and> (case syncFrameworkScale (exampleController None 500) exampleDuplicateRoleFramework of
         None \<Rightarrow> False
       | Some (f', p) \<Rightarrow>
           roleNames f' = [''worker''] \<and>
           projTasks DeletionPending f' = [[False, True, False]] \<and>
           \<not> roleScaled f' (workerRoleSpec\<lparr>TaskNumber := 1\<rparr>))"
  by code_simp

subsection \<open>The completion policy: all tasks completed\<close>

lemma CTO_last:
  assumes "list_all (\<lambda>ts. TaskStatus.State ts = TaskCompleted \<longrightarrow> CompletionTime ts \<noteq> None) (TaskStatuses trs)"
    and "\<And>ts. sel ts \<Longrightarrow> TaskStatus.State ts = TaskCompleted"
    and "RoleTaskCountStatus trs sel = n" and "n \<noteq> 0"
  shows "\<exists>t. CompletionTimeOrderedTaskStatus trs sel (n - 1) = Some t \<and>
              t \<in> set (filter sel (TaskStatuses trs)) \<and> CompletionTime t \<noteq> None \<and>
              (\<forall>t' \<in> set (filter sel (TaskStatuses trs)). completionTimeOf t' \<le> completionTimeOf t)"
proof -
  let ?sel = "filter sel (TaskStatuses trs)"
  let ?xs = "sort_key completionTimeOf ?sel"
  have n: "n = int (length ?xs)" using assms(3) by (simp add: RoleTaskCountStatus_def)
  with assms(4) have pos: "0 < length ?xs" by auto
  have a: "\<not> list_ex (\<lambda>ts. CompletionTime ts = None) ?sel"
    using assms(1,2) by (auto simp: list_ex_iff list_all_iff)
  have k: "nat (n - 1) = length ?xs - 1" using n by simp
  have r: "CompletionTimeOrderedTaskStatus trs sel (n - 1) = Some (?xs ! (length ?xs - 1))"
    using a pos n k by (simp add: CompletionTimeOrderedTaskStatus_def nthTask_def Let_def)
  have m: "?xs ! (length ?xs - 1) \<in> set ?xs" using pos by (intro nth_mem) simp
  then have s: "?xs ! (length ?xs - 1) \<in> set ?sel" by simp
  with a have c: "CompletionTime (?xs ! (length ?xs - 1)) \<noteq> None" by (auto simp: list_ex_iff)
  have sorted: "sorted (map completionTimeOf ?xs)" by (rule sorted_sort_key)
  have "\<forall>t' \<in> set ?sel. completionTimeOf t' \<le> completionTimeOf (?xs ! (length ?xs - 1))"
  proof
    fix t' assume "t' \<in> set ?sel"
    then have "t' \<in> set ?xs" by simp
    then obtain i where i: "i < length ?xs" "?xs ! i = t'" by (metis in_set_conv_nth)
    from sorted i(1) pos have "map completionTimeOf ?xs ! i \<le> map completionTimeOf ?xs ! (length ?xs - 1)"
      by (intro sorted_nth_mono) auto
    with i pos show "completionTimeOf t' \<le> completionTimeOf (?xs ! (length ?xs - 1))" by simp
  qed
  with r s c show ?thesis by blast
qed


lemma lastCompletedLoop_latest:
  assumes "completedTasksTimed f"
    and "\<forall>r \<in> set rs. case GetTaskRoleStatus f (TaskRoleSpec.Name r) of
                          None \<Rightarrow> True
                        | Some trs \<Rightarrow> RoleTaskCountStatus trs (BindIDP IsCompleted True) = TaskNumber r"
    and "(fst acc = None \<and> S = {}) \<or>
         (\<exists>t trs. fst acc = Some t \<and> CompletionTime t \<noteq> None \<and> t \<in> S \<and>
              (\<forall>t' \<in> S. completionTimeOf t' \<le> completionTimeOf t) \<and>
              GetTaskRoleStatus f (snd acc) = Some trs \<and> t \<in> set (TaskStatuses trs))"
  shows "\<exists>last name. lastCompletedLoop f rs acc = Some (last, name) \<and>
           ((last = None \<and> S \<union> set (specCompletedTasksOf f rs) = {}) \<or>
            (\<exists>t trs. last = Some t \<and> t \<in> S \<union> set (specCompletedTasksOf f rs) \<and>
               (\<forall>t' \<in> S \<union> set (specCompletedTasksOf f rs). completionTimeOf t' \<le> completionTimeOf t) \<and>
               GetTaskRoleStatus f name = Some trs \<and> t \<in> set (TaskStatuses trs)))"
  using assms(2,3)
proof (induction rs arbitrary: acc S)
  case Nil
  then show ?case by (cases acc) (auto simp: specCompletedTasksOf_def)
next
  case (Cons r rs)
  let ?n = "TaskRoleSpec.Name r"
  have rest: "\<forall>r \<in> set rs. case GetTaskRoleStatus f (TaskRoleSpec.Name r) of
                          None \<Rightarrow> True
                        | Some trs \<Rightarrow> RoleTaskCountStatus trs (BindIDP IsCompleted True) = TaskNumber r"
    using Cons.prems(1) by simp
  show ?case
  proof (cases "GetTaskRoleStatus f ?n")
    case None
    then have e: "specCompletedTasksOf f (r # rs) = specCompletedTasksOf f rs"
      by (simp add: specCompletedTasksOf_def)
    from Cons.IH [OF rest Cons.prems(2)] None show ?thesis by (simp add: e)
  next
    case (Some trs)
    show ?thesis
    proof (cases "TaskNumber r = 0")
      case True
      then have e: "specCompletedTasksOf f (r # rs) = specCompletedTasksOf f rs"
        using Some by (simp add: specCompletedTasksOf_def)
      from Cons.IH [OF rest Cons.prems(2)] Some True show ?thesis by (simp add: e)
    next
      case False
      let ?C = "filter (BindIDP IsCompleted True) (TaskStatuses trs)"
      have e: "set (specCompletedTasksOf f (r # rs)) = set ?C \<union> set (specCompletedTasksOf f rs)"
        using Some False by (simp add: specCompletedTasksOf_def)
      have timed: "list_all (\<lambda>ts. TaskStatus.State ts = TaskCompleted \<longrightarrow> CompletionTime ts \<noteq> None) (TaskStatuses trs)"
        using assms(1) GetTaskRoleStatus_mem [OF Some] by (auto simp: completedTasksTimed_def list_all_iff)
      have cnt: "RoleTaskCountStatus trs (BindIDP IsCompleted True) = TaskNumber r"
        using Cons.prems(1) Some by simp
      from CTO_last [OF timed sel_completed(3) cnt False]
      obtain u where u: "CompletionTimeOrderedTaskStatus trs (BindIDP IsCompleted True) (TaskNumber r - 1) = Some u"
        "u \<in> set ?C" "CompletionTime u \<noteq> None" "\<forall>t' \<in> set ?C. completionTimeOf t' \<le> completionTimeOf u"
        by blast
      from u(3) obtain a where a: "CompletionTime u = Some a" by auto
      from u(2) have um: "u \<in> set (TaskStatuses trs)" by simp
      define acc' where "acc' = (case fst acc of
           None \<Rightarrow> (Some u, ?n)
         | Some t \<Rightarrow> if completionTimeOf u > completionTimeOf t then (Some u, ?n) else acc)"
      have step: "lastCompletedLoop f (r # rs) acc = lastCompletedLoop f rs acc'"
      proof (cases "fst acc")
        case None
        with Some False u(1) show ?thesis by (simp add: acc'_def)
      next
        case (Some t)
        with Cons.prems(2) obtain b where b: "CompletionTime t = Some b" by auto
        from Some \<open>GetTaskRoleStatus f ?n = Some trs\<close> False u(1) a b show ?thesis
          by (simp add: acc'_def completionTimeOf_def)
      qed
      have inv: "(fst acc' = None \<and> S \<union> set ?C = {}) \<or>
         (\<exists>t trs. fst acc' = Some t \<and> CompletionTime t \<noteq> None \<and> t \<in> S \<union> set ?C \<and>
              (\<forall>t' \<in> S \<union> set ?C. completionTimeOf t' \<le> completionTimeOf t) \<and>
              GetTaskRoleStatus f (snd acc') = Some trs \<and> t \<in> set (TaskStatuses trs))"
      proof (cases "fst acc")
        case None
        with Cons.prems(2) have "S = {}" by auto
        with None u um Some show ?thesis by (auto simp: acc'_def)
      next
        case st: (Some t)
        with Cons.prems(2) obtain trs0 where t: "CompletionTime t \<noteq> None" "t \<in> S"
          "\<forall>t' \<in> S. completionTimeOf t' \<le> completionTimeOf t"
          "GetTaskRoleStatus f (snd acc) = Some trs0" "t \<in> set (TaskStatuses trs0)" by auto
        show ?thesis
        proof (cases "completionTimeOf u > completionTimeOf t")
          case True
          then have "acc' = (Some u, ?n)" using st by (simp add: acc'_def)
          moreover have "\<forall>t' \<in> S \<union> set ?C. completionTimeOf t' \<le> completionTimeOf u"
            using True t(3) u(4) by fastforce
          ultimately show ?thesis using u um Some by auto
        next
          case False
          then have "acc' = acc" using st by (simp add: acc'_def)
          moreover have "\<forall>t' \<in> S \<union> set ?C. completionTimeOf t' \<le> completionTimeOf t"
            using False t(3) u(4) by fastforce
          ultimately show ?thesis using st t by auto
        qed
      qed
      from Cons.IH [OF rest inv] show ?thesis
        unfolding step e Un_assoc .
    qed
  qed
qed

lemma count_scaled:
  assumes "TaskNumber r \<le> int (length (TaskStatuses trs))" "0 \<le> TaskNumber r"
    and "list_all DeletionPending (drop (nat (TaskNumber r)) (TaskStatuses trs))"
  shows "RoleTaskCountStatus trs (BindIDP IsCompleted True) \<le> TaskNumber r"
proof -
  let ?n = "nat (TaskNumber r)"
  let ?sel = "BindIDP IsCompleted True"
  have "filter ?sel (drop ?n (TaskStatuses trs)) = []"
    using assms(3) by (auto simp: filter_empty_conv list_all_iff BindIDP_def IsCompleted_def)
  then have "filter ?sel (TaskStatuses trs) = filter ?sel (take ?n (TaskStatuses trs))"
    by (metis append_Nil2 append_take_drop_id filter_append)
  then have "length (filter ?sel (TaskStatuses trs)) \<le> ?n"
    by (metis length_filter_le length_take min.cobounded2 order_trans)
  then show ?thesis using assms(2) by (simp add: RoleTaskCountStatus_def)
qed

lemma count_marked:
  assumes "list_all DeletionPending (TaskStatuses trs)"
  shows "RoleTaskCountStatus trs (BindIDP IsCompleted True) = 0"
  using assms by (auto simp: RoleTaskCountStatus_def filter_empty_conv list_all_iff BindIDP_def IsCompleted_def)

lemma scaled_fully_completed:
  assumes ds: "distinct (map TaskRoleSpec.Name (TaskRoles (Spec f)))"
    and dn: "distinct (roleNames f)"
    and sc: "\<forall>r \<in> set (TaskRoles (Spec f)). 0 \<le> TaskNumber r \<and> roleScaled f r"
    and am: "absentRolesMarked f"
    and cnt: "GetTotalTaskCountSpec f \<le> GetTaskCountStatus f (BindIDP IsCompleted True)"
  shows "rolesFullyCompleted f"
proof -
  let ?spec = "TaskRoles (Spec f)"
  let ?sts = "FTaskRoleStatuses f"
  let ?c = "\<lambda>trs. RoleTaskCountStatus trs (BindIDP IsCompleted True)"
  define g where "g r = the (GetTaskRoleStatus f (TaskRoleSpec.Name r))" for r :: TaskRoleSpec
  have g: "GetTaskRoleStatus f (TaskRoleSpec.Name r) = Some (g r) \<and> g r \<in> set ?sts \<and>
           TaskRoleStatus.Name (g r) = TaskRoleSpec.Name r \<and> ?c (g r) \<le> TaskNumber r"
    if "r \<in> set ?spec" for r
  proof -
    from sc that have s: "roleScaled f r" "0 \<le> TaskNumber r" by auto
    then obtain trs where t: "GetTaskRoleStatus f (TaskRoleSpec.Name r) = Some trs"
      "TaskNumber r \<le> int (length (TaskStatuses trs))"
      "list_all DeletionPending (drop (nat (TaskNumber r)) (TaskStatuses trs))"
      by (auto simp: roleScaled_def split: option.splits)
    then have "g r = trs" by (simp add: g_def)
    with t s(2) GetTaskRoleStatus_mem [OF t(1)] count_scaled [OF t(2) s(2) t(3)] show ?thesis by simp
  qed
  have injS: "inj_on TaskRoleSpec.Name (set ?spec)" and dspec: "distinct ?spec"
    using ds by (auto simp: distinct_map)
  have injT: "inj_on TaskRoleStatus.Name (set ?sts)" and dsts: "distinct ?sts"
    using dn by (auto simp: distinct_map roleNames_def)
  have injg: "inj_on g (set ?spec)"
  proof (rule inj_onI)
    fix r r' assume a: "r \<in> set ?spec" "r' \<in> set ?spec" "g r = g r'"
    then have "TaskRoleSpec.Name r = TaskRoleSpec.Name r'" using g [of r] g [of r'] by simp
    with injS a show "r = r'" by (auto dest: inj_onD)
  qed
  have sub: "g ` set ?spec \<subseteq> set ?sts" using g by auto
  have zero: "?c trs = 0" if "trs \<in> set ?sts - g ` set ?spec" for trs
  proof (cases "GetTaskRoleSpec f (TaskRoleStatus.Name trs)")
    case None
    with am that have "list_all DeletionPending (TaskStatuses trs)"
      by (auto simp: absentRolesMarked_def list_all_iff)
    then show ?thesis by (rule count_marked)
  next
    case (Some r)
    then have r: "r \<in> set ?spec" "TaskRoleSpec.Name r = TaskRoleStatus.Name trs"
      by (auto simp: GetTaskRoleSpec_def find_Some_iff)
    with g [of r] that injT have "g r = trs" by (auto dest: inj_onD)
    with r(1) that show ?thesis by auto
  qed
  have "GetTaskCountStatus f (BindIDP IsCompleted True) = sum ?c (set ?sts)"
    using dsts by (simp add: GetTaskCountStatus_def sum_list_distinct_conv_sum_set)
  also have "\<dots> = sum ?c (g ` set ?spec)"
    using sub zero by (intro sum.mono_neutral_right) auto
  also have "\<dots> = sum (\<lambda>r. ?c (g r)) (set ?spec)"
    using injg by (simp add: sum.reindex o_def)
  finally have completed: "GetTaskCountStatus f (BindIDP IsCompleted True) = sum (\<lambda>r. ?c (g r)) (set ?spec)" .
  have total: "GetTotalTaskCountSpec f = sum TaskNumber (set ?spec)"
    using dspec by (simp add: GetTotalTaskCountSpec_def sum_list_distinct_conv_sum_set)
  have "sum (\<lambda>r. TaskNumber r - ?c (g r)) (set ?spec) \<le> 0"
    using cnt completed total by (simp add: sum_subtractf)
  moreover have nn: "\<forall>r \<in> set ?spec. 0 \<le> TaskNumber r - ?c (g r)" using g by auto
  then have "0 \<le> sum (\<lambda>r. TaskNumber r - ?c (g r)) (set ?spec)" by (intro sum_nonneg) auto
  ultimately have "sum (\<lambda>r. TaskNumber r - ?c (g r)) (set ?spec) = 0" by simp
  then have "\<forall>r \<in> set ?spec. TaskNumber r - ?c (g r) = 0"
    using nn by (simp add: sum_nonneg_eq_0_iff)
  then show ?thesis
    using g by (auto simp: rolesFullyCompleted_def list_all_iff)
qed

text \<open>
  C8. In \<^verbatim>\<open>syncFrameworkAttemptCompletionPolicy\<close>, on a status that satisfies the scale
  invariant and whose completed tasks carry their completion time: if no role threshold
  yields a trigger and the completed tasks (deletion-pending ones left out) are at least
  as many as the spec declares, the second loop returns the latest-completed task over
  the roles of the spec together with the name of its role (no task if every role has
  \<^verbatim>\<open>taskNumber\<close> 0), and the attempt is completed unforced with the
  CompletedTaskTriggered status built from that task, its role name and the two counts:
  the framework enters \<^verbatim>\<open>FrameworkAttemptDeletionPending\<close> and its CompletionStatus, nil
  before, is that status.
\<close>

theorem all_completed_latest_trigger:
  assumes "completedTasksTimed f"
    and "distinct (map TaskRoleSpec.Name (TaskRoles (Spec f)))"
    and "distinct (roleNames f)"
    and "\<forall>r \<in> set (TaskRoles (Spec f)). 0 \<le> TaskNumber r \<and> roleScaled f r"
    and "absentRolesMarked f"
    and "specTriggerCandidates f = []"
    and "GetTotalTaskCountSpec f \<le> GetTaskCountStatus f (BindIDP IsCompleted True)"
  shows "\<exists>last name c' f'.
      lastCompletedLoop f (TaskRoles (Spec f)) (None, []) = Some (last, name) \<and>
      (case last of
         None \<Rightarrow> specCompletedTasks f = []
       | Some t \<Rightarrow>
           t \<in> set (specCompletedTasks f) \<and>
           (\<forall>t' \<in> set (specCompletedTasks f). completionTimeOf t' \<le> completionTimeOf t) \<and>
           (\<exists>trs. GetTaskRoleStatus f name = Some trs \<and> t \<in> set (TaskStatuses trs))) \<and>
      syncFrameworkAttemptCompletionPolicy c f = Some (c', f', True) \<and>
      completeFrameworkAttempt c f False
        (Some (NewCompletedTaskTriggeredCompletionStatus last name
                 (GetTaskCountStatus f (BindIDP IsCompleted True)) (GetTotalTaskCountSpec f)))
        = Some (c', f') \<and>
      FrameworkStatus.State (Status f') = FrameworkAttemptDeletionPending \<and>
      frameworkCompletionStatus f' =
        (if frameworkCompletionStatus f = None
         then Some (NewCompletedTaskTriggeredCompletionStatus last name
                      (GetTaskCountStatus f (BindIDP IsCompleted True)) (GetTotalTaskCountSpec f))
         else frameworkCompletionStatus f)"
proof -
  have full: "\<forall>r \<in> set (TaskRoles (Spec f)). case GetTaskRoleStatus f (TaskRoleSpec.Name r) of
                          None \<Rightarrow> True
                        | Some trs \<Rightarrow> RoleTaskCountStatus trs (BindIDP IsCompleted True) = TaskNumber r"
    using scaled_fully_completed [OF assms(2,3,4,5,7)]
    by (simp add: rolesFullyCompleted_def list_all_iff)
  have "(fst (None :: TaskStatus option, [] :: string) = None \<and> ({} :: TaskStatus set) = {}) \<or>
         (\<exists>t trs. fst (None :: TaskStatus option, [] :: string) = Some t \<and> CompletionTime t \<noteq> None \<and> t \<in> {} \<and>
              (\<forall>t' \<in> {}. completionTimeOf t' \<le> completionTimeOf t) \<and>
              GetTaskRoleStatus f (snd (None :: TaskStatus option, [] :: string)) = Some trs \<and> t \<in> set (TaskStatuses trs))"
    by simp
  from lastCompletedLoop_latest [OF assms(1) full this]
  obtain last name where l: "lastCompletedLoop f (TaskRoles (Spec f)) (None, []) = Some (last, name)"
    and p: "(last = None \<and> set (specCompletedTasks f) = {}) \<or>
            (\<exists>t trs. last = Some t \<and> t \<in> set (specCompletedTasks f) \<and>
               (\<forall>t' \<in> set (specCompletedTasks f). completionTimeOf t' \<le> completionTimeOf t) \<and>
               GetTaskRoleStatus f name = Some trs \<and> t \<in> set (TaskStatuses trs))"
    unfolding specCompletedTasks_def by auto
  let ?cs = "NewCompletedTaskTriggeredCompletionStatus last name
                 (GetTaskCountStatus f (BindIDP IsCompleted True)) (GetTotalTaskCountSpec f)"
  from completeFrameworkAttempt_Some [of False f c "Some ?cs"]
  obtain c' f' where k: "completeFrameworkAttempt c f False (Some ?cs) = Some (c', f')"
    "frameworkCompletionStatus f' =
       (if frameworkCompletionStatus f = None then Some ?cs else frameworkCompletionStatus f)"
    "FrameworkStatus.State (Status f') = FrameworkAttemptDeletionPending"
    by auto
  have first: "firstTriggerLoop f (TaskRoles (Spec f)) (None, None) = Some (None, None)"
    using firstTrigger_earliest [OF assms(1)] assms(6) by auto
  have s: "syncFrameworkAttemptCompletionPolicy c f = Some (c', f', True)"
    using first l k(1) assms(7) by (simp add: syncFrameworkAttemptCompletionPolicy_def Let_def)
  have q: "(case last of
         None \<Rightarrow> specCompletedTasks f = []
       | Some t \<Rightarrow>
           t \<in> set (specCompletedTasks f) \<and>
           (\<forall>t' \<in> set (specCompletedTasks f). completionTimeOf t' \<le> completionTimeOf t) \<and>
           (\<exists>trs. GetTaskRoleStatus f name = Some trs \<and> t \<in> set (TaskStatuses trs)))"
    using p by auto
  from l q s k show ?thesis by blast
qed

lemma exampleAllCompleted_roles:
  "FTaskRoleStatuses exampleAllCompletedFramework =
     [\<lparr>TaskRoleStatus.Name = ''ps'', TaskRoleStatus.PodGracefulDeletionTimeoutSec = None,
       TaskStatuses = [succeededTask 0 300]\<rparr>,
      \<lparr>TaskRoleStatus.Name = ''worker'', TaskRoleStatus.PodGracefulDeletionTimeoutSec = Some 1800,
       TaskStatuses = [failedTask 0 200, succeededTask 1 400,
                       (failedTask 2 500)\<lparr>DeletionPending := True\<rparr>]\<rparr>]"
  "TaskRoles (Spec exampleAllCompletedFramework) =
     [psRoleSpec\<lparr>FrameworkAttemptCompletionPolicy :=
             \<lparr>MinFailedTaskCount = - 1, MinSucceededTaskCount = - 1\<rparr>\<rparr>,
      workerRoleSpec\<lparr>TaskNumber := 2, FrameworkAttemptCompletionPolicy :=
             \<lparr>MinFailedTaskCount = - 1, MinSucceededTaskCount = - 1\<rparr>\<rparr>]"
  by (simp_all add: exampleAllCompletedFramework_def setTaskRoleStatuses_def FTaskRoleStatuses_def
      exampleFramework_def exampleSpec_def)

lemma exampleAllCompleted_wf:
  "completedTasksTimed exampleAllCompletedFramework"
  "distinct (map TaskRoleSpec.Name (TaskRoles (Spec exampleAllCompletedFramework)))"
  "distinct (roleNames exampleAllCompletedFramework)"
  "\<forall>r \<in> set (TaskRoles (Spec exampleAllCompletedFramework)).
      0 \<le> TaskNumber r \<and> roleScaled exampleAllCompletedFramework r"
  "absentRolesMarked exampleAllCompletedFramework"
  "specTriggerCandidates exampleAllCompletedFramework = []"
  "GetTotalTaskCountSpec exampleAllCompletedFramework = 3"
  "GetTaskCountStatus exampleAllCompletedFramework (BindIDP IsCompleted True) = 3"
  by (simp_all add: completedTasksTimed_def roleNames_def roleScaled_def absentRolesMarked_def
      specTriggerCandidates_def specRoleCandidates_def GetTotalTaskCountSpec_def GetTaskCountStatus_def
      RoleTaskCountStatus_def GetTaskRoleStatus_def GetTaskRoleSpec_def
      exampleAllCompleted_roles psRoleSpec_def workerRoleSpec_def failedTask_def succeededTask_def
      BindIDP_def IsCompleted_def Let_def)

lemma exampleAllCompleted_tasks:
  "specCompletedTasks exampleAllCompletedFramework =
     [succeededTask 0 300, failedTask 0 200, succeededTask 1 400]"
  by (simp add: specCompletedTasks_def specCompletedTasksOf_def GetTaskRoleStatus_def
      exampleAllCompleted_roles psRoleSpec_def workerRoleSpec_def failedTask_def succeededTask_def
      BindIDP_def IsCompleted_def)

theorem all_completed_latest_trigger_witness:
  "completedTasksTimed exampleAllCompletedFramework
   \<and> specTriggerCandidates exampleAllCompletedFramework = []
   \<and> GetTotalTaskCountSpec exampleAllCompletedFramework
        \<le> GetTaskCountStatus exampleAllCompletedFramework (BindIDP IsCompleted True)
   \<and> lastCompletedLoop exampleAllCompletedFramework (TaskRoles (Spec exampleAllCompletedFramework))
        (None, []) = Some (Some (succeededTask 1 400), ''worker'')
   \<and> (\<exists>c' f'. syncFrameworkAttemptCompletionPolicy (exampleController None 600)
                  exampleAllCompletedFramework = Some (c', f', True) \<and>
        FrameworkStatus.State (Status f') = FrameworkAttemptDeletionPending \<and>
        frameworkCompletionStatus f' =
          Some (NewCompletedTaskTriggeredCompletionStatus (Some (succeededTask 1 400)) ''worker'' 3 3))"
proof -
  have t: "completionTimeOf (failedTask 0 200) = 200" "completionTimeOf (succeededTask 0 300) = 300"
    "completionTimeOf (succeededTask 1 400) = 400"
    by (simp_all add: completionTimeOf_def failedTask_def succeededTask_def)
  have n: "frameworkCompletionStatus exampleAllCompletedFramework = None"
    by (simp add: frameworkCompletionStatus_def exampleAllCompletedFramework_def setTaskRoleStatuses_def
        exampleFramework_def exampleStatus_def)
  have w: "GetTotalTaskCountSpec exampleAllCompletedFramework
        \<le> GetTaskCountStatus exampleAllCompletedFramework (BindIDP IsCompleted True)"
    by (simp add: exampleAllCompleted_wf)
  from all_completed_latest_trigger [OF exampleAllCompleted_wf(1-6) w, of "exampleController None 600"]
  obtain last name c' f' where r:
    "lastCompletedLoop exampleAllCompletedFramework (TaskRoles (Spec exampleAllCompletedFramework))
        (None, []) = Some (last, name)"
    "syncFrameworkAttemptCompletionPolicy (exampleController None 600)
                  exampleAllCompletedFramework = Some (c', f', True)"
    "FrameworkStatus.State (Status f') = FrameworkAttemptDeletionPending"
    "frameworkCompletionStatus f' =
          Some (NewCompletedTaskTriggeredCompletionStatus last name 3 3)"
    by (auto simp: n exampleAllCompleted_wf)
  have "lastCompletedLoop exampleAllCompletedFramework (TaskRoles (Spec exampleAllCompletedFramework))
        (None, []) = Some (Some (succeededTask 1 400), ''worker'')"
    by code_simp
  with r have "last = Some (succeededTask 1 400)" "name = ''worker''" by simp_all
  with r this exampleAllCompleted_wf(1,6) w show ?thesis by simp
qed


subsection \<open>The task state machine: a pod that never appears\<close>

lemma State_transitionTask [simp]: "TaskStatus.State (transitionTask t dst ts) = dst"
  by (simp add: transitionTask_def)

lemma completeTaskAttempt_State:
  assumes "TaskStatusOf f n i = Some ts"
  shows "\<exists>c' f' ts'. completeTaskAttempt c f n i force cs = Some (c', f') \<and>
           requests c' = requests c \<and>
           TaskStatusOf f' n i = Some ts' \<and>
           TaskStatus.State ts' = (if force then TaskAttemptCompleted else TaskAttemptDeletionPending) \<and>
           taskCompletionStatus ts' = (if taskCompletionStatus ts = None then cs else taskCompletionStatus ts)"
proof -
  let ?g = "\<lambda>ts. ts\<lparr>TaskStatus.AttemptStatus :=
      (TaskStatus.AttemptStatus ts)\<lparr>TaskAttemptStatus.CompletionStatus := cs\<rparr>\<rparr>"
  define f1 where "f1 = (if taskCompletionStatus ts = None then updTaskStatus n i ?g f else f)"
  define ts1 where "ts1 = (if taskCompletionStatus ts = None then ?g ts else ts)"
  define dst where "dst = (if force then TaskAttemptCompleted else TaskAttemptDeletionPending)"
  have l1: "TaskStatusOf f1 n i = Some ts1"
    using assms by (simp add: f1_def ts1_def TaskStatusOf_updTaskStatus_same)
  define f2 where "f2 = updTaskStatus n i (transitionTask (now c) dst) f1"
  have r: "completeTaskAttempt c f n i force cs = Some (enqueueFrameworkSync c f2, f2)"
    using assms l1
    by (simp add: completeTaskAttempt_def f1_def f2_def dst_def taskCompletionStatus_def
        TransitionTaskState_Some Let_def)
  have l2: "TaskStatusOf f2 n i = Some (transitionTask (now c) dst ts1)"
    using l1 by (simp add: f2_def TaskStatusOf_updTaskStatus_same)
  have c2: "taskCompletionStatus (transitionTask (now c) dst ts1) =
      (if taskCompletionStatus ts = None then cs else taskCompletionStatus ts)"
    by (simp add: ts1_def)
  have q: "requests (enqueueFrameworkSync c f2) = requests c"
    by (simp add: enqueueFrameworkSync_def)
  show ?thesis
    using r l2 c2 q by (auto simp: dst_def)
qed

text \<open>
  C4. A task in \<^verbatim>\<open>TaskAttemptCreationRequested\<close> that is not deletion pending, whose pod is
  absent from the local cache once \<^verbatim>\<open>ObjectLocalCacheCreationTimeoutSec\<close> has expired:
  \<^verbatim>\<open>syncTaskState\<close> sends a delete of the pod with its UID as precondition and no grace
  period (the delete is not forced). If the server refuses the delete with an error other
  than not-found, the sync returns that error and the framework is as it was. If the
  server accepts it, the sync gets the pod from the server: an error of the get other than
  not-found, or a pod that still has the UID, is returned as an error and the framework is
  as it was. In the other cases (the delete or the get answers not-found, or the pod got
  has another UID) the attempt is completed forced, and that changes no request: the task
  is in \<^verbatim>\<open>TaskAttemptCompleted\<close> and its CompletionStatus, nil before, has the code
  \<^verbatim>\<open>PodCreationTimeout\<close> and the diagnostics that name the timeout.
\<close>

theorem pod_creation_timeout_deletes_then_completes:
  assumes "TaskStatusOf f taskRoleName taskIndex = Some taskStatus"
    and "TaskStatus.State taskStatus = TaskAttemptCreationRequested"
    and "\<not> DeletionPending taskStatus"
    and "PodUID (TaskStatus.AttemptStatus taskStatus) = Some podUID"
    and "podLister c (Namespace f) (PodName (TaskStatus.AttemptStatus taskStatus)) = Inl e"
    and "IsNotFound e"
    and "TaskStatus.TransitionTime taskStatus + ObjectLocalCacheCreationTimeoutSec (cConfig c) \<le> now c"
    and "completionStatus =
           NewTaskAttemptCompletionStatus CompletionCodePodCreationTimeout
             (''Pod does not appear in the local cache within timeout '' @
              SecToDurationText c (ObjectLocalCacheCreationTimeoutSec (cConfig c)) @
              '', so consider it was deleted and explicitly delete it'') None"
    and "c1 = c\<lparr>requests := requests c @
                  [PodsDelete (Namespace f) (PodName (TaskStatus.AttemptStatus taskStatus))
                     \<lparr>PreconditionsUID = podUID, GracePeriodSeconds = None,
                      PropagationPolicy = None\<rparr>]\<rparr>"
    and "c2 = c1\<lparr>requests := requests c1 @
                   [PodsGet (Namespace f) (PodName (TaskStatus.AttemptStatus taskStatus))]\<rparr>"
  shows "syncTaskState c f cm taskRoleName taskIndex =
           (case deleteResponse (remote c) (requests c1) of
              Some deleteErr \<Rightarrow>
                if IsNotFound deleteErr
                then map_option (\<lambda>(c', f'). (c', f', None))
                       (completeTaskAttempt c1 f taskRoleName taskIndex True (Some completionStatus))
                else Some (c1, f, Some (DeleteFailed deleteErr))
            | None \<Rightarrow>
               (case getPodResponse (remote c) (requests c2) of
                  Inl getErr \<Rightarrow>
                    if IsNotFound getErr
                    then map_option (\<lambda>(c', f'). (c', f', None))
                           (completeTaskAttempt c2 f taskRoleName taskIndex True (Some completionStatus))
                    else Some (c2, f, Some (GetAfterDeleteFailed getErr))
                | Inr pod \<Rightarrow>
                    if podUID = Pod.UID pod
                    then Some (c2, f, Some (StillExistsAfterDeletion (Pod.DeletionTimestamp pod)))
                    else map_option (\<lambda>(c', f'). (c', f', None))
                           (completeTaskAttempt c2 f taskRoleName taskIndex True (Some completionStatus))))
         \<and> (\<forall>c0. \<exists>c' f' taskStatus'.
               completeTaskAttempt c0 f taskRoleName taskIndex True (Some completionStatus) = Some (c', f') \<and>
               requests c' = requests c0 \<and>
               TaskStatusOf f' taskRoleName taskIndex = Some taskStatus' \<and>
               TaskStatus.State taskStatus' = TaskAttemptCompleted \<and>
               taskCompletionStatus taskStatus' =
                 (if taskCompletionStatus taskStatus = None then Some completionStatus
                  else taskCompletionStatus taskStatus))"
proof
  have g: "getOrCleanupPod c f cm taskRoleName taskIndex False = Some (c, None, None)"
    using assms(1,5,6) by (simp add: getOrCleanupPod_def Let_def)
  have t: "enqueueTaskAttemptCreationTimeoutCheck c f taskRoleName taskIndex True = Some (c, False)"
    using assms(1,2,7)
    by (simp add: enqueueTaskAttemptCreationTimeoutCheck_def enqueueFrameworkTimeoutCheck_def
        CurrentLeftDuration_def IsTimeout_def Let_def)
  define diag where "diag = ''Pod does not appear in the local cache within timeout '' @
              SecToDurationText c (ObjectLocalCacheCreationTimeoutSec (cConfig c)) @
              '', so consider it was deleted and explicitly delete it''"
  have p: "syncTaskPod c f cm taskRoleName taskIndex taskStatus =
      (case deletePod c f taskRoleName taskIndex podUID True False of
         None \<Rightarrow> None
       | Some (c3, Some err) \<Rightarrow> Some (Return (c3, f, Some err))
       | Some (c3, None) \<Rightarrow>
          (case completeTaskAttempt c3 f taskRoleName taskIndex True (Some completionStatus) of
             None \<Rightarrow> None
           | Some (c4, f4) \<Rightarrow> Some (Return (c4, f4, None))))"
    using assms(2,3,4) g t unfolding syncTaskPod_def assms(8) diag_def [symmetric] by simp
  have sR: "syncTaskState c f cm taskRoleName taskIndex = Some r"
    if "syncTaskPod c f cm taskRoleName taskIndex taskStatus = Some (Return r)" for r
    using assms(1,2) that by (simp add: syncTaskState_def Let_def)
  have d: "deletePod c f taskRoleName taskIndex podUID True False =
      (case deleteResponse (remote c) (requests c1) of
         Some deleteErr \<Rightarrow>
           if \<not> IsNotFound deleteErr then Some (c1, Some (DeleteFailed deleteErr)) else Some (c1, None)
       | None \<Rightarrow>
          (case getPodResponse (remote c) (requests c2) of
             Inl getErr \<Rightarrow>
               if \<not> IsNotFound getErr then Some (c2, Some (GetAfterDeleteFailed getErr))
               else Some (c2, None)
           | Inr pod \<Rightarrow>
               if podUID = Pod.UID pod
               then Some (c2, Some (StillExistsAfterDeletion (Pod.DeletionTimestamp pod)))
               else Some (c2, None)))"
    using assms(1) unfolding assms(9,10)
    by (auto simp: deletePod_def Let_def split: option.splits sum.splits)
  show "syncTaskState c f cm taskRoleName taskIndex =
           (case deleteResponse (remote c) (requests c1) of
              Some deleteErr \<Rightarrow>
                if IsNotFound deleteErr
                then map_option (\<lambda>(c', f'). (c', f', None))
                       (completeTaskAttempt c1 f taskRoleName taskIndex True (Some completionStatus))
                else Some (c1, f, Some (DeleteFailed deleteErr))
            | None \<Rightarrow>
               (case getPodResponse (remote c) (requests c2) of
                  Inl getErr \<Rightarrow>
                    if IsNotFound getErr
                    then map_option (\<lambda>(c', f'). (c', f', None))
                           (completeTaskAttempt c2 f taskRoleName taskIndex True (Some completionStatus))
                    else Some (c2, f, Some (GetAfterDeleteFailed getErr))
                | Inr pod \<Rightarrow>
                    if podUID = Pod.UID pod
                    then Some (c2, f, Some (StillExistsAfterDeletion (Pod.DeletionTimestamp pod)))
                    else map_option (\<lambda>(c', f'). (c', f', None))
                           (completeTaskAttempt c2 f taskRoleName taskIndex True (Some completionStatus))))"
  proof -
    from completeTaskAttempt_State [OF assms(1), of c1 True "Some completionStatus"]
    obtain c1' f1' where k1:
      "completeTaskAttempt c1 f taskRoleName taskIndex True (Some completionStatus) = Some (c1', f1')"
      by blast
    from completeTaskAttempt_State [OF assms(1), of c2 True "Some completionStatus"]
    obtain c2' f2' where k2:
      "completeTaskAttempt c2 f taskRoleName taskIndex True (Some completionStatus) = Some (c2', f2')"
      by blast
    show ?thesis
    proof (cases "deleteResponse (remote c) (requests c1)")
      case (Some deleteErr)
      then have "syncTaskPod c f cm taskRoleName taskIndex taskStatus =
          Some (Return (if IsNotFound deleteErr then (c1', f1', None)
                        else (c1, f, Some (DeleteFailed deleteErr))))"
        unfolding p d by (simp add: k1)
      from sR [OF this] Some show ?thesis by (simp add: k1)
    next
      case None
      show ?thesis
      proof (cases "getPodResponse (remote c) (requests c2)")
        case (Inl getErr)
        with None have "syncTaskPod c f cm taskRoleName taskIndex taskStatus =
            Some (Return (if IsNotFound getErr then (c2', f2', None)
                          else (c2, f, Some (GetAfterDeleteFailed getErr))))"
          unfolding p d by (simp add: k2)
        from sR [OF this] None Inl show ?thesis by (simp add: k2)
      next
        case (Inr pod)
        with None have "syncTaskPod c f cm taskRoleName taskIndex taskStatus =
            Some (Return (if podUID = Pod.UID pod
                          then (c2, f, Some (StillExistsAfterDeletion (Pod.DeletionTimestamp pod)))
                          else (c2', f2', None)))"
          unfolding p d by (simp add: k2)
        from sR [OF this] None Inr show ?thesis by (simp add: k2)
      qed
    qed
  qed
  show "\<forall>c0. \<exists>c' f' taskStatus'.
               completeTaskAttempt c0 f taskRoleName taskIndex True (Some completionStatus) = Some (c', f') \<and>
               requests c' = requests c0 \<and>
               TaskStatusOf f' taskRoleName taskIndex = Some taskStatus' \<and>
               TaskStatus.State taskStatus' = TaskAttemptCompleted \<and>
               taskCompletionStatus taskStatus' =
                 (if taskCompletionStatus taskStatus = None then Some completionStatus
                  else taskCompletionStatus taskStatus)"
    using completeTaskAttempt_State [OF assms(1), of _ True "Some completionStatus"] by simp
qed

text \<open>
  The first task of the example has waited 400 seconds for its pod, against a timeout of
  300 (five minutes). With an API server that accepts the delete and no longer has the
  pod, the attempt is completed after the two requests.
\<close>

theorem pod_creation_timeout_deletes_then_completes_witness:
  "TaskStatusOf exampleFramework ''worker'' 0 =
     Some (exampleTask 0 TaskAttemptCreationRequested (Some ''pod-0''))
   \<and> (\<exists>c2 f2 taskStatus2.
        syncTaskState (exampleController None 500) exampleFramework None ''worker'' 0
          = Some (c2, f2, None) \<and>
        requests c2 =
          [PodsDelete ''default'' ''batchstatefulfailed-worker''
             \<lparr>PreconditionsUID = ''pod-0'', GracePeriodSeconds = None, PropagationPolicy = None\<rparr>,
           PodsGet ''default'' ''batchstatefulfailed-worker''] \<and>
        TaskStatusOf f2 ''worker'' 0 = Some taskStatus2 \<and>
        TaskStatus.State taskStatus2 = TaskAttemptCompleted \<and>
        taskCompletionStatus taskStatus2 =
          Some (NewTaskAttemptCompletionStatus CompletionCodePodCreationTimeout
                   ''Pod does not appear in the local cache within timeout 5m0s, so consider it was deleted and explicitly delete it''
                   None))"
proof -
  let ?c = "exampleController None 500"
  let ?ts = "exampleTask 0 TaskAttemptCreationRequested (Some ''pod-0'')"
  let ?cs = "NewTaskAttemptCompletionStatus CompletionCodePodCreationTimeout
                   ''Pod does not appear in the local cache within timeout 5m0s, so consider it was deleted and explicitly delete it''
                   None"
  let ?c2 = "?c\<lparr>requests :=
          [PodsDelete ''default'' ''batchstatefulfailed-worker''
             \<lparr>PreconditionsUID = ''pod-0'', GracePeriodSeconds = None, PropagationPolicy = None\<rparr>,
           PodsGet ''default'' ''batchstatefulfailed-worker'']\<rparr>"
  have ns: "Namespace exampleFramework = ''default''" by (simp add: exampleFramework_def)
  have h: "TaskStatus.State ?ts = TaskAttemptCreationRequested" "\<not> DeletionPending ?ts"
    "PodUID (TaskStatus.AttemptStatus ?ts) = Some ''pod-0''"
    "podLister ?c (Namespace exampleFramework) (PodName (TaskStatus.AttemptStatus ?ts)) = Inl ErrNotFound"
    "IsNotFound ErrNotFound"
    "TaskStatus.TransitionTime ?ts + ObjectLocalCacheCreationTimeoutSec (cConfig ?c) \<le> now ?c"
    by (simp_all add: exampleTask_def exampleController_def IsNotFound_def)
  have cs: "?cs = NewTaskAttemptCompletionStatus CompletionCodePodCreationTimeout
             (''Pod does not appear in the local cache within timeout '' @
              SecToDurationText ?c (ObjectLocalCacheCreationTimeoutSec (cConfig ?c)) @
              '', so consider it was deleted and explicitly delete it'') None"
  proof -
    have "intString 5 = ''5''" "intString 0 = ''0''" by code_simp+
    then show ?thesis by (simp add: exampleController_def)
  qed
  have n: "taskCompletionStatus ?ts = None"
    by (simp add: taskCompletionStatus_def exampleTask_def)
  have r: "deleteResponse (remote ?c) rs = None" "getPodResponse (remote ?c) rs = Inl ErrNotFound" for rs
    by (simp_all add: exampleController_def exampleRemote_def)
  have c2: "?c\<lparr>requests := requests ?c @
                  [PodsDelete (Namespace exampleFramework) (PodName (TaskStatus.AttemptStatus ?ts))
                     \<lparr>PreconditionsUID = ''pod-0'', GracePeriodSeconds = None,
                      PropagationPolicy = None\<rparr>]\<rparr>
             \<lparr>requests := requests (?c\<lparr>requests := requests ?c @
                  [PodsDelete (Namespace exampleFramework) (PodName (TaskStatus.AttemptStatus ?ts))
                     \<lparr>PreconditionsUID = ''pod-0'', GracePeriodSeconds = None,
                      PropagationPolicy = None\<rparr>]\<rparr>) @
                   [PodsGet (Namespace exampleFramework) (PodName (TaskStatus.AttemptStatus ?ts))]\<rparr> = ?c2"
    by (simp add: ns exampleTask_def exampleController_def)
  note T = pod_creation_timeout_deletes_then_completes [OF example_task0 h cs refl refl, of None]
  from T [THEN conjunct2] obtain c' f' taskStatus' where k:
    "completeTaskAttempt ?c2 exampleFramework ''worker'' 0 True (Some ?cs) = Some (c', f')"
    "requests c' = requests ?c2"
    "TaskStatusOf f' ''worker'' 0 = Some taskStatus'"
    "TaskStatus.State taskStatus' = TaskAttemptCompleted"
    "taskCompletionStatus taskStatus' = Some ?cs"
    unfolding n by (metis (full_types))
  from T [THEN conjunct1] have "syncTaskState ?c exampleFramework None ''worker'' 0 = Some (c', f', None)"
    unfolding r c2 by (simp add: IsNotFound_def k(1))
  with k example_task0 show ?thesis by auto
qed

text \<open>
  The same task with an API server that refuses the delete: the request sent carries no
  grace period, the sync returns the error and the task is still
  \<^verbatim>\<open>TaskAttemptCreationRequested\<close>.
\<close>

theorem pod_creation_timeout_delete_refused:
  "TaskStatusOf exampleFramework ''worker'' 0 =
     Some (exampleTask 0 TaskAttemptCreationRequested (Some ''pod-0''))
   \<and> \<not> DeletionPending (exampleTask 0 TaskAttemptCreationRequested (Some ''pod-0''))
   \<and> podLister (exampleController (Some (ErrOther ''unavailable'')) 500) ''default''
        ''batchstatefulfailed-worker'' = Inl ErrNotFound
   \<and> TaskStatus.TransitionTime (exampleTask 0 TaskAttemptCreationRequested (Some ''pod-0'')) +
        ObjectLocalCacheCreationTimeoutSec (cConfig (exampleController (Some (ErrOther ''unavailable'')) 500))
        \<le> now (exampleController (Some (ErrOther ''unavailable'')) 500)
   \<and> (case syncTaskState (exampleController (Some (ErrOther ''unavailable'')) 500) exampleFramework None
              ''worker'' 0 of
         None \<Rightarrow> False
       | Some (c', f', err) \<Rightarrow>
           requests c' =
             [PodsDelete ''default'' ''batchstatefulfailed-worker''
                \<lparr>PreconditionsUID = ''pod-0'', GracePeriodSeconds = None, PropagationPolicy = None\<rparr>] \<and>
           f' = exampleFramework \<and> err = Some (DeleteFailed (ErrOther ''unavailable'')))"
proof (intro conjI)
  show "TaskStatusOf exampleFramework ''worker'' 0 =
     Some (exampleTask 0 TaskAttemptCreationRequested (Some ''pod-0''))"
    by (rule example_task0)
  show "\<not> DeletionPending (exampleTask 0 TaskAttemptCreationRequested (Some ''pod-0''))"
    by (simp add: exampleTask_def)
  show "podLister (exampleController (Some (ErrOther ''unavailable'')) 500) ''default''
        ''batchstatefulfailed-worker'' = Inl ErrNotFound"
    by (simp add: exampleController_def)
  show "TaskStatus.TransitionTime (exampleTask 0 TaskAttemptCreationRequested (Some ''pod-0'')) +
        ObjectLocalCacheCreationTimeoutSec (cConfig (exampleController (Some (ErrOther ''unavailable'')) 500))
        \<le> now (exampleController (Some (ErrOther ''unavailable'')) 500)"
    by (simp add: exampleTask_def exampleController_def)
  show "case syncTaskState (exampleController (Some (ErrOther ''unavailable'')) 500) exampleFramework None
              ''worker'' 0 of
         None \<Rightarrow> False
       | Some (c', f', err) \<Rightarrow>
           requests c' =
             [PodsDelete ''default'' ''batchstatefulfailed-worker''
                \<lparr>PreconditionsUID = ''pod-0'', GracePeriodSeconds = None, PropagationPolicy = None\<rparr>] \<and>
           f' = exampleFramework \<and> err = Some (DeleteFailed (ErrOther ''unavailable''))"
    by code_simp
qed

subsection \<open>The framework state machine: retries\<close>

lemma int32_id: "- 2147483648 \<le> x \<Longrightarrow> x \<le> 2147483647 \<Longrightarrow> int32 x = x"
  by (simp add: int32_def)

lemma int32_wrap: "int32 2147483648 = - 2147483648"
  by (simp add: int32_def)

lemma syncFrameworkRetry_fires:
  assumes "FrameworkStatus.State (Status f) = FrameworkAttemptCompleted"
    and "frameworkCompletionStatus f = Some cs"
    and "retryDecision =
           FrameworkController.ShouldRetry c (FrameworkSpec.RetryPolicy (Spec f))
             (FrameworkStatus.RetryPolicyStatus (Status f)) (Inl cs)
             (FrameworkMinRetryDelaySecForTransientConflictFailed (cConfig c))
             (FrameworkMaxRetryDelaySecForTransientConflictFailed (cConfig c))"
    and "RetryDelaySec (FrameworkStatus.RetryPolicyStatus (Status f)) = None \<longrightarrow>
           RetryDecision.ShouldRetry retryDecision"
    and "ExecutionType (Spec f) = ExecutionStop \<or>
         FrameworkStatus.TransitionTime (Status f) +
           (case RetryDelaySec (FrameworkStatus.RetryPolicyStatus (Status f)) of
              None \<Rightarrow> DelaySec retryDecision | Some d \<Rightarrow> d) \<le> now c"
  shows "syncFrameworkState c f =
           Some (enqueueFrameworkSync c f,
                 f\<lparr>Status :=
                     \<lparr>FrameworkStatus.State = FrameworkAttemptCreationPending,
                      FrameworkStatus.TransitionTime = now c,
                      FrameworkStatus.RetryPolicyStatus =
                        \<lparr>TotalRetriedCount =
                           int32 (TotalRetriedCount (FrameworkStatus.RetryPolicyStatus (Status f)) + 1),
                         AccountableRetriedCount =
                           (if IsAccountable retryDecision
                            then int32 (AccountableRetriedCount (FrameworkStatus.RetryPolicyStatus (Status f)) + 1)
                            else AccountableRetriedCount (FrameworkStatus.RetryPolicyStatus (Status f))),
                         RetryDelaySec = None\<rparr>,
                      FrameworkStatus.AttemptStatus =
                        NewFrameworkAttemptStatus f
                          (int32 (TotalRetriedCount (FrameworkStatus.RetryPolicyStatus (Status f)) + 1))\<rparr>\<rparr>,
                 None)"
proof -
  let ?rps = "FrameworkStatus.RetryPolicyStatus (Status f)"
  define f1 where "f1 = (if RetryDelaySec ?rps = None
                         then setFrameworkRetryDelaySec (Some (DelaySec retryDecision)) f else f)"
  have s1: "FrameworkStatus.State (Status f1) = FrameworkAttemptCompleted"
    "Spec f1 = Spec f" "FrameworkStatus.TransitionTime (Status f1) = FrameworkStatus.TransitionTime (Status f)"
    "Key f1 = Key f"
    using assms(1) by (simp_all add: f1_def setFrameworkRetryDelaySec_def Key_def)
  have d1: "RetryDelaySec (FrameworkStatus.RetryPolicyStatus (Status f1)) =
      Some (case RetryDelaySec ?rps of None \<Rightarrow> DelaySec retryDecision | Some d \<Rightarrow> d)"
    by (cases "RetryDelaySec ?rps") (simp_all add: f1_def setFrameworkRetryDelaySec_def)
  have w: "(if ExecutionType (Spec f1) = ExecutionStop then Some (c, False)
            else enqueueFrameworkRetryDelayTimeoutCheck c f1 True) = Some (c, False)"
    using assms(5) s1 d1
    by (auto simp: enqueueFrameworkRetryDelayTimeoutCheck_def enqueueFrameworkTimeoutCheck_def
        CurrentLeftDuration_def IsTimeout_def Let_def)
  define f2 where "f2 = TransitionFrameworkState (now c) (retryFramework retryDecision f1)
                                FrameworkAttemptCreationPending"
  have k: "Key f2 = Key f"
    by (simp add: f2_def TransitionFrameworkState_def retryFramework_def Let_def Key_def f1_def
        setFrameworkRetryDelaySec_def)
  have r: "syncFrameworkRetry c f = Some (enqueueFrameworkSync c f2, f2, None)"
  proof (cases "RetryDelaySec ?rps")
    case None
    with assms(4) have "RetryDecision.ShouldRetry retryDecision" by simp
    with None assms(1,2,5) show ?thesis
      unfolding f2_def f1_def
      by (auto simp: syncFrameworkRetry_def frameworkCompletionStatus_def Let_def assms(3) [symmetric]
          setFrameworkRetryDelaySec_def enqueueFrameworkRetryDelayTimeoutCheck_def
          enqueueFrameworkTimeoutCheck_def CurrentLeftDuration_def IsTimeout_def)
  next
    case (Some d)
    with assms(1,2,5) show ?thesis
      unfolding f2_def f1_def
      by (auto simp: syncFrameworkRetry_def frameworkCompletionStatus_def Let_def assms(3) [symmetric]
          enqueueFrameworkRetryDelayTimeoutCheck_def
          enqueueFrameworkTimeoutCheck_def CurrentLeftDuration_def IsTimeout_def)
  qed
  have e: "enqueueFrameworkSync c f2 = enqueueFrameworkSync c f"
    by (simp add: enqueueFrameworkSync_def k)
  have n: "NewFrameworkAttemptStatus f1 = NewFrameworkAttemptStatus f"
    by (simp add: fun_eq_iff NewFrameworkAttemptStatus_def f1_def setFrameworkRetryDelaySec_def)
  have f2: "f2 = f\<lparr>Status :=
                     \<lparr>FrameworkStatus.State = FrameworkAttemptCreationPending,
                      FrameworkStatus.TransitionTime = now c,
                      FrameworkStatus.RetryPolicyStatus =
                        \<lparr>TotalRetriedCount = int32 (TotalRetriedCount ?rps + 1),
                         AccountableRetriedCount =
                           (if IsAccountable retryDecision
                            then int32 (AccountableRetriedCount ?rps + 1)
                            else AccountableRetriedCount ?rps),
                         RetryDelaySec = None\<rparr>,
                      FrameworkStatus.AttemptStatus =
                        NewFrameworkAttemptStatus f (int32 (TotalRetriedCount ?rps + 1))\<rparr>\<rparr>"
    unfolding f2_def
    using assms(1)
    by (simp add: TransitionFrameworkState_def retryFramework_def Let_def n)
      (simp add: f1_def setFrameworkRetryDelaySec_def)
  have "syncFrameworkState c f = syncFrameworkRetry c f"
    using assms(1) by (simp add: syncFrameworkState_def)
  with r e f2 show ?thesis by simp
qed

lemma syncFrameworkRetry_only_fires:
  assumes "FrameworkStatus.State (Status f) = FrameworkAttemptCompleted"
    and "frameworkCompletionStatus f = Some cs"
    and "retryDecision =
           FrameworkController.ShouldRetry c (FrameworkSpec.RetryPolicy (Spec f))
             (FrameworkStatus.RetryPolicyStatus (Status f)) (Inl cs)
             (FrameworkMinRetryDelaySecForTransientConflictFailed (cConfig c))
             (FrameworkMaxRetryDelaySecForTransientConflictFailed (cConfig c))"
    and "\<not> ((RetryDelaySec (FrameworkStatus.RetryPolicyStatus (Status f)) = None \<longrightarrow>
               RetryDecision.ShouldRetry retryDecision) \<and>
            (ExecutionType (Spec f) = ExecutionStop \<or>
             FrameworkStatus.TransitionTime (Status f) +
               (case RetryDelaySec (FrameworkStatus.RetryPolicyStatus (Status f)) of
                  None \<Rightarrow> DelaySec retryDecision | Some d \<Rightarrow> d) \<le> now c))"
  shows "\<exists>c' f'. syncFrameworkState c f = Some (c', f', None) \<and>
           FrameworkStatus.State (Status f') \<noteq> FrameworkAttemptCreationPending \<and>
           FrameworkStatus.AttemptStatus (Status f') = FrameworkStatus.AttemptStatus (Status f) \<and>
           TotalRetriedCount (FrameworkStatus.RetryPolicyStatus (Status f')) =
             TotalRetriedCount (FrameworkStatus.RetryPolicyStatus (Status f)) \<and>
           AccountableRetriedCount (FrameworkStatus.RetryPolicyStatus (Status f')) =
             AccountableRetriedCount (FrameworkStatus.RetryPolicyStatus (Status f))"
proof -
  have s: "syncFrameworkState c f = syncFrameworkRetry c f"
    using assms(1) by (simp add: syncFrameworkState_def)
  show ?thesis
  proof (cases "RetryDelaySec (FrameworkStatus.RetryPolicyStatus (Status f))")
    case None
    show ?thesis
    proof (cases "RetryDecision.ShouldRetry retryDecision")
      case True
      with None assms(1,2,4) show ?thesis
        unfolding s
        by (auto simp: syncFrameworkRetry_def frameworkCompletionStatus_def Let_def assms(3) [symmetric]
            setFrameworkRetryDelaySec_def enqueueFrameworkRetryDelayTimeoutCheck_def
            enqueueFrameworkTimeoutCheck_def CurrentLeftDuration_def IsTimeout_def)
    next
      case False
      with None assms(1,2) show ?thesis
        unfolding s
        by (auto simp: syncFrameworkRetry_def frameworkCompletionStatus_def Let_def assms(3) [symmetric]
            TransitionFrameworkState_def)
    qed
  next
    case (Some d)
    with assms(1,2,4) show ?thesis
      unfolding s
      by (auto simp: syncFrameworkRetry_def frameworkCompletionStatus_def Let_def assms(3) [symmetric]
          enqueueFrameworkRetryDelayTimeoutCheck_def
          enqueueFrameworkTimeoutCheck_def CurrentLeftDuration_def IsTimeout_def)
  qed
qed

text \<open>
  C6. A framework in \<^verbatim>\<open>FrameworkAttemptCompleted\<close> (its attempt has a CompletionStatus) is
  retried by \<^verbatim>\<open>syncFrameworkState\<close> exactly when a retry is scheduled (\<^verbatim>\<open>RetryDelaySec\<close> is
  set, or it is nil and the retry decision is to retry) and is due (the execution type
  is \<^verbatim>\<open>Stop\<close>, or the delay has expired). The sync then returns with
  \<^verbatim>\<open>TotalRetriedCount\<close> incremented as an \<^verbatim>\<open>int32\<close>: one more below 2147483647, and
  -2147483648 from 2147483647; \<^verbatim>\<open>AccountableRetriedCount\<close> incremented in the same way if
  and only if the decision is accountable; \<^verbatim>\<open>RetryDelaySec\<close> nil; a fresh attempt status
  whose id is the new \<^verbatim>\<open>TotalRetriedCount\<close>; and the state
  \<^verbatim>\<open>FrameworkAttemptCreationPending\<close>. The rest of the framework is as before and one sync
  is enqueued. Otherwise the sync returns with the counters and the attempt status
  unchanged.
\<close>

theorem framework_retry_update:
  assumes "FrameworkStatus.State (Status f) = FrameworkAttemptCompleted"
    and "frameworkCompletionStatus f = Some cs"
    and "retryDecision =
           FrameworkController.ShouldRetry c (FrameworkSpec.RetryPolicy (Spec f))
             (FrameworkStatus.RetryPolicyStatus (Status f)) (Inl cs)
             (FrameworkMinRetryDelaySecForTransientConflictFailed (cConfig c))
             (FrameworkMaxRetryDelaySecForTransientConflictFailed (cConfig c))"
    and "fires = ((RetryDelaySec (FrameworkStatus.RetryPolicyStatus (Status f)) = None \<longrightarrow>
                     RetryDecision.ShouldRetry retryDecision) \<and>
                  (ExecutionType (Spec f) = ExecutionStop \<or>
                   FrameworkStatus.TransitionTime (Status f) +
                     (case RetryDelaySec (FrameworkStatus.RetryPolicyStatus (Status f)) of
                        None \<Rightarrow> DelaySec retryDecision | Some d \<Rightarrow> d) \<le> now c))"
  shows "\<exists>c' f'. syncFrameworkState c f = Some (c', f', None) \<and>
           (if fires then
              TotalRetriedCount (FrameworkStatus.RetryPolicyStatus (Status f')) =
                int32 (TotalRetriedCount (FrameworkStatus.RetryPolicyStatus (Status f)) + 1) \<and>
              AccountableRetriedCount (FrameworkStatus.RetryPolicyStatus (Status f')) =
                (if IsAccountable retryDecision
                 then int32 (AccountableRetriedCount (FrameworkStatus.RetryPolicyStatus (Status f)) + 1)
                 else AccountableRetriedCount (FrameworkStatus.RetryPolicyStatus (Status f))) \<and>
              (- 2147483648 \<le> TotalRetriedCount (FrameworkStatus.RetryPolicyStatus (Status f)) \<and>
               TotalRetriedCount (FrameworkStatus.RetryPolicyStatus (Status f)) < 2147483647 \<longrightarrow>
                 TotalRetriedCount (FrameworkStatus.RetryPolicyStatus (Status f')) =
                   TotalRetriedCount (FrameworkStatus.RetryPolicyStatus (Status f)) + 1) \<and>
              (TotalRetriedCount (FrameworkStatus.RetryPolicyStatus (Status f)) = 2147483647 \<longrightarrow>
                 TotalRetriedCount (FrameworkStatus.RetryPolicyStatus (Status f')) = - 2147483648) \<and>
              (IsAccountable retryDecision \<and>
               - 2147483648 \<le> AccountableRetriedCount (FrameworkStatus.RetryPolicyStatus (Status f)) \<and>
               AccountableRetriedCount (FrameworkStatus.RetryPolicyStatus (Status f)) < 2147483647 \<longrightarrow>
                 AccountableRetriedCount (FrameworkStatus.RetryPolicyStatus (Status f')) =
                   AccountableRetriedCount (FrameworkStatus.RetryPolicyStatus (Status f)) + 1) \<and>
              RetryDelaySec (FrameworkStatus.RetryPolicyStatus (Status f')) = None \<and>
              FrameworkStatus.AttemptStatus (Status f') =
                NewFrameworkAttemptStatus f
                  (int32 (TotalRetriedCount (FrameworkStatus.RetryPolicyStatus (Status f)) + 1)) \<and>
              FrameworkAttemptStatus.ID (FrameworkStatus.AttemptStatus (Status f')) =
                TotalRetriedCount (FrameworkStatus.RetryPolicyStatus (Status f')) \<and>
              frameworkCompletionStatus f' = None \<and>
              FrameworkStatus.State (Status f') = FrameworkAttemptCreationPending \<and>
              FrameworkStatus.TransitionTime (Status f') = now c \<and>
              f' = f\<lparr>Status := Status f'\<rparr> \<and>
              c' = enqueueFrameworkSync c f
            else
              FrameworkStatus.State (Status f') \<noteq> FrameworkAttemptCreationPending \<and>
              FrameworkStatus.AttemptStatus (Status f') = FrameworkStatus.AttemptStatus (Status f) \<and>
              TotalRetriedCount (FrameworkStatus.RetryPolicyStatus (Status f')) =
                TotalRetriedCount (FrameworkStatus.RetryPolicyStatus (Status f)) \<and>
              AccountableRetriedCount (FrameworkStatus.RetryPolicyStatus (Status f')) =
                AccountableRetriedCount (FrameworkStatus.RetryPolicyStatus (Status f)))"
proof (cases fires)
  case True
  then have a: "RetryDelaySec (FrameworkStatus.RetryPolicyStatus (Status f)) = None \<longrightarrow>
                     RetryDecision.ShouldRetry retryDecision"
    and b: "ExecutionType (Spec f) = ExecutionStop \<or>
                   FrameworkStatus.TransitionTime (Status f) +
                     (case RetryDelaySec (FrameworkStatus.RetryPolicyStatus (Status f)) of
                        None \<Rightarrow> DelaySec retryDecision | Some d \<Rightarrow> d) \<le> now c"
    unfolding assms(4) by blast+
  from syncFrameworkRetry_fires [OF assms(1,2,3) a b] True show ?thesis
    by (simp add: NewFrameworkAttemptStatus_def frameworkCompletionStatus_def int32_id int32_wrap)
next
  case False
  then have "\<not> ((RetryDelaySec (FrameworkStatus.RetryPolicyStatus (Status f)) = None \<longrightarrow>
               RetryDecision.ShouldRetry retryDecision) \<and>
            (ExecutionType (Spec f) = ExecutionStop \<or>
             FrameworkStatus.TransitionTime (Status f) +
               (case RetryDelaySec (FrameworkStatus.RetryPolicyStatus (Status f)) of
                  None \<Rightarrow> DelaySec retryDecision | Some d \<Rightarrow> d) \<le> now c))"
    unfolding assms(4) .
  from syncFrameworkRetry_only_fires [OF assms(1,2,3) this] False show ?thesis
    by auto
qed

lemma exampleCompleted_facts:
  "FrameworkStatus.State (Status exampleCompletedFramework) = FrameworkAttemptCompleted"
  "frameworkCompletionStatus exampleCompletedFramework =
     Some (NewFailedTaskTriggeredCompletionStatus (failedTask 0 200) ''worker'' 1 1)"
  "FrameworkStatus.RetryPolicyStatus (Status exampleCompletedFramework) =
     \<lparr>TotalRetriedCount = 0, AccountableRetriedCount = 0, RetryDelaySec = None\<rparr>"
  "FrameworkStatus.TransitionTime (Status exampleCompletedFramework) = 250"
  "ExecutionType (Spec exampleCompletedFramework) = ExecutionStart"
  by (simp_all add: exampleCompletedFramework_def exampleFailedFramework_def setTaskRoleStatuses_def
      exampleFramework_def exampleStatus_def exampleSpec_def frameworkCompletionStatus_def)

theorem framework_retry_update_witness:
  "FrameworkStatus.State (Status exampleCompletedFramework) = FrameworkAttemptCompleted
   \<and> (\<exists>c' f'. syncFrameworkState (exampleRetryingController 400) exampleCompletedFramework
                  = Some (c', f', None) \<and>
        FrameworkStatus.RetryPolicyStatus (Status f') =
          \<lparr>TotalRetriedCount = 1, AccountableRetriedCount = 1, RetryDelaySec = None\<rparr> \<and>
        FrameworkAttemptStatus.ID (FrameworkStatus.AttemptStatus (Status f')) = 1 \<and>
        frameworkCompletionStatus f' = None \<and>
        FrameworkStatus.State (Status f') = FrameworkAttemptCreationPending)
   \<and> (\<exists>c' f'. syncFrameworkState (exampleRetryingController 300) exampleCompletedFramework
                  = Some (c', f', None) \<and>
        TotalRetriedCount (FrameworkStatus.RetryPolicyStatus (Status f')) = 0 \<and>
        FrameworkStatus.State (Status f') \<noteq> FrameworkAttemptCreationPending)"
proof -
  have rd: "FrameworkController.ShouldRetry (exampleRetryingController t) p s x a b =
      \<lparr>RetryDecision.ShouldRetry = True, IsAccountable = True, DelaySec = 60, Reason = ''fancy retry''\<rparr>"
    "now (exampleRetryingController t) = t" for t p s x a b
    by (simp_all add: exampleRetryingController_def exampleController_def)
  have eq: "r = \<lparr>TotalRetriedCount = 1, AccountableRetriedCount = 1, RetryDelaySec = None\<rparr>"
    if "TotalRetriedCount r = 1" "AccountableRetriedCount r = 1" "RetryDelaySec r = None"
    for r :: RetryPolicyStatus
    using that by (cases r) simp
  from framework_retry_update [OF exampleCompleted_facts(1,2) refl refl, of "exampleRetryingController 400"]
  have one: "\<exists>c' f'. syncFrameworkState (exampleRetryingController 400) exampleCompletedFramework
                  = Some (c', f', None) \<and>
        FrameworkStatus.RetryPolicyStatus (Status f') =
          \<lparr>TotalRetriedCount = 1, AccountableRetriedCount = 1, RetryDelaySec = None\<rparr> \<and>
        FrameworkAttemptStatus.ID (FrameworkStatus.AttemptStatus (Status f')) = 1 \<and>
        frameworkCompletionStatus f' = None \<and>
        FrameworkStatus.State (Status f') = FrameworkAttemptCreationPending"
    by (simp add: exampleCompleted_facts rd int32_id) (auto intro: eq)
  from framework_retry_update [OF exampleCompleted_facts(1,2) refl refl, of "exampleRetryingController 300"]
  have two: "\<exists>c' f'. syncFrameworkState (exampleRetryingController 300) exampleCompletedFramework
                  = Some (c', f', None) \<and>
        TotalRetriedCount (FrameworkStatus.RetryPolicyStatus (Status f')) = 0 \<and>
        FrameworkStatus.State (Status f') \<noteq> FrameworkAttemptCreationPending"
    by (simp add: exampleCompleted_facts rd) auto
  from one two exampleCompleted_facts(1) show ?thesis by blast
qed

text \<open>
  The same framework at its 2147483647th retry: the counters and the id of the new attempt
  are -2147483648, not 2147483648.
\<close>

theorem framework_retry_wraps_counters:
  "FrameworkStatus.State (Status exampleLastRetryFramework) = FrameworkAttemptCompleted
   \<and> TotalRetriedCount (FrameworkStatus.RetryPolicyStatus (Status exampleLastRetryFramework)) = 2147483647
   \<and> (case syncFrameworkState (exampleRetryingController 400) exampleLastRetryFramework of
         None \<Rightarrow> False
       | Some (c', f', err) \<Rightarrow>
           err = None \<and>
           FrameworkStatus.State (Status f') = FrameworkAttemptCreationPending \<and>
           FrameworkStatus.RetryPolicyStatus (Status f') =
             \<lparr>TotalRetriedCount = - 2147483648, AccountableRetriedCount = - 2147483648,
              RetryDelaySec = None\<rparr> \<and>
           FrameworkAttemptStatus.ID (FrameworkStatus.AttemptStatus (Status f')) = - 2147483648 \<and>
           TotalRetriedCount (FrameworkStatus.RetryPolicyStatus (Status f')) \<noteq>
             TotalRetriedCount (FrameworkStatus.RetryPolicyStatus (Status exampleLastRetryFramework)) + 1)"
  by code_simp

subsection \<open>The framework state machine: a stopped framework\<close>

lemma Index_setters [simp]:
  "Index (setTaskCompletionStatus cs ts) = Index ts"
  "Index (setPodFields pod ts) = Index ts"
  "Index (setPodCreated pod ts) = Index ts"
  "Index (setTaskRetryDelaySec d ts) = Index ts"
  "Index (retryTask f n i rd ts) = Index ts"
  by (simp_all add: setTaskCompletionStatus_def setPodFields_def setPodCreated_def
      setTaskRetryDelaySec_def retryTask_def Let_def)

lemma tasksUpdated_TransitionTaskState:
  "TransitionTaskState t f1 n i dst = Some f' \<Longrightarrow> tasksUpdated f f1 \<Longrightarrow> tasksUpdated f f'"
  by (auto simp: TransitionTaskState_def tasksUpdated_updTaskStatus' split: option.splits)

lemma tasksUpdated_completeTaskAttempt:
  assumes "completeTaskAttempt c f1 n i force cs = Some (c', f')" and "tasksUpdated f f1"
  shows "tasksUpdated f f'"
proof -
  from assms(1) obtain ts where "TaskStatusOf f1 n i = Some ts"
    by (auto simp: completeTaskAttempt_def split: option.splits)
  from completeTaskAttempt_Some [OF this, of c force cs] assms(1) have "tasksUpdated f1 f'" by auto
  with assms(2) show ?thesis by (rule tasksUpdated_trans)
qed

lemma State_tasksUpdated:
  assumes "tasksUpdated f f'"
  shows "FrameworkStatus.State (Status f') = FrameworkStatus.State (Status f)"
    and "IsCompleting f' = IsCompleting f" and "Spec f' = Spec f"
proof -
  from assms have e: "f' = setTaskRoleStatuses (FTaskRoleStatuses f') f" by (simp add: tasksUpdated_def)
  show s: "FrameworkStatus.State (Status f') = FrameworkStatus.State (Status f)"
    by (subst e) (simp add: setTaskRoleStatuses_def)
  show "IsCompleting f' = IsCompleting f" by (simp add: IsCompleting_def s)
  show "Spec f' = Spec f" by (subst e) (simp add: setTaskRoleStatuses_def)
qed

lemma tu_upd [simp]:
  "tasksUpdated f f1 \<Longrightarrow> (\<forall>ts. Index (g ts) = Index ts) \<Longrightarrow> tasksUpdated f (updTaskStatus n i g f1)"
  by (simp add: tasksUpdated_updTaskStatus')

lemma TransitionTaskState_eq:
  "TransitionTaskState t f1 n i dst = Some f' \<Longrightarrow> f' = updTaskStatus n i (transitionTask t dst) f1"
  by (auto simp: TransitionTaskState_def split: option.splits)

lemma completeTaskAttempt_frame:
  "completeTaskAttempt c f1 n i force cs = Some (c', f') \<Longrightarrow> tasksUpdated f1 f'"
  using tasksUpdated_completeTaskAttempt [of c f1 n i force cs c' f' f1] by simp

lemma syncTaskPod_absent_frame:
  assumes "syncTaskPod c f cm n i ts = Some r"
    and "getOrCleanupPod c f cm n i False = Some (c1, None, None)"
  shows "case r of Return (c', f', e) \<Rightarrow> tasksUpdated f f' | Continue (c', f') \<Rightarrow> tasksUpdated f f'"
  using assms unfolding syncTaskPod_def
  by (auto split: option.splits if_splits prod.splits dest: completeTaskAttempt_frame)

lemma syncTaskPod_deleting_frame:
  assumes "syncTaskPod c f cm n i ts = Some r"
    and "getOrCleanupPod c f cm n i False = Some (c1, Some pod, None)"
    and "Pod.DeletionTimestamp pod \<noteq> None"
  shows "case r of Return (c', f', e) \<Rightarrow> tasksUpdated f f' | Continue (c', f') \<Rightarrow> tasksUpdated f f'"
  using assms unfolding syncTaskPod_def Let_def
  by (auto split: option.splits if_splits prod.splits dest!: TransitionTaskState_eq)

lemma syncTaskPod_present_frame:
  assumes "syncTaskPod c f cm n i ts = Some r"
    and "getOrCleanupPod c f cm n i False = Some (c1, Some pod, None)"
    and "Pod.DeletionTimestamp pod = None"
  shows "case r of Return (c', f', e) \<Rightarrow> tasksUpdated f f' | Continue (c', f') \<Rightarrow> tasksUpdated f f'"
proof -
  define step1 where "step1 = (if TaskStatus.State ts = TaskAttemptDeletionPending then
                     (case PodUID (TaskStatus.AttemptStatus ts) of
                        None \<Rightarrow> None
                      | Some podUID \<Rightarrow>
                         (case deletePod c1 f n i podUID False False of
                            None \<Rightarrow> None
                          | Some (c2, Some err) \<Rightarrow> Some (Return (c2, f, Some err))
                          | Some (c2, None) \<Rightarrow>
                             (case TransitionTaskState (now c) f n i
                                     TaskAttemptDeletionRequested of
                                None \<Rightarrow> None
                              | Some f2 \<Rightarrow> Some (Continue (c2, f2, TaskAttemptDeletionRequested)))))
                   else Some (Continue (c1, f, TaskStatus.State ts)))"
  have s1: "case x of Return (c', f', e) \<Rightarrow> tasksUpdated f f' | Continue (c', f', st) \<Rightarrow> tasksUpdated f f'"
    if "step1 = Some x" for x
    using that unfolding step1_def
    by (auto split: option.splits if_splits prod.splits dest!: TransitionTaskState_eq)
  from assms have main: "(case step1 of
               None \<Rightarrow> None
             | Some (Return r) \<Rightarrow> Some (Return r)
             | Some (Continue (c2, f2, state2)) \<Rightarrow>
                 if state2 = TaskAttemptDeletionRequested then Some (Return (c2, f2, None))
                 else
                   (case (if state2 = TaskAttemptCreationRequested
                          then TransitionTaskState (now c) f2 n i TaskAttemptPreparing
                          else Some f2) of
                      None \<Rightarrow> None
                    | Some f3 \<Rightarrow>
                       (let f4 = updTaskStatus n i (setPodFields pod) f3 in
                        case Phase pod of
                          PodUnknown \<Rightarrow> Some (Continue (c2, f4))
                        | PodPending \<Rightarrow>
                           (case TransitionTaskState (now c) f4 n i TaskAttemptPreparing of
                              None \<Rightarrow> None
                            | Some f5 \<Rightarrow> Some (Continue (c2, f5)))
                        | PodRunning \<Rightarrow>
                           (case TransitionTaskState (now c) f4 n i TaskAttemptRunning of
                              None \<Rightarrow> None
                            | Some f5 \<Rightarrow> Some (Continue (c2, f5)))
                        | PodSucceeded \<Rightarrow>
                           (case completeTaskAttempt c2 f4 n i False
                                   (Some (NewTaskAttemptCompletionStatus CompletionCodeSucceeded
                                            ''Pod succeeded'' (Some (Capture pod)))) of
                              None \<Rightarrow> None
                            | Some (c5, f5) \<Rightarrow> Some (Return (c5, f5, None)))
                        | PodFailed \<Rightarrow>
                           (case MatchCompletionCodeInfos c pod of
                              (code, diagnostics) \<Rightarrow>
                               (case completeTaskAttempt c2 f4 n i False
                                       (Some \<lparr>Code = code, Diagnostics = ''Pod failed: '' @ diagnostics,
                                              Pod = Some (Capture pod)\<rparr>) of
                                  None \<Rightarrow> None
                                | Some (c5, f5) \<Rightarrow> Some (Return (c5, f5, None))))
                        | PodPhaseOther x \<Rightarrow>
                            Some (Return (c2, f4, Some (UnrecognizedPodPhase (PodPhaseOther x))))))) = Some r"
    unfolding syncTaskPod_def step1_def by simp
  then show ?thesis
  proof (cases step1)
    case None
    with main show ?thesis by simp
  next
    case (Some x)
    note sx = s1 [OF Some]
    show ?thesis
    proof (cases x)
      case (Return y)
      with Some sx main show ?thesis by auto
    next
      case (Continue y)
      obtain c2 f2 state2 where y: "y = (c2, f2, state2)" by (cases y)
      with Continue sx have u2: "tasksUpdated f f2" by simp
      define f3o where "f3o = (if state2 = TaskAttemptCreationRequested
                          then TransitionTaskState (now c) f2 n i TaskAttemptPreparing
                          else Some f2)"
      have u3: "tasksUpdated f f3" if "f3o = Some f3" for f3
        using that u2 unfolding f3o_def
        by (auto split: if_splits dest!: TransitionTaskState_eq)
      show ?thesis
      proof (cases "state2 = TaskAttemptDeletionRequested")
        case True
        with Some Continue y u2 main show ?thesis by auto
      next
        case False
        show ?thesis
        proof (cases f3o)
          case None
          with Some Continue y False main show ?thesis by (simp add: f3o_def)
        next
          case f3: (Some f3)
          have u4: "tasksUpdated f (updTaskStatus n i (setPodFields pod) f3)"
            using u3 [OF f3] by simp
          from Some Continue y False f3 main
          have "(case Phase pod of
                          PodUnknown \<Rightarrow> Some (Continue (c2, updTaskStatus n i (setPodFields pod) f3))
                        | PodPending \<Rightarrow>
                           (case TransitionTaskState (now c) (updTaskStatus n i (setPodFields pod) f3) n i TaskAttemptPreparing of
                              None \<Rightarrow> None
                            | Some f5 \<Rightarrow> Some (Continue (c2, f5)))
                        | PodRunning \<Rightarrow>
                           (case TransitionTaskState (now c) (updTaskStatus n i (setPodFields pod) f3) n i TaskAttemptRunning of
                              None \<Rightarrow> None
                            | Some f5 \<Rightarrow> Some (Continue (c2, f5)))
                        | PodSucceeded \<Rightarrow>
                           (case completeTaskAttempt c2 (updTaskStatus n i (setPodFields pod) f3) n i False
                                   (Some (NewTaskAttemptCompletionStatus CompletionCodeSucceeded
                                            ''Pod succeeded'' (Some (Capture pod)))) of
                              None \<Rightarrow> None
                            | Some (c5, f5) \<Rightarrow> Some (Return (c5, f5, None)))
                        | PodFailed \<Rightarrow>
                           (case MatchCompletionCodeInfos c pod of
                              (code, diagnostics) \<Rightarrow>
                               (case completeTaskAttempt c2 (updTaskStatus n i (setPodFields pod) f3) n i False
                                       (Some \<lparr>Code = code, Diagnostics = ''Pod failed: '' @ diagnostics,
                                              Pod = Some (Capture pod)\<rparr>) of
                                  None \<Rightarrow> None
                                | Some (c5, f5) \<Rightarrow> Some (Return (c5, f5, None))))
                        | PodPhaseOther x \<Rightarrow>
                            Some (Return (c2, updTaskStatus n i (setPodFields pod) f3,
                                    Some (UnrecognizedPodPhase (PodPhaseOther x))))) = Some r"
            by (simp add: f3o_def [symmetric] Let_def)
          with u4 show ?thesis
            by (cases "Phase pod")
              (auto split: option.splits prod.splits
                dest: tasksUpdated_TransitionTaskState tasksUpdated_completeTaskAttempt)
        qed
      qed
    qed
  qed
qed

lemma syncTaskPod_frame:
  assumes "syncTaskPod c f cm n i ts = Some r"
  shows "case r of Return (c', f', e) \<Rightarrow> tasksUpdated f f' | Continue (c', f') \<Rightarrow> tasksUpdated f f'"
proof (cases "getOrCleanupPod c f cm n i False")
  case None
  with assms show ?thesis by (simp add: syncTaskPod_def)
next
  case (Some x)
  obtain c1 pod err where x: "x = (c1, pod, err)" by (cases x)
  show ?thesis
  proof (cases err)
    case e: (Some e)
    with assms Some x show ?thesis by (cases pod) (simp_all add: syncTaskPod_def, auto)
  next
    case None
    show ?thesis
    proof (cases pod)
      case p: None
      from syncTaskPod_absent_frame [OF assms] Some x None p show ?thesis by simp
    next
      case p: (Some p)
      show ?thesis
      proof (cases "Pod.DeletionTimestamp p = None")
        case True
        from syncTaskPod_present_frame [OF assms _ True] Some x None p show ?thesis by simp
      next
        case False
        from syncTaskPod_deleting_frame [OF assms _ False] Some x None p show ?thesis by simp
      qed
    qed
  qed
qed

lemma syncTaskRetry_frame:
  assumes "syncTaskRetry c f spec n i ts = Some r"
  shows "case r of Return (c', f', e) \<Rightarrow> tasksUpdated f f' | Continue (c', f') \<Rightarrow> tasksUpdated f f'"
  using assms unfolding syncTaskRetry_def Let_def
  by (auto split: option.splits if_splits prod.splits dest!: TransitionTaskState_eq)

lemma syncTaskState_frame:
  assumes "IsCompleting f" and "syncTaskState c f cm n i = Some (c', f', e)"
  shows "tasksUpdated f f'"
proof -
  from assms(2) obtain ts where ts: "TaskStatusOf f n i = Some ts"
    by (auto simp: syncTaskState_def Let_def split: option.splits)
  show ?thesis
  proof (cases "TaskStatus.State ts = TaskCompleted")
    case True
    with assms(2) ts show ?thesis by (simp add: syncTaskState_def Let_def)
  next
    case False
    define p where "p = (if TaskStatus.State ts \<noteq> TaskAttemptCompleted
                   then syncTaskPod c f cm n i ts else Some (Continue (c, f)))"
    have pf: "case r of Return (c', f', e) \<Rightarrow> tasksUpdated f f' | Continue (c', f') \<Rightarrow> tasksUpdated f f'"
      if "p = Some r" for r
      using that syncTaskPod_frame [of c f cm n i ts r] by (auto simp: p_def split: if_splits)
    from assms(2) ts False have main: "(case p of
               None \<Rightarrow> None
             | Some (Return r) \<Rightarrow> Some r
             | Some (Continue (c1, f1)) \<Rightarrow>
                (case TaskStatusOf f1 n i of
                   None \<Rightarrow> None
                 | Some taskStatus1 \<Rightarrow>
                     if TaskStatus.State taskStatus1 = TaskAttemptPreparing \<or>
                        TaskStatus.State taskStatus1 = TaskAttemptRunning then
                       (if DeletionPending taskStatus1 then
                          (case completeTaskAttempt c1 f1 n i False
                                  (Some (NewTaskAttemptCompletionStatus CompletionCodeDeleteTaskRequested
                                           ''User has requested to delete the Task by Framework ScaleDown''
                                           None)) of
                             None \<Rightarrow> None
                           | Some (c2, f2) \<Rightarrow> Some (c2, f2, None))
                        else Some (c1, f1, None))
                     else
                       (case (if TaskStatus.State taskStatus1 = TaskAttemptCompleted
                              then syncTaskRetry c1 f1 (GetTaskRoleSpec f n) n i taskStatus1
                              else Some (Continue (c1, f1))) of
                          None \<Rightarrow> None
                        | Some (Return r) \<Rightarrow> Some r
                        | Some (Continue (c2, f2)) \<Rightarrow>
                           (case TaskStatusOf f2 n i of
                              None \<Rightarrow> None
                            | Some taskStatus2 \<Rightarrow>
                                if TaskStatus.State taskStatus2 = TaskAttemptCreationPending then
                                  syncTaskCreate c2 f2 cm (GetTaskRoleSpec f n) n i taskStatus2
                                else if TaskStatus.State taskStatus2 = TaskCompleted then
                                  syncTaskCompleted c2 f2 (GetTaskRoleSpec f n) n i taskStatus2
                                else None)))) = Some (c', f', e)"
      unfolding syncTaskState_def Let_def p_def by simp
    show ?thesis
    proof (cases p)
      case None
      with main show ?thesis by simp
    next
      case (Some r)
      note pr = pf [OF Some]
      show ?thesis
      proof (cases r)
        case (Return y)
        with Some main pr show ?thesis by auto
      next
        case (Continue y)
        obtain c1 f1 where y: "y = (c1, f1)" by (cases y)
        with Continue pr have u1: "tasksUpdated f f1" by simp
        from main Some Continue y obtain ts1 where ts1: "TaskStatusOf f1 n i = Some ts1"
          by (auto split: option.splits)
        show ?thesis
        proof (cases "TaskStatus.State ts1 = TaskAttemptPreparing \<or> TaskStatus.State ts1 = TaskAttemptRunning")
          case True
          with main Some Continue y ts1 u1 show ?thesis
            by (auto split: option.splits if_splits dest: tasksUpdated_completeTaskAttempt)
        next
          case nr: False
          define q where "q = (if TaskStatus.State ts1 = TaskAttemptCompleted
                              then syncTaskRetry c1 f1 (GetTaskRoleSpec f n) n i ts1
                              else Some (Continue (c1, f1)))"
          have qf: "case r of Return (c', f', e) \<Rightarrow> tasksUpdated f1 f' | Continue (c', f') \<Rightarrow> tasksUpdated f1 f'"
            if "q = Some r" for r
            using that syncTaskRetry_frame [of c1 f1 "GetTaskRoleSpec f n" n i ts1 r]
            by (auto simp: q_def split: if_splits)
          from main Some Continue y ts1 nr have main2: "(case q of
                          None \<Rightarrow> None
                        | Some (Return r) \<Rightarrow> Some r
                        | Some (Continue (c2, f2)) \<Rightarrow>
                           (case TaskStatusOf f2 n i of
                              None \<Rightarrow> None
                            | Some taskStatus2 \<Rightarrow>
                                if TaskStatus.State taskStatus2 = TaskAttemptCreationPending then
                                  syncTaskCreate c2 f2 cm (GetTaskRoleSpec f n) n i taskStatus2
                                else if TaskStatus.State taskStatus2 = TaskCompleted then
                                  syncTaskCompleted c2 f2 (GetTaskRoleSpec f n) n i taskStatus2
                                else None)) = Some (c', f', e)"
            unfolding q_def by simp
          show ?thesis
          proof (cases q)
            case None
            with main2 show ?thesis by simp
          next
            case q: (Some r2)
            note qr = qf [OF q]
            show ?thesis
            proof (cases r2)
              case (Return z)
              with q main2 qr u1 show ?thesis by (auto intro: tasksUpdated_trans)
            next
              case c2: (Continue z)
              obtain c2 f2 where z: "z = (c2, f2)" by (cases z)
              with c2 qr u1 have u2: "tasksUpdated f f2" by (auto intro: tasksUpdated_trans)
              then have "IsCompleting f2" using assms(1) by (simp add: State_tasksUpdated)
              with main2 q c2 z have "f' = f2"
                by (auto simp: syncTaskCreate_def syncTaskCompleted_def split: option.splits if_splits)
              with u2 show ?thesis by simp
            qed
          qed
        qed
      qed
    qed
  qed
qed

lemma syncTaskAt_frame:
  assumes "IsCompleting f" and "syncTaskAt c f cm ri ti errs = Some (c', f', errs')"
  shows "tasksUpdated f f'"
  using assms(2) syncTaskState_frame [OF assms(1)]
  by (auto simp: syncTaskAt_def split: option.splits prod.splits)

lemma syncTasks_frame:
  "IsCompleting f \<Longrightarrow> syncTasks c f cm ri tis errs = Some (c', f', errs') \<Longrightarrow> tasksUpdated f f'"
proof (induction tis arbitrary: c f errs)
  case Nil
  then show ?case by simp
next
  case (Cons ti tis)
  from Cons.prems(2) obtain c1 f1 errs1 where a: "syncTaskAt c f cm ri ti errs = Some (c1, f1, errs1)"
    and b: "syncTasks c1 f1 cm ri tis errs1 = Some (c', f', errs')"
    by (auto split: option.splits)
  from syncTaskAt_frame [OF Cons.prems(1) a] have u: "tasksUpdated f f1" .
  then have "IsCompleting f1" using Cons.prems(1) by (simp add: State_tasksUpdated)
  from Cons.IH [OF this b] u show ?case by (blast intro: tasksUpdated_trans)
qed

lemma syncRoles_frame:
  "IsCompleting f \<Longrightarrow> syncRoles c f cm ris errs = Some (c', f', errs') \<Longrightarrow> tasksUpdated f f'"
proof (induction ris arbitrary: c f errs)
  case Nil
  then show ?case by simp
next
  case (Cons ri ris)
  from Cons.prems(2) obtain c1 f1 errs1 where
    a: "syncTasks c f cm ri [0..<length (TaskStatuses (FTaskRoleStatuses f ! ri))] errs = Some (c1, f1, errs1)"
    and b: "syncRoles c1 f1 cm ris errs1 = Some (c', f', errs')"
    by (auto split: option.splits if_splits)
  from syncTasks_frame [OF Cons.prems(1) a] have u: "tasksUpdated f f1" .
  then have "IsCompleting f1" using Cons.prems(1) by (simp add: State_tasksUpdated)
  from Cons.IH [OF this b] u show ?case by (blast intro: tasksUpdated_trans)
qed

lemma syncTaskRoleStatuses_frame:
  assumes "IsCompleting f" and "syncTaskRoleStatuses c f cm = Some (c', f', e)"
  shows "tasksUpdated f f'"
  using assms(2) syncRoles_frame [OF assms(1)]
  by (auto simp: syncTaskRoleStatuses_def split: option.splits)

lemma syncFrameworkAttempt_stop:
  assumes "\<not> IsCompleting f" and "ExecutionType (Spec f) = ExecutionStop"
  shows "\<exists>c1 f1.
      completeFrameworkAttempt c f False
        (Some (NewFrameworkAttemptCompletionStatus CompletionCodeStopFrameworkRequested
                 ''User has requested to stop the Framework'' None)) = Some (c1, f1) \<and>
      FrameworkStatus.State (Status f1) = FrameworkAttemptDeletionPending \<and>
      frameworkCompletionStatus f1 =
        (if frameworkCompletionStatus f = None
         then Some (NewFrameworkAttemptCompletionStatus CompletionCodeStopFrameworkRequested
                      ''User has requested to stop the Framework'' None)
         else frameworkCompletionStatus f) \<and>
      syncFrameworkAttempt c f cm = syncTaskRoleStatuses c1 f1 cm \<and>
      (\<forall>c' f' err. syncTaskRoleStatuses c1 f1 cm = Some (c', f', err) \<longrightarrow>
         FrameworkStatus.State (Status f') = FrameworkAttemptDeletionPending \<and>
         frameworkCompletionStatus f' = frameworkCompletionStatus f1)"
proof -
  let ?stop = "Some (NewFrameworkAttemptCompletionStatus CompletionCodeStopFrameworkRequested
                 ''User has requested to stop the Framework'' None)"
  from completeFrameworkAttempt_Some [of False f c ?stop]
  obtain c1 f1 where k: "completeFrameworkAttempt c f False ?stop = Some (c1, f1)"
    "frameworkCompletionStatus f1 =
       (if frameworkCompletionStatus f = None then ?stop else frameworkCompletionStatus f)"
    "FrameworkStatus.State (Status f1) = FrameworkAttemptDeletionPending"
    by auto
  have ic: "IsCompleting f1" using k(3) by (simp add: IsCompleting_def)
  have fr: "FrameworkStatus.State (Status f') = FrameworkAttemptDeletionPending \<and>
         frameworkCompletionStatus f' = frameworkCompletionStatus f1"
    if "syncTaskRoleStatuses c1 f1 cm = Some (c', f', err)" for c' f' err
    using syncTaskRoleStatuses_frame [OF ic that] k(3)
    by (simp add: State_tasksUpdated fcs_tasksUpdated)
  have "syncFrameworkAttempt c f cm = syncTaskRoleStatuses c1 f1 cm"
  proof (cases "syncTaskRoleStatuses c1 f1 cm")
    case None
    with assms k(1) ic show ?thesis by (simp add: syncFrameworkAttempt_def)
  next
    case (Some r)
    obtain c3 f3 err where r: "r = (c3, f3, err)" by (cases r)
    from fr [of c3 f3 err] Some r have "FrameworkStatus.State (Status f3) = FrameworkAttemptDeletionPending"
      by simp
    with assms k(1) ic Some r show ?thesis by (simp add: syncFrameworkAttempt_def)
  qed
  with k fr show ?thesis by blast
qed

lemma syncFrameworkAttempt_completing:
  assumes "IsCompleting f"
  shows "syncFrameworkAttempt c f cm = syncTaskRoleStatuses c f cm \<and>
         (\<forall>c' f' err. syncTaskRoleStatuses c f cm = Some (c', f', err) \<longrightarrow>
            FrameworkStatus.State (Status f') = FrameworkStatus.State (Status f) \<and>
            frameworkCompletionStatus f' = frameworkCompletionStatus f)"
proof -
  have fr: "FrameworkStatus.State (Status f') = FrameworkStatus.State (Status f) \<and>
         frameworkCompletionStatus f' = frameworkCompletionStatus f"
    if "syncTaskRoleStatuses c f cm = Some (c', f', err)" for c' f' err
    using syncTaskRoleStatuses_frame [OF assms that]
    by (simp add: State_tasksUpdated fcs_tasksUpdated)
  have np: "FrameworkStatus.State (Status f) \<noteq> FrameworkAttemptPreparing"
    using assms by (auto simp: IsCompleting_def)
  have "syncFrameworkAttempt c f cm = syncTaskRoleStatuses c f cm"
  proof (cases "syncTaskRoleStatuses c f cm")
    case None
    with assms show ?thesis by (simp add: syncFrameworkAttempt_def)
  next
    case (Some r)
    obtain c3 f3 err where r: "r = (c3, f3, err)" by (cases r)
    from fr [of c3 f3 err] Some r np
    have "FrameworkStatus.State (Status f3) \<noteq> FrameworkAttemptPreparing" by simp
    with assms Some r show ?thesis by (simp add: syncFrameworkAttempt_def)
  qed
  with fr show ?thesis by blast
qed

lemma syncFrameworkConfigMap_present:
  assumes "cmLister c (Namespace f) (ConfigMapNameOf f) = Inr cm"
    and "ConfigMapUIDOf f = Some (ConfigMap.UID cm)"
    and "ConfigMap.DeletionTimestamp cm = None"
    and "FrameworkStatus.State (Status f) \<noteq> FrameworkAttemptDeletionPending"
  shows "syncFrameworkConfigMap c f =
           Some (Continue (c,
                   if FrameworkStatus.State (Status f) = FrameworkAttemptCreationRequested
                   then TransitionFrameworkState (now c) f FrameworkAttemptPreparing else f,
                   Some cm))"
proof -
  have "getOrCleanupConfigMap c f False = (c, Some cm, None)"
    using assms(1,2) by (simp add: getOrCleanupConfigMap_def Let_def)
  then show ?thesis
    using assms(3,4) by (simp add: syncFrameworkConfigMap_def)
qed

lemma syncFrameworkConfigMap_missing:
  assumes "cmLister c (Namespace f) (ConfigMapNameOf f) = Inl e" and "IsNotFound e"
    and "FrameworkStatus.State (Status f) \<noteq> FrameworkAttemptCreationRequested"
    and "FrameworkStatus.State (Status f) \<noteq> FrameworkAttemptCreationPending"
    and "tasksFindable f"
  shows "\<exists>c' f'. syncFrameworkConfigMap c f = Some (Return (c', f', None)) \<and>
           FrameworkStatus.State (Status f') = FrameworkAttemptCompleted \<and>
           frameworkCompletionStatus f' =
             (if frameworkCompletionStatus f = None
              then Some (NewFrameworkAttemptCompletionStatus CompletionCodeConfigMapExternalDeleted
                           ''ConfigMap was deleted by others'' None)
              else frameworkCompletionStatus f)"
proof -
  let ?cs = "if frameworkCompletionStatus f = None
             then Some (NewFrameworkAttemptCompletionStatus CompletionCodeConfigMapExternalDeleted
                          ''ConfigMap was deleted by others'' None)
             else None"
  have g: "getOrCleanupConfigMap c f False = (c, None, None)"
    using assms(1,2) by (simp add: getOrCleanupConfigMap_def Let_def)
  from completeFrameworkAttempt_Some [of True f c ?cs] assms(5)
  obtain c' f' where k: "completeFrameworkAttempt c f True ?cs = Some (c', f')"
    "frameworkCompletionStatus f' =
       (if frameworkCompletionStatus f = None then ?cs else frameworkCompletionStatus f)"
    "FrameworkStatus.State (Status f') = FrameworkAttemptCompleted"
    by auto
  have "syncFrameworkConfigMap c f = Some (Return (c', f', None))"
    using g assms(3,4) k(1)
    by (simp add: syncFrameworkConfigMap_def frameworkCompletionStatus_def)
  with k show ?thesis by auto
qed

lemma syncFrameworkConfigMap_deleting:
  assumes "cmLister c (Namespace f) (ConfigMapNameOf f) = Inr cm"
    and "ConfigMapUIDOf f = Some (ConfigMap.UID cm)"
    and "ConfigMap.DeletionTimestamp cm \<noteq> None"
  shows "syncFrameworkConfigMap c f =
           Some (Continue (c,
                   TransitionFrameworkState (now c)
                     (if frameworkCompletionStatus f = None
                      then setFrameworkCompletionStatus
                             (Some (NewFrameworkAttemptCompletionStatus
                                      CompletionCodeConfigMapExternalDeleted
                                      ''ConfigMap is being deleted by others'' None)) f
                      else f)
                     FrameworkAttemptDeleting,
                   Some cm))"
proof -
  have g: "getOrCleanupConfigMap c f False = (c, Some cm, None)"
    using assms(1,2) by (simp add: getOrCleanupConfigMap_def Let_def)
  from assms(3) obtain t where "ConfigMap.DeletionTimestamp cm = Some t" by auto
  with g show ?thesis
    by (simp add: syncFrameworkConfigMap_def frameworkCompletionStatus_def Let_def)
qed

lemma fcs_setFrameworkCompletionStatus [simp]:
  "frameworkCompletionStatus (setFrameworkCompletionStatus cs f) = cs"
  by (simp add: setFrameworkCompletionStatus_def frameworkCompletionStatus_def)

text \<open>
  C7. \<^verbatim>\<open>syncFrameworkState\<close> on a framework whose \<^verbatim>\<open>spec.executionType\<close> is \<^verbatim>\<open>Stop\<close>.
  If the local cache holds the ConfigMap of the attempt (with the recorded UID) and it is
  not being deleted: from \<^verbatim>\<open>FrameworkAttemptCreationRequested\<close> (which then becomes
  \<^verbatim>\<open>Preparing\<close>), \<^verbatim>\<open>Preparing\<close> or \<^verbatim>\<open>Running\<close> the attempt is completed unforced with the code
  \<^verbatim>\<open>StopFrameworkRequested\<close>: the CompletionStatus, nil before, is that status, the state
  is \<^verbatim>\<open>FrameworkAttemptDeletionPending\<close>, and the rest of the sync is the sync of the tasks,
  which leaves both as they are; from \<^verbatim>\<open>FrameworkAttemptDeletionRequested\<close> or \<^verbatim>\<open>Deleting\<close> the
  attempt is completing already, the sync is the sync of the tasks alone, and the state
  and the CompletionStatus stay as they were.
  If the cache does not hold the ConfigMap, in a state other than
  \<^verbatim>\<open>FrameworkAttemptCreationRequested\<close> and \<^verbatim>\<open>CreationPending\<close> (and not yet
  \<^verbatim>\<open>FrameworkAttemptCompleted\<close> or \<^verbatim>\<open>FrameworkCompleted\<close>), the attempt is completed forced,
  with the code \<^verbatim>\<open>ConfigMapExternalDeleted\<close> if its CompletionStatus was nil, whatever the
  execution type. If the ConfigMap in the cache is being deleted, the CompletionStatus,
  nil before, gets the code \<^verbatim>\<open>ConfigMapExternalDeleted\<close>, the state is
  \<^verbatim>\<open>FrameworkAttemptDeleting\<close>, and the sync of the tasks keeps both, whatever the execution
  type.
  And a framework in \<^verbatim>\<open>FrameworkAttemptCompleted\<close> whose retry is scheduled (\<^verbatim>\<open>RetryDelaySec\<close>
  is set) is retried at once under \<^verbatim>\<open>Stop\<close>, whatever the delay and the time: no timeout
  check is enqueued, only the sync of the new attempt, and \<^verbatim>\<open>TotalRetriedCount\<close> is
  incremented as an \<^verbatim>\<open>int32\<close>.
\<close>

theorem stop_completes_attempt_and_skips_retry_delay:
  "(cmLister c (Namespace f) (ConfigMapNameOf f) = Inr cm \<and>
    ConfigMapUIDOf f = Some (ConfigMap.UID cm) \<and> ConfigMap.DeletionTimestamp cm = None \<and>
    (FrameworkStatus.State (Status f) = FrameworkAttemptCreationRequested \<or>
     FrameworkStatus.State (Status f) = FrameworkAttemptPreparing \<or>
     FrameworkStatus.State (Status f) = FrameworkAttemptRunning) \<and>
    ExecutionType (Spec f) = ExecutionStop \<longrightarrow>
      (\<exists>c1 f1.
         completeFrameworkAttempt c
           (if FrameworkStatus.State (Status f) = FrameworkAttemptCreationRequested
            then TransitionFrameworkState (now c) f FrameworkAttemptPreparing else f) False
           (Some (NewFrameworkAttemptCompletionStatus CompletionCodeStopFrameworkRequested
                    ''User has requested to stop the Framework'' None)) = Some (c1, f1) \<and>
         FrameworkStatus.State (Status f1) = FrameworkAttemptDeletionPending \<and>
         frameworkCompletionStatus f1 =
           (if frameworkCompletionStatus f = None
            then Some (NewFrameworkAttemptCompletionStatus CompletionCodeStopFrameworkRequested
                         ''User has requested to stop the Framework'' None)
            else frameworkCompletionStatus f) \<and>
         syncFrameworkState c f = syncTaskRoleStatuses c1 f1 (Some cm) \<and>
         (\<forall>c' f' err. syncFrameworkState c f = Some (c', f', err) \<longrightarrow>
            FrameworkStatus.State (Status f') = FrameworkAttemptDeletionPending \<and>
            frameworkCompletionStatus f' = frameworkCompletionStatus f1)))
   \<and> (cmLister c (Namespace f) (ConfigMapNameOf f) = Inr cm \<and>
      ConfigMapUIDOf f = Some (ConfigMap.UID cm) \<and> ConfigMap.DeletionTimestamp cm = None \<and>
      (FrameworkStatus.State (Status f) = FrameworkAttemptDeletionRequested \<or>
       FrameworkStatus.State (Status f) = FrameworkAttemptDeleting) \<longrightarrow>
        syncFrameworkState c f = syncTaskRoleStatuses c f (Some cm) \<and>
        (\<forall>c' f' err. syncFrameworkState c f = Some (c', f', err) \<longrightarrow>
           FrameworkStatus.State (Status f') = FrameworkStatus.State (Status f) \<and>
           frameworkCompletionStatus f' = frameworkCompletionStatus f))
   \<and> (cmLister c (Namespace f) (ConfigMapNameOf f) = Inl e \<and> IsNotFound e \<and>
      (FrameworkStatus.State (Status f) = FrameworkAttemptPreparing \<or>
       FrameworkStatus.State (Status f) = FrameworkAttemptRunning \<or>
       FrameworkStatus.State (Status f) = FrameworkAttemptDeletionPending \<or>
       FrameworkStatus.State (Status f) = FrameworkAttemptDeletionRequested \<or>
       FrameworkStatus.State (Status f) = FrameworkAttemptDeleting) \<and>
      tasksFindable f \<longrightarrow>
        (\<exists>c' f'. syncFrameworkState c f = Some (c', f', None) \<and>
           FrameworkStatus.State (Status f') = FrameworkAttemptCompleted \<and>
           frameworkCompletionStatus f' =
             (if frameworkCompletionStatus f = None
              then Some (NewFrameworkAttemptCompletionStatus CompletionCodeConfigMapExternalDeleted
                           ''ConfigMap was deleted by others'' None)
              else frameworkCompletionStatus f)))
   \<and> (cmLister c (Namespace f) (ConfigMapNameOf f) = Inr cm \<and>
      ConfigMapUIDOf f = Some (ConfigMap.UID cm) \<and> ConfigMap.DeletionTimestamp cm \<noteq> None \<and>
      FrameworkStatus.State (Status f) \<noteq> FrameworkCompleted \<and>
      FrameworkStatus.State (Status f) \<noteq> FrameworkAttemptCompleted \<longrightarrow>
        (\<forall>c' f' err. syncFrameworkState c f = Some (c', f', err) \<longrightarrow>
           FrameworkStatus.State (Status f') = FrameworkAttemptDeleting \<and>
           frameworkCompletionStatus f' =
             (if frameworkCompletionStatus f = None
              then Some (NewFrameworkAttemptCompletionStatus CompletionCodeConfigMapExternalDeleted
                           ''ConfigMap is being deleted by others'' None)
              else frameworkCompletionStatus f)))
   \<and> (FrameworkStatus.State (Status f) = FrameworkAttemptCompleted \<and>
      frameworkCompletionStatus f = Some cs \<and>
      RetryDelaySec (FrameworkStatus.RetryPolicyStatus (Status f)) = Some d \<and>
      ExecutionType (Spec f) = ExecutionStop \<longrightarrow>
        (\<exists>c' f'. syncFrameworkState c f = Some (c', f', None) \<and>
           fQueue c' = fQueue c @ [Add (Key f)] \<and>
           FrameworkStatus.State (Status f') = FrameworkAttemptCreationPending \<and>
           TotalRetriedCount (FrameworkStatus.RetryPolicyStatus (Status f')) =
             int32 (TotalRetriedCount (FrameworkStatus.RetryPolicyStatus (Status f)) + 1) \<and>
           RetryDelaySec (FrameworkStatus.RetryPolicyStatus (Status f')) = None \<and>
           frameworkCompletionStatus f' = None))"
proof (rule conjI [OF impI conjI [OF impI conjI [OF impI conjI [OF impI impI]]]])
  let ?f0 = "if FrameworkStatus.State (Status f) = FrameworkAttemptCreationRequested
            then TransitionFrameworkState (now c) f FrameworkAttemptPreparing else f"
  assume a: "cmLister c (Namespace f) (ConfigMapNameOf f) = Inr cm \<and>
    ConfigMapUIDOf f = Some (ConfigMap.UID cm) \<and> ConfigMap.DeletionTimestamp cm = None \<and>
    (FrameworkStatus.State (Status f) = FrameworkAttemptCreationRequested \<or>
     FrameworkStatus.State (Status f) = FrameworkAttemptPreparing \<or>
     FrameworkStatus.State (Status f) = FrameworkAttemptRunning) \<and>
    ExecutionType (Spec f) = ExecutionStop"
  then have st: "FrameworkStatus.State (Status f) = FrameworkAttemptCreationRequested \<or>
     FrameworkStatus.State (Status f) = FrameworkAttemptPreparing \<or>
     FrameworkStatus.State (Status f) = FrameworkAttemptRunning" by blast
  have s0: "FrameworkStatus.State (Status ?f0) = FrameworkAttemptPreparing \<or>
            FrameworkStatus.State (Status ?f0) = FrameworkAttemptRunning"
    using st by auto
  then have nc: "\<not> IsCompleting ?f0" by (auto simp: IsCompleting_def)
  have sp: "ExecutionType (Spec ?f0) = ExecutionStop"
    using a by (simp add: TransitionFrameworkState_def)
  have k0: "frameworkCompletionStatus ?f0 = frameworkCompletionStatus f" by simp
  from a st have cmap: "syncFrameworkConfigMap c f = Some (Continue (c, ?f0, Some cm))"
    by (intro syncFrameworkConfigMap_present) auto
  have eq: "syncFrameworkState c f = syncFrameworkAttempt c ?f0 (Some cm)"
    using st s0 unfolding syncFrameworkState_def cmap by auto
  from syncFrameworkAttempt_stop [OF nc sp, of c "Some cm"]
  show "\<exists>c1 f1.
         completeFrameworkAttempt c ?f0 False
           (Some (NewFrameworkAttemptCompletionStatus CompletionCodeStopFrameworkRequested
                    ''User has requested to stop the Framework'' None)) = Some (c1, f1) \<and>
         FrameworkStatus.State (Status f1) = FrameworkAttemptDeletionPending \<and>
         frameworkCompletionStatus f1 =
           (if frameworkCompletionStatus f = None
            then Some (NewFrameworkAttemptCompletionStatus CompletionCodeStopFrameworkRequested
                         ''User has requested to stop the Framework'' None)
            else frameworkCompletionStatus f) \<and>
         syncFrameworkState c f = syncTaskRoleStatuses c1 f1 (Some cm) \<and>
         (\<forall>c' f' err. syncFrameworkState c f = Some (c', f', err) \<longrightarrow>
            FrameworkStatus.State (Status f') = FrameworkAttemptDeletionPending \<and>
            frameworkCompletionStatus f' = frameworkCompletionStatus f1)"
    unfolding eq k0 by metis
next
  assume b: "cmLister c (Namespace f) (ConfigMapNameOf f) = Inr cm \<and>
      ConfigMapUIDOf f = Some (ConfigMap.UID cm) \<and> ConfigMap.DeletionTimestamp cm = None \<and>
      (FrameworkStatus.State (Status f) = FrameworkAttemptDeletionRequested \<or>
       FrameworkStatus.State (Status f) = FrameworkAttemptDeleting)"
  then have st: "FrameworkStatus.State (Status f) = FrameworkAttemptDeletionRequested \<or>
       FrameworkStatus.State (Status f) = FrameworkAttemptDeleting" by blast
  then have ic: "IsCompleting f" by (auto simp: IsCompleting_def)
  from b st have cmap: "syncFrameworkConfigMap c f =
      Some (Continue (c,
              if FrameworkStatus.State (Status f) = FrameworkAttemptCreationRequested
              then TransitionFrameworkState (now c) f FrameworkAttemptPreparing else f,
              Some cm))"
    by (intro syncFrameworkConfigMap_present) auto
  have eq: "syncFrameworkState c f = syncFrameworkAttempt c f (Some cm)"
    using st unfolding syncFrameworkState_def cmap by auto
  from syncFrameworkAttempt_completing [OF ic, of c "Some cm"]
  show "syncFrameworkState c f = syncTaskRoleStatuses c f (Some cm) \<and>
        (\<forall>c' f' err. syncFrameworkState c f = Some (c', f', err) \<longrightarrow>
           FrameworkStatus.State (Status f') = FrameworkStatus.State (Status f) \<and>
           frameworkCompletionStatus f' = frameworkCompletionStatus f)"
    unfolding eq by metis
next
  assume m: "cmLister c (Namespace f) (ConfigMapNameOf f) = Inl e \<and> IsNotFound e \<and>
      (FrameworkStatus.State (Status f) = FrameworkAttemptPreparing \<or>
       FrameworkStatus.State (Status f) = FrameworkAttemptRunning \<or>
       FrameworkStatus.State (Status f) = FrameworkAttemptDeletionPending \<or>
       FrameworkStatus.State (Status f) = FrameworkAttemptDeletionRequested \<or>
       FrameworkStatus.State (Status f) = FrameworkAttemptDeleting) \<and>
      tasksFindable f"
  then have st: "FrameworkStatus.State (Status f) = FrameworkAttemptPreparing \<or>
       FrameworkStatus.State (Status f) = FrameworkAttemptRunning \<or>
       FrameworkStatus.State (Status f) = FrameworkAttemptDeletionPending \<or>
       FrameworkStatus.State (Status f) = FrameworkAttemptDeletionRequested \<or>
       FrameworkStatus.State (Status f) = FrameworkAttemptDeleting" by blast
  from m st have "\<exists>c' f'. syncFrameworkConfigMap c f = Some (Return (c', f', None)) \<and>
           FrameworkStatus.State (Status f') = FrameworkAttemptCompleted \<and>
           frameworkCompletionStatus f' =
             (if frameworkCompletionStatus f = None
              then Some (NewFrameworkAttemptCompletionStatus CompletionCodeConfigMapExternalDeleted
                           ''ConfigMap was deleted by others'' None)
              else frameworkCompletionStatus f)"
    by (intro syncFrameworkConfigMap_missing [of c f e]) auto
  then obtain c' f' where k: "syncFrameworkConfigMap c f = Some (Return (c', f', None))"
    "FrameworkStatus.State (Status f') = FrameworkAttemptCompleted"
    "frameworkCompletionStatus f' =
             (if frameworkCompletionStatus f = None
              then Some (NewFrameworkAttemptCompletionStatus CompletionCodeConfigMapExternalDeleted
                           ''ConfigMap was deleted by others'' None)
              else frameworkCompletionStatus f)"
    by blast
  have "syncFrameworkState c f = Some (c', f', None)"
    using st unfolding syncFrameworkState_def k(1) by auto
  with k show "\<exists>c' f'. syncFrameworkState c f = Some (c', f', None) \<and>
           FrameworkStatus.State (Status f') = FrameworkAttemptCompleted \<and>
           frameworkCompletionStatus f' =
             (if frameworkCompletionStatus f = None
              then Some (NewFrameworkAttemptCompletionStatus CompletionCodeConfigMapExternalDeleted
                           ''ConfigMap was deleted by others'' None)
              else frameworkCompletionStatus f)"
    by blast
next
  let ?fd = "TransitionFrameworkState (now c)
                     (if frameworkCompletionStatus f = None
                      then setFrameworkCompletionStatus
                             (Some (NewFrameworkAttemptCompletionStatus
                                      CompletionCodeConfigMapExternalDeleted
                                      ''ConfigMap is being deleted by others'' None)) f
                      else f)
                     FrameworkAttemptDeleting"
  assume g: "cmLister c (Namespace f) (ConfigMapNameOf f) = Inr cm \<and>
      ConfigMapUIDOf f = Some (ConfigMap.UID cm) \<and> ConfigMap.DeletionTimestamp cm \<noteq> None \<and>
      FrameworkStatus.State (Status f) \<noteq> FrameworkCompleted \<and>
      FrameworkStatus.State (Status f) \<noteq> FrameworkAttemptCompleted"
  then have cmap: "syncFrameworkConfigMap c f = Some (Continue (c, ?fd, Some cm))"
    by (intro syncFrameworkConfigMap_deleting) auto
  have sd: "FrameworkStatus.State (Status ?fd) = FrameworkAttemptDeleting" by simp
  then have ic: "IsCompleting ?fd" by (simp add: IsCompleting_def)
  have kd: "frameworkCompletionStatus ?fd =
             (if frameworkCompletionStatus f = None
              then Some (NewFrameworkAttemptCompletionStatus CompletionCodeConfigMapExternalDeleted
                           ''ConfigMap is being deleted by others'' None)
              else frameworkCompletionStatus f)"
    by simp
  have eq: "syncFrameworkState c f = syncFrameworkAttempt c ?fd (Some cm)"
    using g unfolding syncFrameworkState_def cmap by (simp add: sd)
  from syncFrameworkAttempt_completing [OF ic, of c "Some cm"]
  show "\<forall>c' f' err. syncFrameworkState c f = Some (c', f', err) \<longrightarrow>
           FrameworkStatus.State (Status f') = FrameworkAttemptDeleting \<and>
           frameworkCompletionStatus f' =
             (if frameworkCompletionStatus f = None
              then Some (NewFrameworkAttemptCompletionStatus CompletionCodeConfigMapExternalDeleted
                           ''ConfigMap is being deleted by others'' None)
              else frameworkCompletionStatus f)"
    unfolding eq sd kd by metis
next
  assume b: "FrameworkStatus.State (Status f) = FrameworkAttemptCompleted \<and>
      frameworkCompletionStatus f = Some cs \<and>
      RetryDelaySec (FrameworkStatus.RetryPolicyStatus (Status f)) = Some d \<and>
      ExecutionType (Spec f) = ExecutionStop"
  then have s: "FrameworkStatus.State (Status f) = FrameworkAttemptCompleted"
    and k: "frameworkCompletionStatus f = Some cs"
    and r: "RetryDelaySec (FrameworkStatus.RetryPolicyStatus (Status f)) = None \<longrightarrow>
           RetryDecision.ShouldRetry (FrameworkController.ShouldRetry c (FrameworkSpec.RetryPolicy (Spec f))
             (FrameworkStatus.RetryPolicyStatus (Status f)) (Inl cs)
             (FrameworkMinRetryDelaySecForTransientConflictFailed (cConfig c))
             (FrameworkMaxRetryDelaySecForTransientConflictFailed (cConfig c)))"
    and e: "ExecutionType (Spec f) = ExecutionStop \<or>
         FrameworkStatus.TransitionTime (Status f) +
           (case RetryDelaySec (FrameworkStatus.RetryPolicyStatus (Status f)) of
              None \<Rightarrow> DelaySec (FrameworkController.ShouldRetry c (FrameworkSpec.RetryPolicy (Spec f))
             (FrameworkStatus.RetryPolicyStatus (Status f)) (Inl cs)
             (FrameworkMinRetryDelaySecForTransientConflictFailed (cConfig c))
             (FrameworkMaxRetryDelaySecForTransientConflictFailed (cConfig c))) | Some d \<Rightarrow> d) \<le> now c"
    by simp_all
  from syncFrameworkRetry_fires [OF s k refl r e]
  show "\<exists>c' f'. syncFrameworkState c f = Some (c', f', None) \<and>
           fQueue c' = fQueue c @ [Add (Key f)] \<and>
           FrameworkStatus.State (Status f') = FrameworkAttemptCreationPending \<and>
           TotalRetriedCount (FrameworkStatus.RetryPolicyStatus (Status f')) =
             int32 (TotalRetriedCount (FrameworkStatus.RetryPolicyStatus (Status f)) + 1) \<and>
           RetryDelaySec (FrameworkStatus.RetryPolicyStatus (Status f')) = None \<and>
           frameworkCompletionStatus f' = None"
    by (simp add: enqueueFrameworkSync_def NewFrameworkAttemptStatus_def frameworkCompletionStatus_def)
qed

lemma exampleStopped_facts:
  "FrameworkStatus.State (Status exampleStoppedFramework) = FrameworkAttemptRunning"
  "ExecutionType (Spec exampleStoppedFramework) = ExecutionStop"
  "frameworkCompletionStatus exampleStoppedFramework = None"
  "\<not> IsCompleting exampleStoppedFramework"
  "cmLister (exampleManagingController t) (Namespace exampleStoppedFramework)
     (ConfigMapNameOf exampleStoppedFramework) = Inr exampleConfigMap"
  "ConfigMapUIDOf exampleStoppedFramework = Some (ConfigMap.UID exampleConfigMap)"
  "ConfigMap.DeletionTimestamp exampleConfigMap = None"
  by (simp_all add: exampleStoppedFramework_def exampleFramework_def exampleStatus_def exampleSpec_def
      frameworkCompletionStatus_def IsCompleting_def ConfigMapNameOf_def ConfigMapUIDOf_def
      exampleManagingController_def exampleController_def exampleConfigMap_def)

lemma exampleStoppedDeleting_facts:
  "FrameworkStatus.State (Status exampleStoppedDeletingFramework) = FrameworkAttemptDeletionRequested"
  "ExecutionType (Spec exampleStoppedDeletingFramework) = ExecutionStop"
  "frameworkCompletionStatus exampleStoppedDeletingFramework =
     Some (NewFailedTaskTriggeredCompletionStatus (failedTask 0 200) ''worker'' 1 1)"
  "cmLister (exampleManagingController t) (Namespace exampleStoppedDeletingFramework)
     (ConfigMapNameOf exampleStoppedDeletingFramework) = Inr exampleConfigMap"
  "ConfigMapUIDOf exampleStoppedDeletingFramework = Some (ConfigMap.UID exampleConfigMap)"
  by (simp_all add: exampleStoppedDeletingFramework_def exampleStoppedFramework_def exampleFramework_def
      exampleStatus_def exampleSpec_def frameworkCompletionStatus_def ConfigMapNameOf_def
      ConfigMapUIDOf_def exampleManagingController_def exampleController_def exampleConfigMap_def)

lemma exampleStoppedCompleted_facts:
  "FrameworkStatus.State (Status exampleStoppedCompletedFramework) = FrameworkAttemptCompleted"
  "frameworkCompletionStatus exampleStoppedCompletedFramework =
     Some (NewFailedTaskTriggeredCompletionStatus (failedTask 0 200) ''worker'' 1 1)"
  "FrameworkStatus.RetryPolicyStatus (Status exampleStoppedCompletedFramework) =
     \<lparr>TotalRetriedCount = 0, AccountableRetriedCount = 0, RetryDelaySec = Some 3600\<rparr>"
  "ExecutionType (Spec exampleStoppedCompletedFramework) = ExecutionStop"
  "Key exampleStoppedCompletedFramework = ''default/batchstatefulfailed''"
  by (simp_all add: exampleStoppedCompletedFramework_def setFrameworkRetryDelaySec_def
      exampleCompletedFramework_def exampleFailedFramework_def setTaskRoleStatuses_def
      exampleFramework_def exampleStatus_def exampleSpec_def frameworkCompletionStatus_def Key_def)

lemma exampleStopped_returns:
  "(case syncFrameworkState (exampleManagingController 500) exampleStoppedFramework of
      None \<Rightarrow> False
    | Some (c', f', err) \<Rightarrow> err = None)"
  "(case syncFrameworkState (exampleManagingController 500) exampleStoppedDeletingFramework of
      None \<Rightarrow> False
    | Some (c', f', err) \<Rightarrow> err = None)"
  "(case syncFrameworkState (exampleDeletingController 500) exampleStoppedFramework of
      None \<Rightarrow> False
    | Some (c', f', err) \<Rightarrow> err = None)"
  by code_simp+

lemma exampleStopped_cache:
  "cmLister (exampleController None t) (Namespace exampleStoppedFramework)
     (ConfigMapNameOf exampleStoppedFramework) = Inl ErrNotFound"
  "tasksFindable exampleStoppedFramework"
  "cmLister (exampleDeletingController t) (Namespace exampleStoppedFramework)
     (ConfigMapNameOf exampleStoppedFramework) =
     Inr (exampleConfigMap\<lparr>ConfigMap.DeletionTimestamp := Some 450\<rparr>)"
  "ConfigMapUIDOf exampleStoppedFramework =
     Some (ConfigMap.UID (exampleConfigMap\<lparr>ConfigMap.DeletionTimestamp := Some 450\<rparr>))"
  by (simp add: exampleController_def, code_simp,
      simp add: exampleDeletingController_def exampleController_def,
      simp add: exampleStopped_facts(6))

text \<open>
  The stopped example framework while it runs: its attempt is completed with
  \<^verbatim>\<open>StopFrameworkRequested\<close>. The same framework once the deletion of its ConfigMap is
  requested: its CompletionStatus stays as it was. And once its attempt is completed, with
  a retry scheduled an hour after time 250: at time 260 it is retried. The running
  framework again with its ConfigMap missing from the cache, and with its ConfigMap being
  deleted: the attempt gets the code \<^verbatim>\<open>ConfigMapExternalDeleted\<close>.
\<close>

theorem stop_completes_attempt_and_skips_retry_delay_witness:
  "FrameworkStatus.State (Status exampleStoppedFramework) = FrameworkAttemptRunning
   \<and> ExecutionType (Spec exampleStoppedFramework) = ExecutionStop
   \<and> (\<exists>c' f'. syncFrameworkState (exampleManagingController 500) exampleStoppedFramework
                  = Some (c', f', None) \<and>
        FrameworkStatus.State (Status f') = FrameworkAttemptDeletionPending \<and>
        frameworkCompletionStatus f' =
          Some (NewFrameworkAttemptCompletionStatus CompletionCodeStopFrameworkRequested
                  ''User has requested to stop the Framework'' None))
   \<and> (\<exists>c' f'. syncFrameworkState (exampleManagingController 500) exampleStoppedDeletingFramework
                  = Some (c', f', None) \<and>
        FrameworkStatus.State (Status f') = FrameworkAttemptDeletionRequested \<and>
        frameworkCompletionStatus f' =
          Some (NewFailedTaskTriggeredCompletionStatus (failedTask 0 200) ''worker'' 1 1))
   \<and> (\<exists>c' f'. syncFrameworkState (exampleController None 260) exampleStoppedCompletedFramework
                  = Some (c', f', None) \<and>
        fQueue c' = [Add ''default/batchstatefulfailed''] \<and>
        FrameworkStatus.State (Status f') = FrameworkAttemptCreationPending \<and>
        TotalRetriedCount (FrameworkStatus.RetryPolicyStatus (Status f')) = 1)
   \<and> (\<exists>c' f'. syncFrameworkState (exampleController None 500) exampleStoppedFramework
                  = Some (c', f', None) \<and>
        FrameworkStatus.State (Status f') = FrameworkAttemptCompleted \<and>
        frameworkCompletionStatus f' =
          Some (NewFrameworkAttemptCompletionStatus CompletionCodeConfigMapExternalDeleted
                  ''ConfigMap was deleted by others'' None))
   \<and> (\<exists>c' f'. syncFrameworkState (exampleDeletingController 500) exampleStoppedFramework
                  = Some (c', f', None) \<and>
        FrameworkStatus.State (Status f') = FrameworkAttemptDeleting \<and>
        frameworkCompletionStatus f' =
          Some (NewFrameworkAttemptCompletionStatus CompletionCodeConfigMapExternalDeleted
                  ''ConfigMap is being deleted by others'' None))"
proof -
  note T = stop_completes_attempt_and_skips_retry_delay
  from exampleStopped_returns(1) obtain c' f' where
    r: "syncFrameworkState (exampleManagingController 500) exampleStoppedFramework = Some (c', f', None)"
    by (auto split: option.splits)
  from T [where f = exampleStoppedFramework and c = "exampleManagingController 500"
      and cm = exampleConfigMap, THEN conjunct1] r
  have one: "FrameworkStatus.State (Status f') = FrameworkAttemptDeletionPending \<and>
        frameworkCompletionStatus f' =
          Some (NewFrameworkAttemptCompletionStatus CompletionCodeStopFrameworkRequested
                  ''User has requested to stop the Framework'' None)"
    by (simp add: exampleStopped_facts) metis
  from exampleStopped_returns(2) obtain c'' f'' where
    r2: "syncFrameworkState (exampleManagingController 500) exampleStoppedDeletingFramework
           = Some (c'', f'', None)"
    by (auto split: option.splits)
  from T [where f = exampleStoppedDeletingFramework and c = "exampleManagingController 500"
      and cm = exampleConfigMap, THEN conjunct2, THEN conjunct1] r2
  have two: "FrameworkStatus.State (Status f'') = FrameworkAttemptDeletionRequested \<and>
        frameworkCompletionStatus f'' =
          Some (NewFailedTaskTriggeredCompletionStatus (failedTask 0 200) ''worker'' 1 1)"
    by (simp add: exampleStoppedDeleting_facts exampleStopped_facts(7))
  have q: "fQueue (exampleController None 260) = []" by (simp add: exampleController_def)
  from T [where f = exampleStoppedCompletedFramework and d = 3600 and c = "exampleController None 260"
      and cs = "NewFailedTaskTriggeredCompletionStatus (failedTask 0 200) ''worker'' 1 1",
      THEN conjunct2, THEN conjunct2, THEN conjunct2, THEN conjunct2]
  have three: "\<exists>c' f'. syncFrameworkState (exampleController None 260) exampleStoppedCompletedFramework
                  = Some (c', f', None) \<and>
        fQueue c' = [Add ''default/batchstatefulfailed''] \<and>
        FrameworkStatus.State (Status f') = FrameworkAttemptCreationPending \<and>
        TotalRetriedCount (FrameworkStatus.RetryPolicyStatus (Status f')) = 1"
    by (simp add: exampleStoppedCompleted_facts q int32_id) blast
  from T [where f = exampleStoppedFramework and c = "exampleController None 500" and e = ErrNotFound,
      THEN conjunct2, THEN conjunct2, THEN conjunct1]
  have four: "\<exists>c' f'. syncFrameworkState (exampleController None 500) exampleStoppedFramework
                  = Some (c', f', None) \<and>
        FrameworkStatus.State (Status f') = FrameworkAttemptCompleted \<and>
        frameworkCompletionStatus f' =
          Some (NewFrameworkAttemptCompletionStatus CompletionCodeConfigMapExternalDeleted
                  ''ConfigMap was deleted by others'' None)"
    by (simp add: exampleStopped_facts(1,3) exampleStopped_cache IsNotFound_def)
  from exampleStopped_returns(3) obtain c3 f3 where
    r3: "syncFrameworkState (exampleDeletingController 500) exampleStoppedFramework = Some (c3, f3, None)"
    by (auto split: option.splits)
  from T [where f = exampleStoppedFramework and c = "exampleDeletingController 500"
      and cm = "exampleConfigMap\<lparr>ConfigMap.DeletionTimestamp := Some 450\<rparr>",
      THEN conjunct2, THEN conjunct2, THEN conjunct2, THEN conjunct1] r3
  have five: "FrameworkStatus.State (Status f3) = FrameworkAttemptDeleting \<and>
        frameworkCompletionStatus f3 =
          Some (NewFrameworkAttemptCompletionStatus CompletionCodeConfigMapExternalDeleted
                  ''ConfigMap is being deleted by others'' None)"
    by (simp add: exampleStopped_facts(1,3) exampleStopped_cache)
  from r one r2 two three four r3 five exampleStopped_facts(1,2) show ?thesis by blast
qed

text \<open>
  The stopped example framework while it runs, seen by a controller whose cache does not
  hold the ConfigMap of the attempt: the attempt is completed with
  \<^verbatim>\<open>ConfigMapExternalDeleted\<close>, and the stop request leaves no trace.
\<close>

theorem stop_with_missing_configmap:
  "FrameworkStatus.State (Status exampleStoppedFramework) = FrameworkAttemptRunning
   \<and> \<not> IsCompleting exampleStoppedFramework
   \<and> ExecutionType (Spec exampleStoppedFramework) = ExecutionStop
   \<and> frameworkCompletionStatus exampleStoppedFramework = None
   \<and> (case syncFrameworkState (exampleController None 500) exampleStoppedFramework of
         None \<Rightarrow> False
       | Some (c', f', err) \<Rightarrow>
           err = None \<and>
           FrameworkStatus.State (Status f') = FrameworkAttemptCompleted \<and>
           frameworkCompletionStatus f' =
             Some (NewFrameworkAttemptCompletionStatus CompletionCodeConfigMapExternalDeleted
                     ''ConfigMap was deleted by others'' None))"
  by code_simp

end
